theory Spec2Isabelle
  imports Complex_Main "HOL-Library.Word"
begin

section \<open>Values, errors and matrices\<close>

text \<open>
  The library computes with C++ \<open>double\<close> and \<open>unsigned int\<close>.  A \<open>double\<close> is
  idealised as a \<^typ>\<open>real\<close> (no rounding, no NaN); an \<open>unsigned int\<close> is a 32-bit word,
  so that its additions and subtractions wrap around as they do in the program.

  The program raises \<open>MultivariateSplines::Exception\<close> with a message,
  \<open>std::invalid_argument\<close> and \<open>std::out_of_range\<close>; \<open>assert\<close> and Eigen's own dimension
  assertions abort.  Each of them is a value of \<open>error\<close>.  A member function of
  \<open>BSpline\<close> returns its outcome together with the object as it is left behind: an
  exception does not undo what the function did to the object before raising.
\<close>

type_synonym uint = "32 word"

datatype error =
    Exception string
  | invalid_argument string
  | out_of_range string
  | assertion_failure

record DenseMatrix =
  rows :: nat
  cols :: nat
  elems :: "real list list"

type_synonym SparseMatrix = DenseMatrix

definition wf_matrix :: "DenseMatrix \<Rightarrow> bool" where
  "wf_matrix A \<longleftrightarrow> length (elems A) = rows A \<and> list_all (\<lambda>r. length r = cols A) (elems A)"

definition dot :: "real list \<Rightarrow> real list \<Rightarrow> real" where
  "dot u v = sum_list (map2 (*) u v)"

definition column :: "DenseMatrix \<Rightarrow> nat \<Rightarrow> real list" where
  "column A j = map (\<lambda>r. r ! j) (elems A)"

text \<open>\<open>A.transpose()\<close>\<close>

definition transpose_matrix :: "DenseMatrix \<Rightarrow> DenseMatrix" where
  "transpose_matrix A = \<lparr>rows = cols A, cols = rows A, elems = map (column A) [0..<cols A]\<rparr>"

text \<open>\<open>A * B\<close>: Eigen asserts that the inner dimensions agree.\<close>

definition product :: "DenseMatrix \<Rightarrow> DenseMatrix \<Rightarrow> DenseMatrix" where
  "product A B =
     \<lparr>rows = rows A, cols = cols B,
      elems = map (\<lambda>r. map (\<lambda>j. dot r (column B j)) [0..<cols B]) (elems A)\<rparr>"

definition mult :: "DenseMatrix \<Rightarrow> DenseMatrix \<Rightarrow> error + DenseMatrix" where
  "mult A B = (if cols A \<noteq> rows B then Inl assertion_failure else Inr (product A B))"

text \<open>\<open>A * v\<close> for a vector \<open>v\<close>, with the same assertion.\<close>

definition mult_vec :: "DenseMatrix \<Rightarrow> real list \<Rightarrow> error + real list" where
  "mult_vec A v =
     (if cols A \<noteq> length v then Inl assertion_failure
      else Inr (map (\<lambda>r. dot r v) (elems A)))"

text \<open>\<open>DenseMatrix::Identity(n, n)\<close>, and \<open>Eigen::kroneckerProduct\<close> of two column
  vectors and of two matrices.\<close>

definition identity_matrix :: "nat \<Rightarrow> DenseMatrix" where
  "identity_matrix n =
     \<lparr>rows = n, cols = n,
      elems = map (\<lambda>i. map (\<lambda>c. if c = i then 1 else 0) [0..<n]) [0..<n]\<rparr>"

definition kroneckerProduct :: "real list \<Rightarrow> real list \<Rightarrow> real list" where
  "kroneckerProduct u v = concat (map (\<lambda>a. map (\<lambda>c. a * c) v) u)"

definition kroneckerProductMatrix :: "DenseMatrix \<Rightarrow> DenseMatrix \<Rightarrow> DenseMatrix" where
  "kroneckerProductMatrix A B =
     \<lparr>rows = rows A * rows B, cols = cols A * cols B,
      elems = concat (map (\<lambda>ra. map (\<lambda>rb. kroneckerProduct ra rb) (elems B)) (elems A))\<rparr>"

section \<open>The basis layer\<close>

text \<open>
  Class \<open>BSplineBasis\<close> (\<open>include/bsplinebasis.h\<close>) is not among the source files.  Its
  data and its queries are modelled from the specification's data model; the operations
  whose algorithm the specification leaves open are parameters of the surface
  (\<open>BasisOps\<close> below).
\<close>

record BSplineBasis1D =
  knots :: "real list"
  degree :: uint

type_synonym BSplineBasis = "BSplineBasis1D list"

text \<open>Modelled from the spec: \<open>BSplineBasis::getBasisDegree\<close> and
  \<open>BSplineBasis::getKnotVector\<close>, the degree and the knot vector of one dimension.\<close>

definition getBasisDegree :: "BSplineBasis \<Rightarrow> nat \<Rightarrow> uint" where
  "getBasisDegree b d = degree (b ! d)"

definition getKnotVector :: "BSplineBasis \<Rightarrow> nat \<Rightarrow> real list" where
  "getKnotVector b d = knots (b ! d)"

definition getKnotVectors :: "BSplineBasis \<Rightarrow> real list list" where
  "getKnotVectors b = map knots b"

text \<open>Modelled from the spec: \<open>BSplineBasis::getKnotMultiplicity\<close>, the number of times a
  value repeats in the knot vector of one dimension, as an \<open>unsigned int\<close>.\<close>

definition getKnotMultiplicity :: "BSplineBasis \<Rightarrow> nat \<Rightarrow> real \<Rightarrow> uint" where
  "getKnotMultiplicity b d tau = of_nat (count_list (knots (b ! d)) tau)"

text \<open>Modelled from the spec: the number of basis functions of one dimension is
  \<open>len(knots) - degree - 1\<close>, and that of the tensor basis is the product over the
  dimensions.\<close>

definition numBasisFunctions1D :: "BSplineBasis1D \<Rightarrow> nat" where
  "numBasisFunctions1D b = length (knots b) - unat (degree b) - 1"

definition numBasisFunctions :: "BSplineBasis \<Rightarrow> nat" where
  "numBasisFunctions b = prod_list (map numBasisFunctions1D b)"

text \<open>Modelled from the spec: \<open>lowerBound()\<close> and \<open>upperBound()\<close> of a dimension's basis,
  the first and the last knot of its non-decreasing knot vector.\<close>

definition lowerBound :: "BSplineBasis1D \<Rightarrow> real" where
  "lowerBound b = hd (knots b)"

definition upperBound :: "BSplineBasis1D \<Rightarrow> real" where
  "upperBound b = last (knots b)"

definition getSupportLowerBound :: "BSplineBasis \<Rightarrow> real list" where
  "getSupportLowerBound b = map lowerBound b"

definition getSupportUpperBound :: "BSplineBasis \<Rightarrow> real list" where
  "getSupportUpperBound b = map upperBound b"

text \<open>Modelled from the spec: \<open>BSplineBasis::insideSupport\<close>, the support box: every
  coordinate lies within \<open>[lowerBound, upperBound]\<close> of its dimension's basis.\<close>

definition insideSupport :: "BSplineBasis \<Rightarrow> real list \<Rightarrow> bool" where
  "insideSupport b x =
     list_all (\<lambda>d. lowerBound (b ! d) \<le> x ! d \<and> x ! d \<le> upperBound (b ! d))
       [0..<length b]"

text \<open>
  The operations of \<open>BSplineBasis\<close> that the surface calls and whose code is absent:
  \<^item> \<open>evalB\<close> is \<open>BSplineBasis::eval\<close>, the tensor basis values at a point;
  \<^item> \<open>insertKnotsB\<close> is \<open>BSplineBasis::insertKnots(A, tau, dim, multiplicity)\<close>;
  \<^item> \<open>refineKnotsB\<close> is \<open>BSplineBasis::refineKnots(A)\<close>;
  \<^item> \<open>reduceSupportB\<close> is \<open>BSplineBasis::reduceSupport(lb, ub, A)\<close>.
  The last three return \<open>false\<close> or \<open>true\<close> with a matrix \<open>A\<close> and change the basis
  they are called on: \<open>None\<close> is \<open>false\<close> (the basis as it was), \<open>Some (A, b')\<close> is
  \<open>true\<close> with the matrix and the basis after the call.
\<close>

record BasisOps =
  evalB :: "BSplineBasis \<Rightarrow> real list \<Rightarrow> real list"
  insertKnotsB :: "BSplineBasis \<Rightarrow> real \<Rightarrow> nat \<Rightarrow> uint \<Rightarrow> (SparseMatrix \<times> BSplineBasis) option"
  refineKnotsB :: "BSplineBasis \<Rightarrow> (SparseMatrix \<times> BSplineBasis) option"
  reduceSupportB :: "BSplineBasis \<Rightarrow> real list \<Rightarrow> real list \<Rightarrow> (SparseMatrix \<times> BSplineBasis) option"

section \<open>The spline surface\<close>

record BSpline =
  basis :: BSplineBasis
  coefficients :: DenseMatrix
  knotaverages :: DenseMatrix
  numVariables :: nat

text \<open>\<open>BSpline::pointInDomain\<close>\<close>

definition pointInDomain :: "BSpline \<Rightarrow> real list \<Rightarrow> bool" where
  "pointInDomain s x = insideSupport (basis s) x"

text \<open>\<open>BSpline::eval\<close>: the product \<open>coefficients * tensorvalues\<close> is a vector with one
  entry for each row of \<open>coefficients\<close>, and \<open>y(0)\<close> reads its first entry.\<close>

definition eval :: "BasisOps \<Rightarrow> BSpline \<Rightarrow> real list \<Rightarrow> error + real" where
  "eval ops s x =
     (if \<not> pointInDomain s x
      then Inl (Exception ''BSpline::eval: Evaluation at point outside domain.'')
      else (case mult_vec (coefficients s) (evalB ops (basis s) x) of
              Inl e \<Rightarrow> Inl e
            | Inr y \<Rightarrow> (case y of [] \<Rightarrow> Inl assertion_failure | y0 # _ \<Rightarrow> Inr y0)))"

text \<open>\<open>BSpline::evalJacobian\<close> and \<open>BSpline::evalHessian\<close>.  The matrices of the basis
  (\<open>BSplineBasis::evalBasisJacobianOld\<close>, \<open>BSplineBasis::evalBasisHessian\<close>) are
  parameters.\<close>

definition evalJacobian ::
  "(BSplineBasis \<Rightarrow> real list \<Rightarrow> DenseMatrix) \<Rightarrow> BSpline \<Rightarrow> real list \<Rightarrow> error + DenseMatrix" where
  "evalJacobian evalBasisJacobianOld s x =
     (if \<not> pointInDomain s x
      then Inl (Exception ''BSpline::evalJacobian: Evaluation at point outside domain.'')
      else mult (coefficients s) (evalBasisJacobianOld (basis s) x))"

definition evalHessian ::
  "(BSplineBasis \<Rightarrow> real list \<Rightarrow> DenseMatrix) \<Rightarrow> BSpline \<Rightarrow> real list \<Rightarrow> error + DenseMatrix" where
  "evalHessian evalBasisHessian s x =
     (if \<not> pointInDomain s x
      then Inl (Exception ''BSpline::evalHessian: Evaluation at point outside domain.'')
      else (let identity = identity_matrix (numVariables s);
                caug = kroneckerProductMatrix identity (coefficients s);
                DB = evalBasisHessian (basis s) x
            in mult caug DB))"

text \<open>\<open>BSpline::checkControlPoints\<close>: three assertions, then \<open>true\<close>.\<close>

definition checkControlPoints :: "BSpline \<Rightarrow> error + bool" where
  "checkControlPoints s =
     (if cols (coefficients s) \<noteq> cols (knotaverages s) then Inl assertion_failure
      else if rows (knotaverages s) \<noteq> numVariables s then Inl assertion_failure
      else if rows (coefficients s) \<noteq> 1 then Inl assertion_failure
      else Inr True)"

text \<open>Two patterns of the member functions.  \<open>andThen\<close>: the statements after a call
  run when the call returned \<open>true\<close>; an exception or \<open>false\<close> ends the function with
  the object as the call left it.  \<open>orThrow\<close>: \<open>if (!call) throw Exception(message)\<close>.\<close>

definition andThen ::
  "(error + bool) \<times> BSpline \<Rightarrow> (BSpline \<Rightarrow> (error + bool) \<times> BSpline) \<Rightarrow> (error + bool) \<times> BSpline" where
  "andThen r f = (case r of (Inr True, s) \<Rightarrow> f s | _ \<Rightarrow> r)"

definition orThrow :: "string \<Rightarrow> (error + bool) \<times> BSpline \<Rightarrow> (error + bool) \<times> BSpline" where
  "orThrow message r = (case r of (Inr False, s) \<Rightarrow> (Inl (Exception message), s) | _ \<Rightarrow> r)"

text \<open>The update of the control points that knot insertion, refinement and support
  reduction share: \<open>coefficients = coefficients*M; knotaverages = knotaverages*M;
  return true;\<close>\<close>

definition rightMultiply :: "DenseMatrix \<Rightarrow> BSpline \<Rightarrow> (error + bool) \<times> BSpline" where
  "rightMultiply M s =
     (case mult (coefficients s) M of
        Inl e \<Rightarrow> (Inl e, s)
      | Inr c \<Rightarrow>
          (let s1 = s\<lparr>coefficients := c\<rparr> in
           case mult (knotaverages s1) M of
             Inl e \<Rightarrow> (Inl e, s1)
           | Inr k \<Rightarrow> (Inr True, s1\<lparr>knotaverages := k\<rparr>)))"

text \<open>\<open>BSpline::insertKnots\<close>.  \<open>bases.at(dim)\<close> of the basis raises for a dimension
  that does not exist.  The test of the multiplicity is a comparison of
  \<open>unsigned int\<close>s.\<close>

definition insertKnots ::
  "BasisOps \<Rightarrow> BSpline \<Rightarrow> real \<Rightarrow> nat \<Rightarrow> uint \<Rightarrow> (error + bool) \<times> BSpline" where
  "insertKnots ops s tau d multiplicity =
     (if length (basis s) \<le> d then (Inl (out_of_range ''vector::at''), s)
      else if getKnotMultiplicity (basis s) d tau + multiplicity
                > getBasisDegree (basis s) d + 1
      then (Inr False, s)
      else (case insertKnotsB ops (basis s) tau d multiplicity of
              None \<Rightarrow> (Inr False, s)
            | Some (A, b') \<Rightarrow>
                (let s1 = s\<lparr>basis := b'\<rparr> in
                 if cols A \<noteq> cols (coefficients s1) then (Inl assertion_failure, s1)
                 else rightMultiply (transpose_matrix A) s1)))"

text \<open>\<open>BSpline::refineKnotVectors\<close>\<close>

definition refineKnotVectors :: "BasisOps \<Rightarrow> BSpline \<Rightarrow> (error + bool) \<times> BSpline" where
  "refineKnotVectors ops s =
     (case refineKnotsB ops (basis s) of
        None \<Rightarrow> (Inr False, s)
      | Some (A, b') \<Rightarrow>
          (let s1 = s\<lparr>basis := b'\<rparr> in
           if cols A \<noteq> cols (coefficients s1) then (Inl assertion_failure, s1)
           else rightMultiply (transpose_matrix A) s1))"

text \<open>\<open>BSpline::regularizeKnotVectors\<close>.  One bound of one dimension:
  \<open>int numKnots = multiplicityTarget - basis.getKnotMultiplicity(dim, tau)\<close> is an
  unsigned difference read as a signed \<open>int\<close>; when it is positive, that many knots are
  inserted.\<close>

definition regularizeBound ::
  "BasisOps \<Rightarrow> BSpline \<Rightarrow> uint \<Rightarrow> real \<Rightarrow> nat \<Rightarrow> (error + bool) \<times> BSpline" where
  "regularizeBound ops s multiplicityTarget tau d =
     (let numKnots = multiplicityTarget - getKnotMultiplicity (basis s) d tau
      in if 0 < sint numKnots then insertKnots ops s tau d numKnots else (Inr True, s))"

text \<open>The loop \<open>for (dim = 0; dim < numVariables; dim++)\<close> over the dimensions still to
  visit: the target multiplicity \<open>degree + 1\<close>, the lower bound, then the upper bound;
  the first insertion that returns \<open>false\<close> ends the loop with \<open>false\<close>.\<close>

fun regularizeLoop ::
  "BasisOps \<Rightarrow> real list \<Rightarrow> real list \<Rightarrow> nat list \<Rightarrow> BSpline \<Rightarrow> (error + bool) \<times> BSpline" where
  "regularizeLoop ops lb ub [] s = (Inr True, s)"
| "regularizeLoop ops lb ub (d # ds) s =
     (if length (basis s) \<le> d then (Inl (out_of_range ''vector::at''), s)
      else (let multiplicityTarget = getBasisDegree (basis s) d + 1
            in andThen (regularizeBound ops s multiplicityTarget (lb ! d) d)
                 (\<lambda>s1. andThen (regularizeBound ops s1 multiplicityTarget (ub ! d) d)
                         (\<lambda>s2. regularizeLoop ops lb ub ds s2))))"

definition regularizeKnotVectors ::
  "BasisOps \<Rightarrow> BSpline \<Rightarrow> real list \<Rightarrow> real list \<Rightarrow> (error + bool) \<times> BSpline" where
  "regularizeKnotVectors ops s lb ub =
     (if \<not> (length lb = numVariables s \<and> length ub = numVariables s) then (Inr False, s)
      else regularizeLoop ops lb ub [0..<numVariables s] s)"

text \<open>\<open>BSpline::removeUnsupportedBasisFunctions\<close>\<close>

definition removeUnsupportedBasisFunctions ::
  "BasisOps \<Rightarrow> BSpline \<Rightarrow> real list \<Rightarrow> real list \<Rightarrow> (error + bool) \<times> BSpline" where
  "removeUnsupportedBasisFunctions ops s lb ub =
     (if length lb \<noteq> numVariables s then (Inl assertion_failure, s)
      else if length ub \<noteq> numVariables s then (Inl assertion_failure, s)
      else (case reduceSupportB ops (basis s) lb ub of
              None \<Rightarrow> (Inr False, s)
            | Some (A, b') \<Rightarrow>
                (let s1 = s\<lparr>basis := b'\<rparr> in
                 if cols (coefficients s1) \<noteq> rows A then (Inr False, s1)
                 else rightMultiply A s1)))"

text \<open>\<open>BSpline::reduceDomain\<close>.  First the loop that checks the bounds of every
  dimension and narrows the support \<open>sl\<close>, \<open>su\<close> to them.\<close>

fun reduceBounds ::
  "real list \<Rightarrow> real list \<Rightarrow> nat list \<Rightarrow> real list \<times> real list \<times> bool
     \<Rightarrow> error + real list \<times> real list \<times> bool" where
  "reduceBounds lb ub [] (sl, su, isStrictSubset) = Inr (sl, su, isStrictSubset)"
| "reduceBounds lb ub (d # ds) (sl, su, isStrictSubset) =
     (if ub ! d \<le> lb ! d
      then Inl (Exception ''BSpline::reduceDomain: Cannot reduce B-spline domain to empty set!'')
      else if length su \<le> d then Inl (out_of_range ''vector::at'')
      else if lb ! d \<ge> su ! d
      then Inl (Exception ''BSpline::reduceDomain: Cannot reduce B-spline domain to empty set!'')
      else if length sl \<le> d then Inl (out_of_range ''vector::at'')
      else if ub ! d \<le> sl ! d
      then Inl (Exception ''BSpline::reduceDomain: Cannot reduce B-spline domain to empty set!'')
      else (let (isStrictSubset1, su1) =
                  (if su ! d > ub ! d then (True, su[d := ub ! d]) else (isStrictSubset, su));
                (isStrictSubset2, sl1) =
                  (if lb ! d > sl ! d then (True, sl[d := lb ! d]) else (isStrictSubset1, sl))
            in reduceBounds lb ub ds (sl1, su1, isStrictSubset2)))"

text \<open>Then the three steps, each raising when it returns \<open>false\<close>.\<close>

definition reduceSteps ::
  "BasisOps \<Rightarrow> BSpline \<Rightarrow> real list \<Rightarrow> real list \<Rightarrow> bool \<Rightarrow> bool \<Rightarrow> (error + bool) \<times> BSpline" where
  "reduceSteps ops s sl su doRegularizeKnotVectors doRefineKnotVectors =
     andThen
       (orThrow ''BSpline::reduceDomain: Failed to regularize knot vectors!''
          (if doRegularizeKnotVectors then regularizeKnotVectors ops s sl su else (Inr True, s)))
       (\<lambda>s1. andThen
          (orThrow ''BSpline::reduceDomain: Failed to remove unsupported basis functions!''
             (removeUnsupportedBasisFunctions ops s1 sl su))
          (\<lambda>s2. orThrow ''BSpline::reduceDomain: Failed to refine knot vectors!''
                  (if doRefineKnotVectors then refineKnotVectors ops s2 else (Inr True, s2))))"

definition reduceDomain ::
  "BasisOps \<Rightarrow> BSpline \<Rightarrow> real list \<Rightarrow> real list \<Rightarrow> bool \<Rightarrow> bool \<Rightarrow> (error + bool) \<times> BSpline" where
  "reduceDomain ops s lb ub doRegularizeKnotVectors doRefineKnotVectors =
     (if length lb \<noteq> numVariables s \<or> length ub \<noteq> numVariables s then (Inr False, s)
      else (case reduceBounds lb ub [0..<numVariables s]
                   (getSupportLowerBound (basis s), getSupportUpperBound (basis s), False) of
              Inl e \<Rightarrow> (Inl e, s)
            | Inr (sl, su, isStrictSubset) \<Rightarrow>
                if isStrictSubset
                then reduceSteps ops s sl su doRegularizeKnotVectors doRefineKnotVectors
                else (Inr True, s)))"

text \<open>\<open>BSpline::getControlPoints\<close> and \<open>BSpline::setControlPoints\<close>: the knot averages
  are the first \<open>numVariables\<close> rows of the control points, the coefficients the row
  after them.\<close>

definition getControlPoints :: "BSpline \<Rightarrow> DenseMatrix" where
  "getControlPoints s =
     \<lparr>rows = numVariables s + 1, cols = cols (coefficients s),
      elems = take (numVariables s) (elems (knotaverages s)) @ take 1 (elems (coefficients s))\<rparr>"

definition setControlPoints :: "BSpline \<Rightarrow> DenseMatrix \<Rightarrow> (error + unit) \<times> BSpline" where
  "setControlPoints s controlPoints =
     (if rows controlPoints \<noteq> numVariables s + 1 then (Inl assertion_failure, s)
      else (let nc = cols controlPoints;
                s1 = s\<lparr>knotaverages :=
                        \<lparr>rows = numVariables s, cols = nc,
                         elems = take (numVariables s) (elems controlPoints)\<rparr>\<rparr>;
                s2 = s1\<lparr>coefficients :=
                        \<lparr>rows = 1, cols = nc,
                         elems = take 1 (drop (numVariables s) (elems controlPoints))\<rparr>\<rparr>
            in case checkControlPoints s2 of
                 Inl e \<Rightarrow> (Inl e, s2)
               | Inr _ \<Rightarrow> (Inr (), s2)))"

text \<open>\<open>BSpline::init\<close>: the initial refinement is switched off in the source.\<close>

definition init :: "BasisOps \<Rightarrow> BSpline \<Rightarrow> (error + unit) \<times> BSpline" where
  "init ops s =
     (let initialKnotRefinement = False in
      if initialKnotRefinement
      then (case refineKnotVectors ops s of
              (Inl e, s1) \<Rightarrow> (Inl e, s1)
            | (Inr _, s1) \<Rightarrow>
                (case checkControlPoints s1 of Inl e \<Rightarrow> (Inl e, s1) | Inr _ \<Rightarrow> (Inr (), s1)))
      else (Inr (), s))"

text \<open>\<open>BSpline::computeKnotAverages\<close>.  The knot averages of one dimension:
  \<open>mu(j) = (knots.at(j+1) + ... + knots.at(j+degree)) / degree\<close>.  For degree 0 the
  program divides \<open>0.0\<close> by 0; the quotient is 0 here.\<close>

definition knotAverages1D :: "BSplineBasis1D \<Rightarrow> real list" where
  "knotAverages1D b =
     map (\<lambda>j. sum_list (map (\<lambda>k. knots b ! k) [j + 1..<j + unat (degree b) + 1])
               / real (unat (degree b)))
       [0..<numBasisFunctions1D b]"

text \<open>Row \<open>i\<close> of the knot average matrix: starting from the \<open>1 \<times> 1\<close> matrix 1, the
  Kronecker product with the knot averages of dimension \<open>i\<close> and with vectors of ones
  of the other dimensions.\<close>

definition knotAverageRow :: "BSplineBasis \<Rightarrow> nat \<Rightarrow> nat \<Rightarrow> real list" where
  "knotAverageRow b n i =
     foldl (\<lambda>mu_ext j.
              kroneckerProduct mu_ext
                (if i = j then knotAverages1D (b ! j)
                 else replicate (length (knotAverages1D (b ! j))) 1))
       [1] [0..<n]"

definition computeKnotAverages :: "BSpline \<Rightarrow> (error + unit) \<times> BSpline" where
  "computeKnotAverages s =
     (if length (basis s) < numVariables s then (Inl (out_of_range ''vector::at''), s)
      else (let mu = map (knotAverageRow (basis s) (numVariables s)) [0..<numVariables s]
            in if \<not> list_all (\<lambda>mu_ext. length mu_ext = numBasisFunctions (basis s)) mu
               then (Inl assertion_failure, s)
               else (Inr (),
                     s\<lparr>knotaverages :=
                         \<lparr>rows = numVariables s, cols = numBasisFunctions (basis s),
                          elems = mu\<rparr>\<rparr>)))"

text \<open>Modelled from the spec: the constructor
  \<open>BSplineBasis(knotVectors, basisDegrees, KnotVectorType::EXPLICIT)\<close>, one univariate
  basis (knot vector, degree) for each variable.\<close>

definition BSplineBasis_explicit :: "real list list \<Rightarrow> uint list \<Rightarrow> BSplineBasis" where
  "BSplineBasis_explicit knotVectors basisDegrees =
     map2 (\<lambda>k p. \<lparr>knots = k, degree = p\<rparr>) knotVectors basisDegrees"

text \<open>\<open>BSpline::loadBasis\<close>\<close>

definition loadBasis ::
  "BasisOps \<Rightarrow> BSpline \<Rightarrow> real list list \<Rightarrow> uint list \<Rightarrow> (error + unit) \<times> BSpline" where
  "loadBasis ops s knotVectors basisDegrees =
     (if rows (coefficients s) \<noteq> 1 then (Inl assertion_failure, s)
      else (let s1 = s\<lparr>basis := BSplineBasis_explicit knotVectors basisDegrees\<rparr> in
            case computeKnotAverages s1 of
              (Inl e, s2) \<Rightarrow> (Inl e, s2)
            | (Inr _, s2) \<Rightarrow>
                (case init ops s2 of
                   (Inl e, s3) \<Rightarrow> (Inl e, s3)
                 | (Inr _, s3) \<Rightarrow>
                     (case checkControlPoints s3 of
                        Inl e \<Rightarrow> (Inl e, s3)
                      | Inr _ \<Rightarrow> (Inr (), s3)))))"

text \<open>The constructor for explicitly given coefficients, knot vectors and degrees.  The
  members it does not set are those of an empty object.\<close>

definition empty_matrix :: DenseMatrix where
  "empty_matrix = \<lparr>rows = 0, cols = 0, elems = []\<rparr>"

definition BSpline_explicit ::
  "BasisOps \<Rightarrow> DenseMatrix \<Rightarrow> real list list \<Rightarrow> uint list \<Rightarrow> (error + unit) \<times> BSpline" where
  "BSpline_explicit ops coefficients0 knotVectors basisDegrees =
     loadBasis ops
       \<lparr>basis = [], coefficients = coefficients0, knotaverages = empty_matrix,
        numVariables = length knotVectors\<rparr>
       knotVectors basisDegrees"

section \<open>Fitting the control points to samples\<close>

text \<open>
  The sample table (\<open>DataTable\<close>) and the linear solvers (\<open>SparseLU\<close>, \<open>DenseQR\<close>) are
  external collaborators.  A table is what the surface reads of it: the
  grid-completeness predicate, the number of variables, the per-variable grid values and
  the samples in iteration order.  A solver is its \<open>solve(A, B, C)\<close>: \<open>None\<close> when it
  returns \<open>false\<close>, the solution \<open>C\<close> when it returns \<open>true\<close>.
\<close>

record DataTable =
  isGridComplete :: bool
  getNumVariables :: nat
  getTableX :: "real list list"
  samples :: "(real list \<times> real) list"

record LinearSolvers =
  SparseLU_solve :: "SparseMatrix \<Rightarrow> DenseMatrix \<Rightarrow> DenseMatrix option"
  DenseQR_solve :: "DenseMatrix \<Rightarrow> DenseMatrix \<Rightarrow> DenseMatrix option"

text \<open>\<open>BSpline::computeBasisFunctionMatrix\<close>: row \<open>i\<close> holds the basis values at sample
  \<open>i\<close>; \<open>xv.at(j)\<close> raises for a sample with too few coordinates.\<close>

definition computeBasisFunctionMatrix ::
  "BasisOps \<Rightarrow> BSpline \<Rightarrow> DataTable \<Rightarrow> error + SparseMatrix" where
  "computeBasisFunctionMatrix ops s table =
     (if list_ex (\<lambda>(x, y). length x < getNumVariables table) (samples table)
      then Inl (out_of_range ''vector::at'')
      else Inr \<lparr>rows = length (samples table), cols = numBasisFunctions (basis s),
                elems = map (\<lambda>(x, y). evalB ops (basis s) (take (getNumVariables table) x))
                          (samples table)\<rparr>)"

text \<open>\<open>BSpline::controlPointEquationRHS\<close>: \<open>Bx\<close> holds the sample points, \<open>By\<close> the
  sample values; \<open>Bx(i,j)\<close> asserts that \<open>j\<close> is a column of \<open>Bx\<close>.\<close>

definition controlPointEquationRHS :: "DataTable \<Rightarrow> error + DenseMatrix \<times> DenseMatrix" where
  "controlPointEquationRHS table =
     (if list_ex (\<lambda>(x, y). length x \<noteq> getNumVariables table) (samples table)
      then Inl assertion_failure
      else Inr (\<lparr>rows = length (samples table), cols = getNumVariables table,
                 elems = map fst (samples table)\<rparr>,
                \<lparr>rows = length (samples table), cols = 1,
                 elems = map (\<lambda>(x, y). [y]) (samples table)\<rparr>))"

text \<open>\<open>s.solve(A,Bx,Cx) && s.solve(A,By,Cy)\<close>: the second system is solved only when the
  first solve succeeded.\<close>

definition solveBoth ::
  "(DenseMatrix \<Rightarrow> DenseMatrix \<Rightarrow> DenseMatrix option) \<Rightarrow> DenseMatrix \<Rightarrow> DenseMatrix \<Rightarrow> DenseMatrix
     \<Rightarrow> (DenseMatrix \<times> DenseMatrix) option" where
  "solveBoth solve A Bx By =
     (case solve A Bx of
        None \<Rightarrow> None
      | Some Cx \<Rightarrow> (case solve A By of None \<Rightarrow> None | Some Cy \<Rightarrow> Some (Cx, Cy)))"

text \<open>\<open>BSpline::computeControlPoints\<close>.  After the sparse attempt \<open>solveAsDense\<close> is
  true exactly when no sparse solution stands: the system is small, or a sparse solve
  failed.  The result carries the lines the function prints to \<open>std::cout\<close> (the build
  with assertions is the build that prints them): they tell which solver was run.\<close>

definition computeControlPoints ::
  "LinearSolvers \<Rightarrow> BasisOps \<Rightarrow> BSpline \<Rightarrow> DataTable
     \<Rightarrow> string list \<times> (error + unit) \<times> BSpline" where
  "computeControlPoints solvers ops s table =
     (case computeBasisFunctionMatrix ops s table of
        Inl e \<Rightarrow> ([], Inl e, s)
      | Inr A \<Rightarrow>
          (case controlPointEquationRHS table of
             Inl e \<Rightarrow> ([], Inl e, s)
           | Inr (Bx, By) \<Rightarrow>
               (let numEquations = int (rows A);
                    maxNumEquations = 2 ^ 10;
                    solveAsDense = (numEquations < maxNumEquations);
                    out1 = (if \<not> solveAsDense
                            then [''Computing B-spline control points using sparse solver.'']
                            else []);
                    sparse = (if \<not> solveAsDense
                              then solveBoth (SparseLU_solve solvers) A Bx By else None)
                in case sparse of
                     Some (Cx, Cy) \<Rightarrow>
                       (out1, Inr (),
                        s\<lparr>coefficients := transpose_matrix Cy,
                          knotaverages := transpose_matrix Cx\<rparr>)
                   | None \<Rightarrow>
                       (let out2 = out1 @ [''Computing B-spline control points using dense solver.'']
                        in case solveBoth (DenseQR_solve solvers) A Bx By of
                             None \<Rightarrow>
                               (out2,
                                Inl (Exception ''BSpline::computeControlPoints: Failed to solve for B-spline coefficients.''),
                                s)
                           | Some (Cx, Cy) \<Rightarrow>
                               (out2, Inr (),
                                s\<lparr>coefficients := transpose_matrix Cy,
                                  knotaverages := transpose_matrix Cx\<rparr>)))))"

text \<open>The constructor for interpolation of samples.  The type of the spline chooses the
  degree; every branch builds a free knot vector from the grid values, by the absent
  constructor \<open>BSplineBasis(xdata, basisDegrees, KnotVectorType::FREE)\<close>, a parameter
  here.\<close>

datatype BSplineType = LINEAR | QUADRATIC_FREE | CUBIC_FREE | OTHER_TYPE

definition BSpline_samples ::
  "(real list list \<Rightarrow> uint list \<Rightarrow> BSplineBasis) \<Rightarrow> LinearSolvers \<Rightarrow> BasisOps \<Rightarrow> DataTable
     \<Rightarrow> BSplineType \<Rightarrow> string list \<times> (error + unit) \<times> BSpline" where
  "BSpline_samples BSplineBasis_free solvers ops table type =
     (let s0 = \<lparr>basis = [], coefficients = empty_matrix, knotaverages = empty_matrix,
                numVariables = 0\<rparr>
      in if \<not> isGridComplete table
         then ([], Inl (Exception ''BSpline::BSpline: Cannot create B-spline from irregular (incomplete) grid.''), s0)
         else (let s1 = s0\<lparr>numVariables := getNumVariables table\<rparr>;
                   xdata = getTableX table;
                   basisDegrees =
                     (case type of
                        LINEAR \<Rightarrow> replicate (getNumVariables table) 1
                      | QUADRATIC_FREE \<Rightarrow> replicate (getNumVariables table) 2
                      | CUBIC_FREE \<Rightarrow> replicate (getNumVariables table) 3
                      | OTHER_TYPE \<Rightarrow> replicate (getNumVariables table) 3);
                   s2 = s1\<lparr>basis := BSplineBasis_free xdata basisDegrees\<rparr>
               in case computeControlPoints solvers ops s2 table of
                    (out, Inl e, s3) \<Rightarrow> (out, Inl e, s3)
                  | (out, Inr _, s3) \<Rightarrow>
                      (case init ops s3 of
                         (Inl e, s4) \<Rightarrow> (out, Inl e, s4)
                       | (Inr _, s4) \<Rightarrow>
                           (case checkControlPoints s4 of
                              Inl e \<Rightarrow> (out, Inl e, s4)
                            | Inr _ \<Rightarrow> (out, Inr (), s4)))))"

section \<open>Persistence\<close>

text \<open>
  \<open>std::strtol\<close> in base 10, as the C standard has it: white space is skipped, a sign is
  optional, and the longest run of digits is the number; with no digit there is no
  conversion.  The value is the mathematical one: \<open>checked_strtol\<close> raises for every
  value outside the range of \<open>int\<close>, which covers the values \<open>strtol\<close> itself reports
  as out of the range of \<open>long\<close>.
\<close>

definition isspace :: "char \<Rightarrow> bool" where
  "isspace c \<longleftrightarrow> c \<in> set [CHR '' '', CHR 0x09, CHR 0x0A, CHR 0x0B, CHR 0x0C, CHR 0x0D]"

definition isdigit :: "char \<Rightarrow> bool" where
  "isdigit c \<longleftrightarrow> (48 :: nat) \<le> of_char c \<and> of_char c \<le> (57 :: nat)"

definition digits_value :: "string \<Rightarrow> int" where
  "digits_value ds = foldl (\<lambda>v c. 10 * v + (of_char c - 48)) 0 ds"

definition strtol :: "string \<Rightarrow> (int \<times> string) option" where
  "strtol str =
     (let s1 = dropWhile isspace str;
          (negative, s2) =
            (case s1 of
               [] \<Rightarrow> (False, s1)
             | c # r \<Rightarrow> if c = CHR ''-'' then (True, r)
                        else if c = CHR ''+'' then (False, r) else (False, s1));
          ds = takeWhile isdigit s2
      in if ds = [] then None
         else Some (if negative then - digits_value ds else digits_value ds,
                    dropWhile isdigit s2))"

text \<open>\<open>checked_strtol\<close>: the value and the rest of the string (\<open>*_Eptr\<close>).\<close>

definition checked_strtol :: "string \<Rightarrow> error + int \<times> string" where
  "checked_strtol str =
     (case strtol str of
        None \<Rightarrow> Inl (invalid_argument ''strtol'')
      | Some (ret, eptr) \<Rightarrow>
          if ret < - (2 ^ 31) \<or> ret > 2 ^ 31 - 1 then Inl (out_of_range ''strtol'')
          else Inr (ret, eptr))"

text \<open>\<open>checked_strtod\<close>.  \<open>std::strtod\<close> is a parameter: \<open>None\<close> when it converts nothing,
  else the value, the rest of the string and whether it set \<open>errno\<close> to \<open>ERANGE\<close>.\<close>

type_synonym strtod_fun = "string \<Rightarrow> (real \<times> string \<times> bool) option"

definition checked_strtod :: "strtod_fun \<Rightarrow> string \<Rightarrow> error + real \<times> string" where
  "checked_strtod strtod str =
     (case strtod str of
        None \<Rightarrow> Inl (invalid_argument ''strtod'')
      | Some (ret, eptr, erange) \<Rightarrow>
          if erange then Inl (out_of_range ''strtod'') else Inr (ret, eptr))"

text \<open>The loop \<open>for (i = 0; i < n; i++) { ... checked_strtod(str, &nextStr); str = nextStr; }\<close>
  of \<open>load\<close>, which reads \<open>n\<close> numbers off one line.\<close>

fun readDoubles :: "strtod_fun \<Rightarrow> nat \<Rightarrow> string \<Rightarrow> error + real list" where
  "readDoubles strtod 0 str = Inr []"
| "readDoubles strtod (Suc n) str =
     (case checked_strtod strtod str of
        Inl e \<Rightarrow> Inl e
      | Inr (v, nextStr) \<Rightarrow>
          (case readDoubles strtod n nextStr of
             Inl e \<Rightarrow> Inl e
           | Inr vs \<Rightarrow> Inr (v # vs)))"

text \<open>The local variables of \<open>BSpline::load\<close>, with the two members it assigns while it
  reads (\<open>numVariables\<close> and \<open>coefficients\<close>).  \<open>cRows\<close>, \<open>cCols\<close> and \<open>knotVecLength\<close> are
  not initialised in the source, and are assigned before they are read.\<close>

record load_locals =
  state :: nat
  numVariablesL :: nat
  basisDegrees :: "uint list"
  knotVectors :: "real list list"
  cRows :: int
  cCols :: int
  cRowIdx :: int
  basisNum :: int
  knotVecLength :: int
  coefficientsL :: DenseMatrix

text \<open>The body of \<open>while (std::getline(inFile, line))\<close>, over the lines still to read.
  \<open>line.at(0)\<close> raises on an empty line.  An \<open>int\<close> stored in an \<open>unsigned int\<close> wraps
  around.  \<open>coefficients.resize\<close> asserts that the sizes are not negative and leaves the
  entries without a value (they are 0 here); \<open>coefficients(cRowIdx, i) = ...\<close> reads
  the number, then asserts that the row exists.\<close>

fun loadLines :: "strtod_fun \<Rightarrow> string list \<Rightarrow> load_locals \<Rightarrow> error + load_locals" where
  "loadLines strtod [] L = Inr L"
| "loadLines strtod (line # rest) L =
     (if line = [] then Inl (out_of_range ''basic_string::at'')
      else if hd line = CHR ''#'' then loadLines strtod rest L
      else if state L = 0 then
        (case checked_strtol line of
           Inl e \<Rightarrow> Inl e
         | Inr (v, _) \<Rightarrow>
             loadLines strtod rest
               (L\<lparr>numVariablesL := unat (word_of_int v :: uint), state := 1\<rparr>))
      else if state L = 1 then
        (case checked_strtol line of
           Inl e \<Rightarrow> Inl e
         | Inr (curDegree, nextStr) \<Rightarrow>
             if \<not> curDegree > 0 then Inl assertion_failure
             else (case checked_strtol nextStr of
                     Inl e \<Rightarrow> Inl e
                   | Inr (len, _) \<Rightarrow>
                       loadLines strtod rest
                         (L\<lparr>basisDegrees := basisDegrees L @ [word_of_int curDegree],
                            knotVecLength := len, state := 2\<rparr>)))
      else if state L = 2 then
        (case readDoubles strtod (nat (knotVecLength L)) line of
           Inl e \<Rightarrow> Inl e
         | Inr vs \<Rightarrow>
             (let basisNum1 = basisNum L + 1 in
              loadLines strtod rest
                (L\<lparr>knotVectors := knotVectors L @ [vs], basisNum := basisNum1,
                   state := (if nat basisNum1 \<ge> numVariablesL L then 3 else 1)\<rparr>)))
      else if state L = 3 then
        (case checked_strtol line of
           Inl e \<Rightarrow> Inl e
         | Inr (r, nextStr) \<Rightarrow>
             (case checked_strtol nextStr of
                Inl e \<Rightarrow> Inl e
              | Inr (c, _) \<Rightarrow>
                  if r < 0 \<or> c < 0 then Inl assertion_failure
                  else loadLines strtod rest
                         (L\<lparr>cRows := r, cCols := c,
                            coefficientsL :=
                              \<lparr>rows = nat r, cols = nat c,
                               elems = replicate (nat r) (replicate (nat c) 0)\<rparr>,
                            state := 4\<rparr>)))
      else if state L = 4 then
        (if cCols L > 0 \<and> cRowIdx L \<ge> cRows L
         then (case checked_strtod strtod line of
                 Inl e \<Rightarrow> Inl e
               | Inr _ \<Rightarrow> Inl assertion_failure)
         else (case readDoubles strtod (nat (cCols L)) line of
                 Inl e \<Rightarrow> Inl e
               | Inr vs \<Rightarrow>
                   (let L1 = L\<lparr>coefficientsL :=
                                 (coefficientsL L)
                                   \<lparr>elems := (elems (coefficientsL L))[nat (cRowIdx L) := vs]\<rparr>,
                               cRowIdx := cRowIdx L + 1\<rparr>
                    in if cRowIdx L1 > cRows L1 then Inr L1
                       else loadLines strtod rest L1)))
      else loadLines strtod rest L)"

text \<open>\<open>BSpline::load\<close>, on the lines of the file: the loop from the initial values of
  the local variables, then \<open>loadBasis\<close>.  \<open>load\<close> runs in the constructor
  \<open>BSpline(fileName)\<close>: when it raises there is no object, and the result carries the
  object as it was.\<close>

definition load_initial :: "BSpline \<Rightarrow> load_locals" where
  "load_initial s =
     \<lparr>state = 0, numVariablesL = numVariables s, basisDegrees = [], knotVectors = [],
      cRows = 0, cCols = 0, cRowIdx = 0, basisNum = 0, knotVecLength = 0,
      coefficientsL = coefficients s\<rparr>"

definition load :: "strtod_fun \<Rightarrow> BasisOps \<Rightarrow> BSpline \<Rightarrow> string list \<Rightarrow> (error + unit) \<times> BSpline" where
  "load strtod ops s fileLines =
     (case loadLines strtod fileLines (load_initial s) of
        Inl e \<Rightarrow> (Inl e, s)
      | Inr L \<Rightarrow>
          loadBasis ops (s\<lparr>numVariables := numVariablesL L, coefficients := coefficientsL L\<rparr>)
            (knotVectors L) (basisDegrees L))"

text \<open>Decimal output of an unsigned integer (\<open>operator<<\<close> in the C locale).\<close>

fun show_nat :: "nat \<Rightarrow> string" where
  "show_nat n =
     (if n < 10 then [char_of (48 + n)]
      else show_nat (n div 10) @ [char_of (48 + n mod 10)])"

text \<open>\<open>BSpline::save\<close>, as the lines it writes.  \<open>showDouble p v\<close> is the output of the
  \<open>double\<close> \<open>v\<close> at precision \<open>p\<close>, a parameter.  \<open>std::setprecision(17)\<close> is set when a
  knot value is written and stays: the coefficients are written at precision 17 when
  a knot was written before them, at the default precision 6 otherwise.
  \<open>knotVectors.at(i)\<close> raises when there are fewer bases than variables.\<close>

definition save :: "(nat \<Rightarrow> real \<Rightarrow> string) \<Rightarrow> BSpline \<Rightarrow> error + string list" where
  "save showDouble s =
     (if length (basis s) < numVariables s then Inl (out_of_range ''vector::at'')
      else (let knotVectors = getKnotVectors (basis s);
                header = [''# Saved BSpline'',
                          ''# Number of bases: '' @ show_nat (numVariables s),
                          show_nat (numVariables s)];
                bases =
                  concat (map (\<lambda>i. [show_nat (unat (getBasisDegree (basis s) i)) @ '' ''
                                        @ show_nat (length (knotVectors ! i)),
                                      concat (map (\<lambda>v. showDouble 17 v @ '' '') (knotVectors ! i))])
                            [0..<numVariables s]);
                precision = (if list_ex (\<lambda>i. knotVectors ! i \<noteq> []) [0..<numVariables s]
                             then 17 else 6);
                numRows = rows (coefficients s);
                numCols = cols (coefficients s);
                matrix =
                  map (\<lambda>i. concat (map (\<lambda>j. showDouble precision (elems (coefficients s) ! i ! j)
                                              @ '' '')
                                      [0..<numCols]))
                    [0..<numRows]
            in Inr (header @ bases
                    @ [''# Coefficient matrix:'', show_nat numRows @ '' '' @ show_nat numCols]
                    @ matrix)))"

text \<open>The object before the constructor has set anything, and an instance of
  \<open>strtod\<close> for the examples, which reads integers.\<close>

definition empty_surface :: BSpline where
  "empty_surface =
     \<lparr>basis = [], coefficients = empty_matrix, knotaverages = empty_matrix, numVariables = 0\<rparr>"

definition strtod_integers :: strtod_fun where
  "strtod_integers str =
     (case strtol str of None \<Rightarrow> None | Some (v, eptr) \<Rightarrow> Some (real_of_int v, eptr, False))"

section \<open>A reference basis layer\<close>

text \<open>
  An instance of the absent basis layer, for the examples: the theorems below hold for
  every \<open>BasisOps\<close>, and their examples are run on this one.

  Modelled from the spec: univariate basis evaluation (section 4.1).  Degree-0 basis
  functions are indicator functions of half-open knot intervals, closed at the left and
  open at the right, the last interval closed at both ends; a higher degree blends
  two neighbours of the degree below with knot-ratio weights, a quotient with a zero
  denominator being 0.
\<close>

fun deBoorCox :: "real list \<Rightarrow> nat \<Rightarrow> nat \<Rightarrow> real \<Rightarrow> real" where
  "deBoorCox k 0 i t =
     (if (k ! i \<le> t \<and> t < k ! (i + 1)) \<or> (t = last k \<and> k ! i < t \<and> t = k ! (i + 1))
      then 1 else 0)"
| "deBoorCox k (Suc p) i t =
     (t - k ! i) / (k ! (i + Suc p) - k ! i) * deBoorCox k p i t
     + (k ! (i + Suc p + 1) - t) / (k ! (i + Suc p + 1) - k ! (i + 1))
       * deBoorCox k p (i + 1) t"

definition evalBasis1D :: "BSplineBasis1D \<Rightarrow> real \<Rightarrow> real list" where
  "evalBasis1D b t =
     map (\<lambda>i. deBoorCox (knots b) (unat (degree b)) i t) [0..<numBasisFunctions1D b]"

text \<open>Modelled from the spec: the tensor basis value at a point is the tensor product
  of each dimension's basis-value vector (section 4.3), in the order of
  \<open>computeKnotAverages\<close>.\<close>

definition evalTensor :: "BSplineBasis \<Rightarrow> real list \<Rightarrow> real list" where
  "evalTensor b x = foldl kroneckerProduct [1] (map2 evalBasis1D b x)"

text \<open>Modelled from the spec: knot insertion (section 4.2).  One knot \<open>tau\<close> in the knot
  span \<open>[k\<^sub>j, k\<^sub>j\<^sub>+\<^sub>1)\<close> is inserted by Boehm's algorithm: the new control point \<open>i\<close> is
  \<open>\<alpha>\<^sub>i\<close> times the old control point \<open>i\<close> plus \<open>1 - \<alpha>\<^sub>i\<close> times the old control point
  \<open>i - 1\<close>.\<close>

definition knotSpan :: "real list \<Rightarrow> real \<Rightarrow> nat" where
  "knotSpan k tau = length (takeWhile (\<lambda>c. c \<le> tau) k) - 1"

definition boehmAlpha :: "real list \<Rightarrow> nat \<Rightarrow> real \<Rightarrow> nat \<Rightarrow> real" where
  "boehmAlpha k p tau i =
     (let j = knotSpan k tau in
      if i + p \<le> j then 1
      else if i \<le> j then (tau - k ! i) / (k ! (i + p) - k ! i)
      else 0)"

definition boehmMatrix :: "BSplineBasis1D \<Rightarrow> real \<Rightarrow> SparseMatrix" where
  "boehmMatrix b tau =
     (let n = numBasisFunctions1D b; p = unat (degree b) in
      \<lparr>rows = n + 1, cols = n,
       elems = map (\<lambda>i. map (\<lambda>c. (if c = i then boehmAlpha (knots b) p tau i else 0)
                                 + (if c + 1 = i then 1 - boehmAlpha (knots b) p tau i else 0))
                        [0..<n]) [0..<n + 1]\<rparr>)"

text \<open>Several knots at once: the insertion matrices of the single insertions,
  multiplied; the knot vector takes the new knots in sorted position.\<close>

primrec insertKnots1D :: "nat \<Rightarrow> BSplineBasis1D \<Rightarrow> real \<Rightarrow> SparseMatrix \<times> BSplineBasis1D" where
  "insertKnots1D 0 b tau = (identity_matrix (numBasisFunctions1D b), b)"
| "insertKnots1D (Suc m) b tau =
     (case insertKnots1D m b tau of
        (A, b1) \<Rightarrow> (product (boehmMatrix b1 tau) A, b1\<lparr>knots := insort tau (knots b1)\<rparr>))"

text \<open>Modelled from the spec: a per-dimension insertion matrix extends to the full
  tensor space by tensoring it with identities on the untouched dimensions
  (section 4.3).\<close>

definition extendToTensor :: "BSplineBasis \<Rightarrow> nat \<Rightarrow> SparseMatrix \<Rightarrow> SparseMatrix" where
  "extendToTensor b d A =
     kroneckerProductMatrix
       (kroneckerProductMatrix (identity_matrix (numBasisFunctions (take d b))) A)
       (identity_matrix (numBasisFunctions (drop (Suc d) b)))"

text \<open>Modelled from the spec: insertion is rejected if the resulting multiplicity
  would exceed degree + 1 (section 4.2, Insertion), and if the knot lies outside the
  current support (section 4.2, Regularization).\<close>

definition insertKnots_reference ::
  "BSplineBasis \<Rightarrow> real \<Rightarrow> nat \<Rightarrow> uint \<Rightarrow> (SparseMatrix \<times> BSplineBasis) option" where
  "insertKnots_reference b tau d multiplicity =
     (if length b \<le> d then None
      else if tau < lowerBound (b ! d) \<or> upperBound (b ! d) < tau then None
      else if count_list (knots (b ! d)) tau + unat multiplicity > unat (degree (b ! d)) + 1
      then None
      else (case insertKnots1D (unat multiplicity) (b ! d) tau of
              (A, b1) \<Rightarrow> Some (extendToTensor b d A, b[d := b1])))"

text \<open>Modelled from the spec: support reduction (section 4.2).  Given a target
  \<open>[lb, ub]\<close>, the restriction matrix retains only the basis functions whose support
  intersects \<open>[lb, ub]\<close> and drops the others; the reduction fails if the resulting basis
  would be empty or if the bounds are degenerate (\<open>ub \<le> lb\<close>).  The support of the basis
  function \<open>i\<close> of degree \<open>p\<close> is \<open>[k\<^sub>i, k\<^sub>i\<^sub>+\<^sub>p\<^sub>+\<^sub>1]\<close>; it intersects the target when the two
  share more than an end point, so that a bound that is a knot of multiplicity
  degree + 1 ends the reduced knot vector (section 4.4: the trimmed boundary is an
  exact degree + 1 knot).  The matrix has a row for each basis function and a column
  for each retained one: the surface multiplies its control points by it from the
  right.  The reduced knot vector is that of the retained basis functions.\<close>

definition supportedFunctions :: "BSplineBasis1D \<Rightarrow> real \<Rightarrow> real \<Rightarrow> nat list" where
  "supportedFunctions b lb ub =
     filter (\<lambda>i. knots b ! i < ub \<and> lb < knots b ! (i + unat (degree b) + 1))
       [0..<numBasisFunctions1D b]"

definition reduceSupport1D ::
  "BSplineBasis1D \<Rightarrow> real \<Rightarrow> real \<Rightarrow> (SparseMatrix \<times> BSplineBasis1D) option" where
  "reduceSupport1D b lb ub =
     (let keep = supportedFunctions b lb ub in
      if ub \<le> lb \<or> keep = [] then None
      else Some (\<lparr>rows = numBasisFunctions1D b, cols = length keep,
                  elems = map (\<lambda>i. map (\<lambda>c. if c = i then 1 else 0) keep)
                            [0..<numBasisFunctions1D b]\<rparr>,
                 b\<lparr>knots := take (length keep + unat (degree b) + 1)
                                (drop (hd keep) (knots b))\<rparr>))"

text \<open>Modelled from the spec: a per-dimension matrix extends to the full tensor space
  by tensoring it with identities on the untouched dimensions (section 4.3).  The
  matrix of an operation on every dimension is the product of these extensions: the
  tensor product of the matrices of the dimensions.\<close>

definition tensorMatrix :: "SparseMatrix list \<Rightarrow> SparseMatrix" where
  "tensorMatrix As = foldl kroneckerProductMatrix (identity_matrix 1) As"

definition reduceSupport_reference ::
  "BSplineBasis \<Rightarrow> real list \<Rightarrow> real list \<Rightarrow> (SparseMatrix \<times> BSplineBasis) option" where
  "reduceSupport_reference b lb ub =
     (if length lb \<noteq> length b \<or> length ub \<noteq> length b then None
      else (let rs = map (\<lambda>d. reduceSupport1D (b ! d) (lb ! d) (ub ! d)) [0..<length b] in
            if list_ex (\<lambda>r. r = None) rs then None
            else Some (tensorMatrix (map (\<lambda>r. fst (the r)) rs), map (\<lambda>r. snd (the r)) rs)))"

text \<open>Modelled from the spec: refinement (section 4.2) inserts one knot at the midpoint
  of every knot interval whose relative length exceeds a tolerance, across all
  dimensions, and produces one insertion matrix.  The length of an interval is taken
  relative to the length of the support.  The specification names no case in which
  refinement fails.\<close>

definition refinementKnots :: "real \<Rightarrow> real list \<Rightarrow> real list" where
  "refinementKnots tolerance k =
     map (\<lambda>i. (k ! i + k ! (i + 1)) / 2)
       (filter (\<lambda>i. k ! (i + 1) - k ! i > tolerance * (last k - hd k)) [0..<length k - 1])"

definition refineKnots1D :: "real \<Rightarrow> BSplineBasis1D \<Rightarrow> SparseMatrix \<times> BSplineBasis1D" where
  "refineKnots1D tolerance b =
     foldl (\<lambda>(A, b1) tau. (product (boehmMatrix b1 tau) A, b1\<lparr>knots := insort tau (knots b1)\<rparr>))
       (identity_matrix (numBasisFunctions1D b), b) (refinementKnots tolerance (knots b))"

definition refineKnots_reference ::
  "real \<Rightarrow> BSplineBasis \<Rightarrow> (SparseMatrix \<times> BSplineBasis) option" where
  "refineKnots_reference tolerance b =
     (let rs = map (refineKnots1D tolerance) b
      in Some (tensorMatrix (map fst rs), map snd rs))"

text \<open>The instance: evaluation, knot insertion and support reduction as above, and
  refinement with the tolerance 0 (the specification gives no value), which halves
  every knot interval of positive length.\<close>

definition reference_ops :: BasisOps where
  "reference_ops =
     \<lparr>evalB = evalTensor, insertKnotsB = insertKnots_reference,
      refineKnotsB = refineKnots_reference 0, reduceSupportB = reduceSupport_reference\<rparr>"

text \<open>The contract of the basis layer's knot insertion that the surface relies on.
  Modelled from the spec: inserting a knot value with multiplicity \<open>m\<close> at dimension
  \<open>d\<close> is rejected (signals failure, not exception) if the resulting multiplicity would
  exceed degree + 1.\<close>

definition rejects_excess_multiplicity :: "BasisOps \<Rightarrow> bool" where
  "rejects_excess_multiplicity ops \<longleftrightarrow>
     (\<forall>b tau d m. d < length b \<longrightarrow>
        count_list (knots (b ! d)) tau + unat m > unat (degree (b ! d)) + 1 \<longrightarrow>
        insertKnotsB ops b tau d m = None)"

text \<open>The example surface: one variable, degree 1 on the knots 0, 0, 1, 1; it is the
  function \<open>1 + x\<close> on \<open>[0, 1]\<close>.\<close>

definition example_surface :: BSpline where
  "example_surface =
     \<lparr>basis = [\<lparr>knots = [0, 0, 1, 1], degree = 1\<rparr>],
      coefficients = \<lparr>rows = 1, cols = 2, elems = [[1, 2]]\<rparr>,
      knotaverages = \<lparr>rows = 1, cols = 2, elems = [[0, 1]]\<rparr>,
      numVariables = 1\<rparr>"

section \<open>Names for the statements about domain reduction\<close>

text \<open>
  A surface of degree 1 on the knots 0, 0, 1, 2, 3, 3, with four control points, as
  the constructor for explicit coefficients builds it; and the same surface after
  \<open>setControlPoints\<close> was given three control points.
\<close>

definition four_point_surface :: BSpline where
  "four_point_surface =
     \<lparr>basis = [\<lparr>knots = [0, 0, 1, 2, 3, 3], degree = 1\<rparr>],
      coefficients = \<lparr>rows = 1, cols = 4, elems = [[1, 2, 3, 4]]\<rparr>,
      knotaverages = \<lparr>rows = 1, cols = 4, elems = [[0, 1, 2, 3]]\<rparr>,
      numVariables = 1\<rparr>"

definition three_point_surface :: BSpline where
  "three_point_surface =
     four_point_surface
       \<lparr>knotaverages := \<lparr>rows = 1, cols = 3, elems = [[0, 1, 2]]\<rparr>,
        coefficients := \<lparr>rows = 1, cols = 3, elems = [[1, 2, 3]]\<rparr>\<rparr>"

section \<open>The invariant of the control points\<close>

text \<open>What \<open>checkControlPoints\<close> asserts: the coefficients are one row, the knot averages
  have one row for each variable, and both have the same number of columns.  An operation
  preserves the invariant when it holds after every run that raises nothing from an
  object on which it held; it establishes it when it holds after every run that raises
  nothing, whatever the object was before.\<close>

definition controlPointInvariant :: "BSpline \<Rightarrow> bool" where
  "controlPointInvariant s \<longleftrightarrow>
     rows (coefficients s) = 1 \<and> rows (knotaverages s) = numVariables s
     \<and> cols (coefficients s) = cols (knotaverages s)"

definition preserves :: "(BSpline \<Rightarrow> (error + 'a) \<times> BSpline) \<Rightarrow> bool" where
  "preserves f \<longleftrightarrow>
     (\<forall>s r s'. controlPointInvariant s \<longrightarrow> f s = (Inr r, s') \<longrightarrow> controlPointInvariant s')"

definition establishes :: "(BSpline \<Rightarrow> (error + 'a) \<times> BSpline) \<Rightarrow> bool" where
  "establishes f \<longleftrightarrow> (\<forall>s r s'. f s = (Inr r, s') \<longrightarrow> controlPointInvariant s')"

section \<open>Names for the statements about fitting\<close>

text \<open>The exception of \<open>computeControlPoints\<close>, its two assignments
  \<open>coefficients = Cy.transpose(); knotaverages = Cx.transpose();\<close> for a solution
  \<open>(Cx, Cy)\<close>, and two sample tables for the examples: two samples of \<open>1 + x\<close>, and 1024
  samples of a constant.\<close>

definition solveError :: error where
  "solveError = Exception ''BSpline::computeControlPoints: Failed to solve for B-spline coefficients.''"

definition assignControlPoints :: "BSpline \<Rightarrow> DenseMatrix \<times> DenseMatrix \<Rightarrow> BSpline" where
  "assignControlPoints s C =
     s\<lparr>coefficients := transpose_matrix (snd C), knotaverages := transpose_matrix (fst C)\<rparr>"

definition small_table :: DataTable where
  "small_table =
     \<lparr>isGridComplete = True, getNumVariables = 1, getTableX = [[0, 1]],
      samples = [([0], 1), ([1], 2)]\<rparr>"

definition large_table :: DataTable where
  "large_table =
     \<lparr>isGridComplete = True, getNumVariables = 1, getTableX = [map real [0..<1024]],
      samples = map (\<lambda>i. ([real i], 1)) [0..<1024]\<rparr>"

section \<open>Names for the statements about knot averages\<close>

text \<open>The index in dimension \<open>i\<close> of tensor basis function \<open>j\<close>: the digit of \<open>j\<close> in
  the mixed radix of the per-dimension numbers of basis functions, the last dimension
  running fastest (the order of the Kronecker products in \<open>computeKnotAverages\<close>).
  And a second example surface, of two variables: degree 1 on the knots 0, 0, 1, 1 and
  degree 2 on the knots 0, 0, 0, 1, 2, 2, 2.\<close>

definition tensorIndex :: "BSplineBasis \<Rightarrow> nat \<Rightarrow> nat \<Rightarrow> nat" where
  "tensorIndex b i j =
     (j div numBasisFunctions (drop (Suc i) b)) mod numBasisFunctions1D (b ! i)"

definition example_surface2 :: BSpline where
  "example_surface2 =
     \<lparr>basis = [\<lparr>knots = [0, 0, 1, 1], degree = 1\<rparr>,
               \<lparr>knots = [0, 0, 0, 1, 2, 2, 2], degree = 2\<rparr>],
      coefficients = \<lparr>rows = 1, cols = 8, elems = [[1, 2, 3, 4, 5, 6, 7, 8]]\<rparr>,
      knotaverages = \<lparr>rows = 2, cols = 8,
                      elems = [[0, 0, 0, 0, 1, 1, 1, 1], [0, 1/2, 3/2, 2, 0, 1/2, 3/2, 2]]\<rparr>,
      numVariables = 2\<rparr>"

section \<open>The contract of a knot insertion matrix\<close>

text \<open>Modelled from the spec: a knot insertion matrix is a linear transform mapping
  control points on a knot vector to control points on a refined knot vector
  representing the identical function (glossary); it has one row for each new basis
  function and one column for each old one (section 3).  At a point \<open>x\<close> this is a
  statement about the two bases: every old basis function is the combination of the
  new ones that its column of the matrix gives.\<close>

definition represents_same_basis ::
  "BasisOps \<Rightarrow> BSplineBasis \<Rightarrow> SparseMatrix \<Rightarrow> BSplineBasis \<Rightarrow> real list \<Rightarrow> bool" where
  "represents_same_basis ops b A b' x \<longleftrightarrow>
     wf_matrix A \<and> rows A = length (evalB ops b' x) \<and> cols A = length (evalB ops b x)
     \<and> list_all (\<lambda>j. evalB ops b x ! j = (\<Sum>i<rows A. elems A ! i ! j * evalB ops b' x ! i))
           [0..<cols A]"

section \<open>Names for the statements about decoding\<close>

text \<open>
  The lines of a persisted surface that are not comments, by what \<open>load\<close> reads off them.
  \<open>twoIntegers\<close>: the two integers of a line that holds a degree and a knot-vector
  length, or the dimensions of the coefficient matrix, when \<open>checked_strtol\<close> reads both.
\<close>

definition twoIntegers :: "string \<Rightarrow> (int \<times> int) option" where
  "twoIntegers line =
     (case checked_strtol line of
        Inl e \<Rightarrow> None
      | Inr (v, nextStr) \<Rightarrow>
          (case checked_strtol nextStr of Inl e \<Rightarrow> None | Inr (w, _) \<Rightarrow> Some (v, w)))"

text \<open>A line off which \<open>n\<close> numbers are read by \<open>checked_strtod\<close>: the knot values of a
  basis, or a row of coefficients.\<close>

definition rowLine :: "strtod_fun \<Rightarrow> int \<Rightarrow> string \<Rightarrow> bool" where
  "rowLine strtod n line =
     (case readDoubles strtod (nat n) line of Inl e \<Rightarrow> False | Inr vs \<Rightarrow> True)"

text \<open>The two lines of one basis: a positive degree and a length, then as many knot
  values as the length says; and the lines of several bases, one basis after the
  other.\<close>

definition basisLines :: "strtod_fun \<Rightarrow> string \<times> string \<Rightarrow> bool" where
  "basisLines strtod =
     (\<lambda>(dl, kl). case twoIntegers dl of
                    None \<Rightarrow> False
                  | Some (p, len) \<Rightarrow> 0 < p \<and> rowLine strtod len kl)"

definition basisPart :: "(string \<times> string) list \<Rightarrow> string list" where
  "basisPart blocks = concat (map (\<lambda>(dl, kl). [dl, kl]) blocks)"

text \<open>The text of a line after its first \<open>j\<close> numbers, when \<open>strtod\<close> reads them without
  a range error.\<close>

fun skipDoubles :: "strtod_fun \<Rightarrow> nat \<Rightarrow> string \<Rightarrow> string option" where
  "skipDoubles strtod 0 str = Some str"
| "skipDoubles strtod (Suc j) str =
     (case strtod str of
        None \<Rightarrow> None
      | Some (v, r, erange) \<Rightarrow> if erange then None else skipDoubles strtod j r)"

text \<open>The numbers read off such a line, and the degree and the knot values read off
  the two lines of a basis.  They are the values of well-formed lines; the statements
  below use them for such lines only.\<close>

definition lineDoubles :: "strtod_fun \<Rightarrow> int \<Rightarrow> string \<Rightarrow> real list" where
  "lineDoubles strtod n line =
     (case readDoubles strtod (nat n) line of Inl e \<Rightarrow> [] | Inr vs \<Rightarrow> vs)"

definition basisDegreeOf :: "string \<times> string \<Rightarrow> uint" where
  "basisDegreeOf = (\<lambda>(dl, kl). case twoIntegers dl of None \<Rightarrow> 0 | Some (p, len) \<Rightarrow> word_of_int p)"

definition basisKnotsOf :: "strtod_fun \<Rightarrow> string \<times> string \<Rightarrow> real list" where
  "basisKnotsOf strtod =
     (\<lambda>(dl, kl). case twoIntegers dl of None \<Rightarrow> [] | Some (p, len) \<Rightarrow> lineDoubles strtod len kl)"

section \<open>Names for the statements about saving and loading\<close>

text \<open>Names for the statement of the round trip.  A number reads back when \<open>strtod\<close>
  returns it from its output followed by a space, with or without a space before,
  with the text after it as the rest and no range error, and its output does not start
  a comment.  A line of numbers is their outputs, each followed by a space.  A surface
  is savable when it has as many bases as variables and at least one, every basis has
  a positive degree and knots, the coefficients are one row of as many columns as
  there are basis functions, all counts are below \<open>2^31\<close>, and all its numbers read
  back.  The reloaded surface has the knot averages that \<open>computeKnotAverages\<close> gives.\<close>

definition reads_back :: "(nat \<Rightarrow> real \<Rightarrow> string) \<Rightarrow> strtod_fun \<Rightarrow> nat \<Rightarrow> real \<Rightarrow> bool" where
  "reads_back showDouble strtod precision v \<longleftrightarrow>
     (\<forall>rest. strtod (showDouble precision v @ CHR '' '' # rest) = Some (v, CHR '' '' # rest, False)
           \<and> strtod (CHR '' '' # showDouble precision v @ CHR '' '' # rest)
               = Some (v, CHR '' '' # rest, False))
     \<and> hd (showDouble precision v @ '' '') \<noteq> CHR ''#''"

definition numberLine :: "(nat \<Rightarrow> real \<Rightarrow> string) \<Rightarrow> nat \<Rightarrow> real list \<Rightarrow> string" where
  "numberLine showDouble precision vs = concat (map (\<lambda>v. showDouble precision v @ '' '') vs)"

definition degreeLine :: "BSplineBasis1D \<Rightarrow> string" where
  "degreeLine b = show_nat (unat (degree b)) @ '' '' @ show_nat (length (knots b))"

definition savable_basis :: "(nat \<Rightarrow> real \<Rightarrow> string) \<Rightarrow> strtod_fun \<Rightarrow> BSplineBasis1D \<Rightarrow> bool" where
  "savable_basis showDouble strtod b \<longleftrightarrow>
     0 < unat (degree b) \<and> unat (degree b) < 2 ^ 31
     \<and> knots b \<noteq> [] \<and> length (knots b) < 2 ^ 31
     \<and> list_all (reads_back showDouble strtod 17) (knots b)"

definition savable :: "(nat \<Rightarrow> real \<Rightarrow> string) \<Rightarrow> strtod_fun \<Rightarrow> BSpline \<Rightarrow> bool" where
  "savable showDouble strtod s \<longleftrightarrow>
     numVariables s = length (basis s) \<and> 0 < numVariables s \<and> numVariables s < 2 ^ 31
     \<and> list_all (savable_basis showDouble strtod) (basis s)
     \<and> wf_matrix (coefficients s) \<and> rows (coefficients s) = 1
     \<and> 0 < cols (coefficients s) \<and> cols (coefficients s) < 2 ^ 31
     \<and> cols (coefficients s) = numBasisFunctions (basis s)
     \<and> list_all (list_all (reads_back showDouble strtod 17)) (elems (coefficients s))"

definition reloaded :: "BSpline \<Rightarrow> BSpline" where
  "reloaded s =
     s\<lparr>knotaverages :=
         \<lparr>rows = numVariables s, cols = numBasisFunctions (basis s),
          elems = map (knotAverageRow (basis s) (numVariables s)) [0..<numVariables s]\<rparr>\<rparr>"

text \<open>For the examples: an output of numbers that writes whole numbers, and a surface of
  degree 0 built by the explicit constructor.\<close>

definition showDouble_integers :: "nat \<Rightarrow> real \<Rightarrow> string" where
  "showDouble_integers precision v = show_nat (nat \<lfloor>v\<rfloor>)"

definition degree0_surface :: BSpline where
  "degree0_surface =
     snd (BSpline_explicit reference_ops \<lparr>rows = 1, cols = 1, elems = [[5]]\<rparr> [[0, 1]] [0])"

section \<open>Evaluation and its domain\<close>

lemma insideSupport_iff:
  "insideSupport b x \<longleftrightarrow>
     (\<forall>d<length b. lowerBound (b ! d) \<le> x ! d \<and> x ! d \<le> upperBound (b ! d))"
  by (auto simp: insideSupport_def list_all_iff)

lemma dot_sum: "length u = length v \<Longrightarrow> dot u v = (\<Sum>j<length u. u ! j * v ! j)"
proof -
  assume len: "length u = length v"
  have "sum_list (map2 (*) u v) = (\<Sum>j<length (map2 (*) u v). map2 (*) u v ! j)"
    by (simp add: sum_list_sum_nth atLeast0LessThan)
  also have "\<dots> = (\<Sum>j<length u. u ! j * v ! j)"
    using len by (intro sum.cong) auto
  finally show ?thesis by (simp add: dot_def)
qed

text \<open>
  C1.  \<open>eval(x)\<close> raises the exception "Evaluation at point outside domain" when some
  coordinate of \<open>x\<close> lies outside \<open>[lowerBound, upperBound]\<close> of its dimension's basis, and
  returns no value then; for a point inside the support box, and a coefficient matrix of
  one row with as many columns as there are tensor basis values, it returns the inner
  product of that row with the tensor basis values at \<open>x\<close>.
\<close>

theorem eval_domain:
  "((\<exists>d<length (basis s). x ! d < lowerBound (basis s ! d) \<or> upperBound (basis s ! d) < x ! d)
      \<longrightarrow> eval ops s x = Inl (Exception ''BSpline::eval: Evaluation at point outside domain.''))
   \<and> ((\<forall>d<length (basis s). lowerBound (basis s ! d) \<le> x ! d \<and> x ! d \<le> upperBound (basis s ! d))
      \<longrightarrow> wf_matrix (coefficients s) \<longrightarrow> rows (coefficients s) = 1
      \<longrightarrow> cols (coefficients s) = length (evalB ops (basis s) x)
      \<longrightarrow> eval ops s x =
            Inr (\<Sum>j<cols (coefficients s).
                   elems (coefficients s) ! 0 ! j * evalB ops (basis s) x ! j))"
proof (intro conjI impI)
  assume "\<exists>d<length (basis s). x ! d < lowerBound (basis s ! d) \<or> upperBound (basis s ! d) < x ! d"
  then have "\<not> pointInDomain s x"
    by (auto simp: pointInDomain_def insideSupport_iff)
  then show "eval ops s x = Inl (Exception ''BSpline::eval: Evaluation at point outside domain.'')"
    by (simp add: eval_def)
next
  assume inside: "\<forall>d<length (basis s). lowerBound (basis s ! d) \<le> x ! d \<and> x ! d \<le> upperBound (basis s ! d)"
    and wf: "wf_matrix (coefficients s)" and one: "rows (coefficients s) = 1"
    and len: "cols (coefficients s) = length (evalB ops (basis s) x)"
  from wf one obtain r where r: "elems (coefficients s) = [r]" "length r = cols (coefficients s)"
    by (cases "elems (coefficients s)") (auto simp: wf_matrix_def)
  have "pointInDomain s x"
    using inside by (simp add: pointInDomain_def insideSupport_iff)
  then have "eval ops s x = Inr (dot r (evalB ops (basis s) x))"
    using r len by (simp add: eval_def mult_vec_def)
  also have "dot r (evalB ops (basis s) x) = (\<Sum>j<length r. r ! j * evalB ops (basis s) x ! j)"
    using r len by (intro dot_sum) simp
  finally show "eval ops s x =
      Inr (\<Sum>j<cols (coefficients s). elems (coefficients s) ! 0 ! j * evalB ops (basis s) x ! j)"
    using r by simp
qed

lemma example_eval: "evalB reference_ops (basis example_surface) [1/4] = [3/4, 1/4]"
  by (simp add: reference_ops_def example_surface_def evalTensor_def evalBasis1D_def
      numBasisFunctions1D_def kroneckerProduct_def upt_rec)

theorem eval_domain_witness:
  "eval reference_ops example_surface [1/4] = Inr (5/4)
   \<and> eval reference_ops example_surface [2]
       = Inl (Exception ''BSpline::eval: Evaluation at point outside domain.'')"
proof -
  have in1: "\<forall>d<length (basis example_surface).
      lowerBound (basis example_surface ! d) \<le> [1/4] ! d
      \<and> [1/4] ! d \<le> upperBound (basis example_surface ! d)"
    by (simp add: example_surface_def lowerBound_def upperBound_def)
  have out: "\<exists>d<length (basis example_surface).
      [2] ! d < lowerBound (basis example_surface ! d)
      \<or> upperBound (basis example_surface ! d) < [2] ! d"
    by (simp add: example_surface_def lowerBound_def upperBound_def)
  have wf: "wf_matrix (coefficients example_surface)" "rows (coefficients example_surface) = 1"
    "cols (coefficients example_surface) = length (evalB reference_ops (basis example_surface) [1/4])"
    unfolding example_eval by (simp_all add: example_surface_def wf_matrix_def)
  have "eval reference_ops example_surface [1/4] = Inr (\<Sum>j<cols (coefficients example_surface).
                   elems (coefficients example_surface) ! 0 ! j * evalB reference_ops (basis example_surface) [1/4] ! j)"
    using eval_domain [of example_surface "[1/4]" reference_ops] in1 wf by blast
  also have "\<dots> = Inr (5/4)"
    unfolding example_eval by (simp add: example_surface_def lessThan_Suc numeral_2_eq_2)
  finally have a: "eval reference_ops example_surface [1/4] = Inr (5/4)" .
  have b: "eval reference_ops example_surface [2]
       = Inl (Exception ''BSpline::eval: Evaluation at point outside domain.'')"
    using eval_domain [of example_surface "[2]" reference_ops] out by blast
  show ?thesis using a b by simp
qed

section \<open>Rejected knot insertions\<close>

text \<open>
  C3.  If the multiplicity of \<open>tau\<close> in dimension \<open>d\<close> plus \<open>m\<close> exceeds degree + 1, then
  \<open>insertKnots(tau, d, m)\<close> returns \<open>false\<close>, raises nothing, and leaves the knot vectors,
  the coefficients and the knot averages as they were.  When the sums do not wrap around
  in \<open>unsigned int\<close>, the surface's own test rejects the insertion; when they do, the
  test lets it through and the basis layer rejects it.
\<close>

theorem insertKnots_rejects:
  assumes "d < length (basis s)"
    and "count_list (knots (basis s ! d)) tau + unat m > unat (degree (basis s ! d)) + 1"
    and "rejects_excess_multiplicity ops
         \<or> (count_list (knots (basis s ! d)) tau + unat m < 2 ^ 32
            \<and> unat (degree (basis s ! d)) + 1 < 2 ^ 32)"
  shows "insertKnots ops s tau d m = (Inr False, s)"
proof (cases "getKnotMultiplicity (basis s) d tau + m > getBasisDegree (basis s) d + 1")
  case True
  with assms(1) show ?thesis by (simp add: insertKnots_def)
next
  case False
  from assms(3) show ?thesis
  proof
    assume "rejects_excess_multiplicity ops"
    with assms(1,2) have "insertKnotsB ops (basis s) tau d m = None"
      by (simp add: rejects_excess_multiplicity_def)
    with assms(1) False show ?thesis by (simp add: insertKnots_def)
  next
    assume nowrap: "count_list (knots (basis s ! d)) tau + unat m < 2 ^ 32
            \<and> unat (degree (basis s ! d)) + 1 < 2 ^ 32"
    have "unat (getKnotMultiplicity (basis s) d tau + m) = count_list (knots (basis s ! d)) tau + unat m"
      using nowrap by (simp add: getKnotMultiplicity_def unat_word_ariths unat_of_nat)
    moreover have "unat (getBasisDegree (basis s) d + 1) = unat (degree (basis s ! d)) + 1"
      using nowrap by (simp add: getBasisDegree_def unat_word_ariths)
    ultimately have "getKnotMultiplicity (basis s) d tau + m > getBasisDegree (basis s) d + 1"
      using assms(2) by (simp add: word_less_nat_alt)
    with False show ?thesis by simp
  qed
qed

lemma reference_rejects: "rejects_excess_multiplicity reference_ops"
  by (simp add: rejects_excess_multiplicity_def reference_ops_def insertKnots_reference_def)

theorem insertKnots_rejects_witness:
  "insertKnots reference_ops example_surface 0 0 1 = (Inr False, example_surface)
   \<and> insertKnots reference_ops example_surface 0 0 4294967295 = (Inr False, example_surface)"
proof -
  have d: "0 < length (basis example_surface)"
    by (simp add: example_surface_def)
  have m1: "count_list (knots (basis example_surface ! 0)) 0 + unat (1 :: uint)
              > unat (degree (basis example_surface ! 0)) + 1"
    by (simp add: example_surface_def)
  have nowrap: "count_list (knots (basis example_surface ! 0)) 0 + unat (1 :: uint) < 2 ^ 32
              \<and> unat (degree (basis example_surface ! 0)) + 1 < 2 ^ 32"
    by (simp add: example_surface_def)
  have m2: "count_list (knots (basis example_surface ! 0)) 0 + unat (4294967295 :: uint)
              > unat (degree (basis example_surface ! 0)) + 1"
    by (simp add: example_surface_def)
  have a: "insertKnots reference_ops example_surface 0 0 1 = (Inr False, example_surface)"
    using insertKnots_rejects [of 0 example_surface 0 1 reference_ops] d m1 nowrap by blast
  have b: "insertKnots reference_ops example_surface 0 0 4294967295 = (Inr False, example_surface)"
    using insertKnots_rejects [of 0 example_surface 0 4294967295 reference_ops] d m2 reference_rejects
    by blast
  show ?thesis using a b by simp
qed

section \<open>Domain reduction\<close>

text \<open>
  C10.  When the length of \<open>lb\<close> or of \<open>ub\<close> differs from the number of variables,
  \<open>reduceDomain\<close> returns \<open>false\<close>: it raises nothing and leaves the knot vectors, the
  coefficients and the knot averages as they were.
\<close>

theorem reduceDomain_wrong_size:
  "length lb \<noteq> numVariables s \<or> length ub \<noteq> numVariables s
   \<Longrightarrow> reduceDomain ops s lb ub doRegularizeKnotVectors doRefineKnotVectors = (Inr False, s)"
  by (simp add: reduceDomain_def)

theorem reduceDomain_wrong_size_witness:
  "reduceDomain reference_ops example_surface [0, 0] [1] True True = (Inr False, example_surface)"
  using reduceDomain_wrong_size [of "[0, 0]" example_surface "[1]" reference_ops True True]
  by (simp add: example_surface_def)

text \<open>
  C4, as the claim states it, fails.  The surface on the knots 0, 0, 1, 2, 3, 3 is
  built with four control points and given three by \<open>setControlPoints\<close>.  In its
  \<open>reduceDomain\<close> to \<open>[3/2, 3]\<close> the basis drops its first basis function, whose support
  \<open>[0, 1]\<close> lies outside the target, and its first knot; only then does
  \<open>removeUnsupportedBasisFunctions\<close> compare the number of control points with the rows
  of the restriction matrix and return \<open>false\<close>, and \<open>reduceDomain\<close> raises with the
  reduced knot vector.
\<close>

theorem reduceDomain_mutates_counterexample:
  "BSpline_explicit reference_ops \<lparr>rows = 1, cols = 4, elems = [[1, 2, 3, 4]]\<rparr>
       [[0, 0, 1, 2, 3, 3]] [1] = (Inr (), four_point_surface)
   \<and> setControlPoints four_point_surface \<lparr>rows = 2, cols = 3, elems = [[0, 1, 2], [1, 2, 3]]\<rparr>
       = (Inr (), three_point_surface)
   \<and> reduceDomain reference_ops three_point_surface [3/2] [3] False False
       = (Inl (Exception ''BSpline::reduceDomain: Failed to remove unsupported basis functions!''),
          three_point_surface\<lparr>basis := [\<lparr>knots = [0, 1, 2, 3, 3], degree = 1\<rparr>]\<rparr>)
   \<and> snd (reduceDomain reference_ops three_point_surface [3/2] [3] False False) \<noteq> three_point_surface"
  by code_simp

lemma orThrow_not_False: "fst (orThrow message r) \<noteq> Inr False"
  by (simp add: orThrow_def split: prod.split sum.split bool.split)

lemma andThen_not_False:
  "fst r \<noteq> Inr False \<Longrightarrow> (\<And>s. fst (f s) \<noteq> Inr False) \<Longrightarrow> fst (andThen r f) \<noteq> Inr False"
  by (cases r) (auto simp: andThen_def split: sum.split bool.split)

lemma reduceSteps_not_False:
  "fst (reduceSteps ops s sl su doRegularizeKnotVectors doRefineKnotVectors) \<noteq> Inr False"
  unfolding reduceSteps_def
  by (intro andThen_not_False orThrow_not_False)

lemma removeUnsupportedBasisFunctions_False:
  assumes "removeUnsupportedBasisFunctions ops s1 sl su = (Inr False, s2)"
  shows "(reduceSupportB ops (basis s1) sl su = None \<and> s2 = s1)
       \<or> (\<exists>A b'. reduceSupportB ops (basis s1) sl su = Some (A, b')
             \<and> cols (coefficients s1) \<noteq> rows A \<and> s2 = s1\<lparr>basis := b'\<rparr>)"
  using assms
  by (auto simp: removeUnsupportedBasisFunctions_def rightMultiply_def Let_def
      split: if_splits option.splits sum.splits)

lemma refineKnotVectors_False:
  assumes "refineKnotVectors ops s2 = (Inr False, s3)"
  shows "refineKnotsB ops (basis s2) = None \<and> s3 = s2"
  using assms
  by (auto simp: refineKnotVectors_def rightMultiply_def Let_def
      split: if_splits option.splits sum.splits)

text \<open>
  C4, amended.  With bounds of the right size \<open>reduceDomain\<close> never returns \<open>false\<close>.
  When the check of the bounds raises, the surface is as it was.  Otherwise, when the
  bounds are a strict subset of the support, the three steps run in their order on the
  surface that the step before left, and the first that returns \<open>false\<close> makes
  \<open>reduceDomain\<close> raise the exception that names it, with the surface as that step left
  it: nothing is rolled back.  A support reduction that returns \<open>false\<close> leaves the
  surface it found when the basis refuses, and the reduced basis with the control
  points it found when their number differs from the rows of the restriction matrix;
  a refinement that returns \<open>false\<close> leaves the surface it found.  When every step
  returns \<open>true\<close>, so does \<open>reduceDomain\<close>, with the surface the last step left; when a
  step raises, \<open>reduceDomain\<close> raises the same, with the surface that step left.  When
  the bounds are no strict subset of the support, no step runs.
\<close>

theorem reduceDomain_failure:
  assumes "length lb = numVariables s" and "length ub = numVariables s"
  shows "fst (reduceDomain ops s lb ub doRegularizeKnotVectors doRefineKnotVectors) \<noteq> Inr False
    \<and> (\<forall>e. reduceBounds lb ub [0..<numVariables s]
              (getSupportLowerBound (basis s), getSupportUpperBound (basis s), False) = Inl e
          \<longrightarrow> reduceDomain ops s lb ub doRegularizeKnotVectors doRefineKnotVectors = (Inl e, s))
    \<and> (\<forall>sl su. reduceBounds lb ub [0..<numVariables s]
              (getSupportLowerBound (basis s), getSupportUpperBound (basis s), False)
               = Inr (sl, su, True)
          \<longrightarrow> (\<forall>s1. doRegularizeKnotVectors
                  \<longrightarrow> regularizeKnotVectors ops s sl su = (Inr False, s1)
                  \<longrightarrow> reduceDomain ops s lb ub doRegularizeKnotVectors doRefineKnotVectors
                      = (Inl (Exception ''BSpline::reduceDomain: Failed to regularize knot vectors!''), s1))
            \<and> (\<forall>s1 s2. (if doRegularizeKnotVectors then regularizeKnotVectors ops s sl su
                          else (Inr True, s)) = (Inr True, s1)
                  \<longrightarrow> removeUnsupportedBasisFunctions ops s1 sl su = (Inr False, s2)
                  \<longrightarrow> reduceDomain ops s lb ub doRegularizeKnotVectors doRefineKnotVectors
                        = (Inl (Exception ''BSpline::reduceDomain: Failed to remove unsupported basis functions!''), s2)
                      \<and> ((reduceSupportB ops (basis s1) sl su = None \<and> s2 = s1)
                         \<or> (\<exists>A b'. reduceSupportB ops (basis s1) sl su = Some (A, b')
                               \<and> cols (coefficients s1) \<noteq> rows A \<and> s2 = s1\<lparr>basis := b'\<rparr>)))
            \<and> (\<forall>s1 s2 s3. (if doRegularizeKnotVectors then regularizeKnotVectors ops s sl su
                          else (Inr True, s)) = (Inr True, s1)
                  \<longrightarrow> removeUnsupportedBasisFunctions ops s1 sl su = (Inr True, s2)
                  \<longrightarrow> doRefineKnotVectors
                  \<longrightarrow> refineKnotVectors ops s2 = (Inr False, s3)
                  \<longrightarrow> reduceDomain ops s lb ub doRegularizeKnotVectors doRefineKnotVectors
                        = (Inl (Exception ''BSpline::reduceDomain: Failed to refine knot vectors!''), s3)
                      \<and> s3 = s2)
            \<and> (\<forall>s1 s2 s3. (if doRegularizeKnotVectors then regularizeKnotVectors ops s sl su
                          else (Inr True, s)) = (Inr True, s1)
                  \<longrightarrow> removeUnsupportedBasisFunctions ops s1 sl su = (Inr True, s2)
                  \<longrightarrow> (if doRefineKnotVectors then refineKnotVectors ops s2
                       else (Inr True, s2)) = (Inr True, s3)
                  \<longrightarrow> reduceDomain ops s lb ub doRegularizeKnotVectors doRefineKnotVectors
                        = (Inr True, s3))
            \<and> (\<forall>e s1 s2 s3.
                    (doRegularizeKnotVectors \<and> regularizeKnotVectors ops s sl su = (Inl e, s3))
                  \<or> ((if doRegularizeKnotVectors then regularizeKnotVectors ops s sl su
                       else (Inr True, s)) = (Inr True, s1)
                      \<and> (removeUnsupportedBasisFunctions ops s1 sl su = (Inl e, s3)
                         \<or> (removeUnsupportedBasisFunctions ops s1 sl su = (Inr True, s2)
                             \<and> doRefineKnotVectors \<and> refineKnotVectors ops s2 = (Inl e, s3))))
                  \<longrightarrow> reduceDomain ops s lb ub doRegularizeKnotVectors doRefineKnotVectors
                        = (Inl e, s3)))
    \<and> (\<forall>sl su. reduceBounds lb ub [0..<numVariables s]
              (getSupportLowerBound (basis s), getSupportUpperBound (basis s), False)
               = Inr (sl, su, False)
          \<longrightarrow> reduceDomain ops s lb ub doRegularizeKnotVectors doRefineKnotVectors = (Inr True, s))"
proof (intro conjI allI impI)
  show "fst (reduceDomain ops s lb ub doRegularizeKnotVectors doRefineKnotVectors) \<noteq> Inr False"
    using assms reduceSteps_not_False [of ops s]
    by (simp add: reduceDomain_def split: sum.split prod.split)
next
  fix e
  assume "reduceBounds lb ub [0..<numVariables s]
              (getSupportLowerBound (basis s), getSupportUpperBound (basis s), False) = Inl e"
  then show "reduceDomain ops s lb ub doRegularizeKnotVectors doRefineKnotVectors = (Inl e, s)"
    using assms by (simp add: reduceDomain_def)
next
  fix sl su s1
  assume "reduceBounds lb ub [0..<numVariables s]
              (getSupportLowerBound (basis s), getSupportUpperBound (basis s), False)
               = Inr (sl, su, True)"
    "doRegularizeKnotVectors" "regularizeKnotVectors ops s sl su = (Inr False, s1)"
  then show "reduceDomain ops s lb ub doRegularizeKnotVectors doRefineKnotVectors
      = (Inl (Exception ''BSpline::reduceDomain: Failed to regularize knot vectors!''), s1)"
    using assms by (simp add: reduceDomain_def reduceSteps_def andThen_def orThrow_def)
next
  fix sl su s1 s2
  assume "reduceBounds lb ub [0..<numVariables s]
              (getSupportLowerBound (basis s), getSupportUpperBound (basis s), False)
               = Inr (sl, su, True)"
    "(if doRegularizeKnotVectors then regularizeKnotVectors ops s sl su
                          else (Inr True, s)) = (Inr True, s1)"
    "removeUnsupportedBasisFunctions ops s1 sl su = (Inr False, s2)"
  then show "reduceDomain ops s lb ub doRegularizeKnotVectors doRefineKnotVectors
      = (Inl (Exception ''BSpline::reduceDomain: Failed to remove unsupported basis functions!''), s2)"
    using assms by (simp add: reduceDomain_def reduceSteps_def andThen_def orThrow_def)
next
  fix sl su s1 s2
  assume "removeUnsupportedBasisFunctions ops s1 sl su = (Inr False, s2)"
  then show "(reduceSupportB ops (basis s1) sl su = None \<and> s2 = s1)
       \<or> (\<exists>A b'. reduceSupportB ops (basis s1) sl su = Some (A, b')
             \<and> cols (coefficients s1) \<noteq> rows A \<and> s2 = s1\<lparr>basis := b'\<rparr>)"
    by (rule removeUnsupportedBasisFunctions_False)
next
  fix sl su s1 s2 s3
  assume "reduceBounds lb ub [0..<numVariables s]
              (getSupportLowerBound (basis s), getSupportUpperBound (basis s), False)
               = Inr (sl, su, True)"
    "(if doRegularizeKnotVectors then regularizeKnotVectors ops s sl su
                          else (Inr True, s)) = (Inr True, s1)"
    "removeUnsupportedBasisFunctions ops s1 sl su = (Inr True, s2)"
    "doRefineKnotVectors" "refineKnotVectors ops s2 = (Inr False, s3)"
  then show "reduceDomain ops s lb ub doRegularizeKnotVectors doRefineKnotVectors
      = (Inl (Exception ''BSpline::reduceDomain: Failed to refine knot vectors!''), s3)"
    using assms by (simp add: reduceDomain_def reduceSteps_def andThen_def orThrow_def)
next
  fix s2 s3
  assume "refineKnotVectors ops s2 = (Inr False, s3)"
  then show "s3 = s2" using refineKnotVectors_False by blast
next
  fix sl su s1 s2 s3
  assume "reduceBounds lb ub [0..<numVariables s]
              (getSupportLowerBound (basis s), getSupportUpperBound (basis s), False)
               = Inr (sl, su, True)"
    "(if doRegularizeKnotVectors then regularizeKnotVectors ops s sl su
                          else (Inr True, s)) = (Inr True, s1)"
    "removeUnsupportedBasisFunctions ops s1 sl su = (Inr True, s2)"
    "(if doRefineKnotVectors then refineKnotVectors ops s2
                       else (Inr True, s2)) = (Inr True, s3)"
  then show "reduceDomain ops s lb ub doRegularizeKnotVectors doRefineKnotVectors = (Inr True, s3)"
    using assms by (simp add: reduceDomain_def reduceSteps_def andThen_def orThrow_def)
next
  fix sl su e s1 s2 s3
  assume b: "reduceBounds lb ub [0..<numVariables s]
              (getSupportLowerBound (basis s), getSupportUpperBound (basis s), False)
               = Inr (sl, su, True)"
    and "(doRegularizeKnotVectors \<and> regularizeKnotVectors ops s sl su = (Inl e, s3))
                  \<or> ((if doRegularizeKnotVectors then regularizeKnotVectors ops s sl su
                       else (Inr True, s)) = (Inr True, s1)
                      \<and> (removeUnsupportedBasisFunctions ops s1 sl su = (Inl e, s3)
                         \<or> (removeUnsupportedBasisFunctions ops s1 sl su = (Inr True, s2)
                             \<and> doRefineKnotVectors \<and> refineKnotVectors ops s2 = (Inl e, s3))))"
  then consider
      (regularize) "doRegularizeKnotVectors" "regularizeKnotVectors ops s sl su = (Inl e, s3)"
    | (reduce) "(if doRegularizeKnotVectors then regularizeKnotVectors ops s sl su
                       else (Inr True, s)) = (Inr True, s1)"
        "removeUnsupportedBasisFunctions ops s1 sl su = (Inl e, s3)"
    | (refine) "(if doRegularizeKnotVectors then regularizeKnotVectors ops s sl su
                       else (Inr True, s)) = (Inr True, s1)"
        "removeUnsupportedBasisFunctions ops s1 sl su = (Inr True, s2)"
        "doRefineKnotVectors" "refineKnotVectors ops s2 = (Inl e, s3)"
    by blast
  then show "reduceDomain ops s lb ub doRegularizeKnotVectors doRefineKnotVectors = (Inl e, s3)"
  proof cases
    case regularize
    then show ?thesis
      using assms b by (simp add: reduceDomain_def reduceSteps_def andThen_def orThrow_def)
  next
    case reduce
    then show ?thesis
      using assms b by (simp add: reduceDomain_def reduceSteps_def andThen_def orThrow_def)
  next
    case refine
    then show ?thesis
      using assms b by (simp add: reduceDomain_def reduceSteps_def andThen_def orThrow_def)
  qed
next
  fix sl su
  assume "reduceBounds lb ub [0..<numVariables s]
              (getSupportLowerBound (basis s), getSupportUpperBound (basis s), False)
               = Inr (sl, su, False)"
  then show "reduceDomain ops s lb ub doRegularizeKnotVectors doRefineKnotVectors = (Inr True, s)"
    using assms by (simp add: reduceDomain_def)
qed


text \<open>
  The cases of the theorem on examples: an empty target domain; the surface with three
  control points, whose support reduction fails after the basis was reduced; a basis
  that refuses every knot insertion, and one that refuses every refinement (the
  reference basis refuses neither here); the reduction of \<open>1 + x\<close> on \<open>[0, 1]\<close> to
  \<open>[1/2, 1]\<close> with regularization and refinement; the surface with three control
  points again, whose regularization fails an assertion after the basis took the new
  knots; and bounds that contain the support.
\<close>

theorem reduceDomain_failure_witness:
  "reduceDomain reference_ops example_surface [1] [0] True True
       = (Inl (Exception ''BSpline::reduceDomain: Cannot reduce B-spline domain to empty set!''),
          example_surface)
   \<and> reduceDomain reference_ops three_point_surface [0] [3/2] False False
       = (Inl (Exception ''BSpline::reduceDomain: Failed to remove unsupported basis functions!''),
          three_point_surface\<lparr>basis := [\<lparr>knots = [0, 0, 1, 2, 3], degree = 1\<rparr>]\<rparr>)
   \<and> reduceDomain (reference_ops\<lparr>insertKnotsB := \<lambda>b tau d m. None\<rparr>)
        example_surface [1/2] [1] True True
       = (Inl (Exception ''BSpline::reduceDomain: Failed to regularize knot vectors!''),
          example_surface)
   \<and> reduceDomain (reference_ops\<lparr>refineKnotsB := \<lambda>b. None\<rparr>)
        example_surface [1/2] [1] True True
       = (Inl (Exception ''BSpline::reduceDomain: Failed to refine knot vectors!''),
          \<lparr>basis = [\<lparr>knots = [1/2, 1/2, 1, 1], degree = 1\<rparr>],
           coefficients = \<lparr>rows = 1, cols = 2, elems = [[3/2, 2]]\<rparr>,
           knotaverages = \<lparr>rows = 1, cols = 2, elems = [[1/2, 1]]\<rparr>,
           numVariables = 1\<rparr>)
   \<and> reduceDomain reference_ops example_surface [1/2] [1] True True
       = (Inr True,
          \<lparr>basis = [\<lparr>knots = [1/2, 1/2, 3/4, 1, 1], degree = 1\<rparr>],
           coefficients = \<lparr>rows = 1, cols = 3, elems = [[3/2, 7/4, 2]]\<rparr>,
           knotaverages = \<lparr>rows = 1, cols = 3, elems = [[1/2, 3/4, 1]]\<rparr>,
           numVariables = 1\<rparr>)
   \<and> reduceDomain reference_ops three_point_surface [3/2] [3] True True
       = (Inl assertion_failure,
          three_point_surface
            \<lparr>basis := [\<lparr>knots = [0, 0, 1, 3/2, 3/2, 2, 3, 3], degree = 1\<rparr>]\<rparr>)
   \<and> reduceDomain reference_ops example_surface [-1] [2] True True = (Inr True, example_surface)"
proof -
  let ?noInsert = "reference_ops\<lparr>insertKnotsB := \<lambda>b tau d m. None\<rparr>"
  let ?noRefine = "reference_ops\<lparr>refineKnotsB := \<lambda>b. None\<rparr>"
  let ?regularized =
    "\<lparr>basis = [\<lparr>knots = [0, 0, 1/2, 1/2, 1, 1], degree = 1\<rparr>],
      coefficients = \<lparr>rows = 1, cols = 4, elems = [[1, 3/2, 3/2, 2]]\<rparr>,
      knotaverages = \<lparr>rows = 1, cols = 4, elems = [[0, 1/2, 1/2, 1]]\<rparr>,
      numVariables = 1\<rparr>"
  let ?reduced =
    "\<lparr>basis = [\<lparr>knots = [1/2, 1/2, 1, 1], degree = 1\<rparr>],
      coefficients = \<lparr>rows = 1, cols = 2, elems = [[3/2, 2]]\<rparr>,
      knotaverages = \<lparr>rows = 1, cols = 2, elems = [[1/2, 1]]\<rparr>,
      numVariables = 1\<rparr>"
  let ?refined =
    "\<lparr>basis = [\<lparr>knots = [1/2, 1/2, 3/4, 1, 1], degree = 1\<rparr>],
      coefficients = \<lparr>rows = 1, cols = 3, elems = [[3/2, 7/4, 2]]\<rparr>,
      knotaverages = \<lparr>rows = 1, cols = 3, elems = [[1/2, 3/4, 1]]\<rparr>,
      numVariables = 1\<rparr>"
  have n: "length [1/2 :: real] = numVariables example_surface"
    "length [1 :: real] = numVariables example_surface"
    "length [0 :: real] = numVariables example_surface"
    by (simp_all add: example_surface_def)
  have n3: "length [0 :: real] = numVariables three_point_surface"
    "length [3/2 :: real] = numVariables three_point_surface"
    by (simp_all add: three_point_surface_def four_point_surface_def)
  have empty: "reduceBounds [1] [0] [0..<numVariables example_surface]
      (getSupportLowerBound (basis example_surface), getSupportUpperBound (basis example_surface), False)
      = Inl (Exception ''BSpline::reduceDomain: Cannot reduce B-spline domain to empty set!'')"
    by code_simp
  have half: "reduceBounds [1/2] [1] [0..<numVariables example_surface]
      (getSupportLowerBound (basis example_surface), getSupportUpperBound (basis example_surface), False)
      = Inr ([1/2], [1], True)"
    by code_simp
  have three: "reduceBounds [0] [3/2] [0..<numVariables three_point_surface]
      (getSupportLowerBound (basis three_point_surface), getSupportUpperBound (basis three_point_surface), False)
      = Inr ([0], [3/2], True)"
    by code_simp
  have a: "reduceDomain reference_ops example_surface [1] [0] True True
       = (Inl (Exception ''BSpline::reduceDomain: Cannot reduce B-spline domain to empty set!''),
          example_surface)"
    using reduceDomain_failure [where ops = reference_ops and s = example_surface
        and lb = "[1]" and ub = "[0]" and doRegularizeKnotVectors = True
        and doRefineKnotVectors = True, OF n(2) n(3)] empty
    by blast
  have "removeUnsupportedBasisFunctions reference_ops three_point_surface [0] [3/2]
      = (Inr False, three_point_surface\<lparr>basis := [\<lparr>knots = [0, 0, 1, 2, 3], degree = 1\<rparr>]\<rparr>)"
    by code_simp
  then have b: "reduceDomain reference_ops three_point_surface [0] [3/2] False False
       = (Inl (Exception ''BSpline::reduceDomain: Failed to remove unsupported basis functions!''),
          three_point_surface\<lparr>basis := [\<lparr>knots = [0, 0, 1, 2, 3], degree = 1\<rparr>]\<rparr>)"
    using reduceDomain_failure [where ops = reference_ops and s = three_point_surface
        and lb = "[0]" and ub = "[3/2]" and doRegularizeKnotVectors = False
        and doRefineKnotVectors = False, OF n3] three
    by simp
  have "regularizeKnotVectors ?noInsert example_surface [1/2] [1] = (Inr False, example_surface)"
    by code_simp
  then have c: "reduceDomain ?noInsert example_surface [1/2] [1] True True
       = (Inl (Exception ''BSpline::reduceDomain: Failed to regularize knot vectors!''),
          example_surface)"
    using reduceDomain_failure [where ops = ?noInsert and s = example_surface
        and lb = "[1/2]" and ub = "[1]" and doRegularizeKnotVectors = True
        and doRefineKnotVectors = True, OF n(1) n(2)] half
    by simp
  have "regularizeKnotVectors ?noRefine example_surface [1/2] [1] = (Inr True, ?regularized)"
    "removeUnsupportedBasisFunctions ?noRefine ?regularized [1/2] [1] = (Inr True, ?reduced)"
    "refineKnotVectors ?noRefine ?reduced = (Inr False, ?reduced)"
    by code_simp+
  then have d: "reduceDomain ?noRefine example_surface [1/2] [1] True True
       = (Inl (Exception ''BSpline::reduceDomain: Failed to refine knot vectors!''), ?reduced)"
    using reduceDomain_failure [where ops = ?noRefine and s = example_surface
        and lb = "[1/2]" and ub = "[1]" and doRegularizeKnotVectors = True
        and doRefineKnotVectors = True, OF n(1) n(2)] half
    by simp
  have "regularizeKnotVectors reference_ops example_surface [1/2] [1] = (Inr True, ?regularized)"
    "removeUnsupportedBasisFunctions reference_ops ?regularized [1/2] [1] = (Inr True, ?reduced)"
    "refineKnotVectors reference_ops ?reduced = (Inr True, ?refined)"
    by code_simp+
  then have e: "reduceDomain reference_ops example_surface [1/2] [1] True True = (Inr True, ?refined)"
    using reduceDomain_failure [where ops = reference_ops and s = example_surface
        and lb = "[1/2]" and ub = "[1]" and doRegularizeKnotVectors = True
        and doRefineKnotVectors = True, OF n(1) n(2)] half
    by simp
  have n3': "length [3/2 :: real] = numVariables three_point_surface"
    "length [3 :: real] = numVariables three_point_surface"
    by (simp_all add: three_point_surface_def four_point_surface_def)
  have upper: "reduceBounds [3/2] [3] [0..<numVariables three_point_surface]
      (getSupportLowerBound (basis three_point_surface),
       getSupportUpperBound (basis three_point_surface), False)
      = Inr ([3/2], [3], True)"
    by code_simp
  have "regularizeKnotVectors reference_ops three_point_surface [3/2] [3]
      = (Inl assertion_failure,
         three_point_surface
           \<lparr>basis := [\<lparr>knots = [0, 0, 1, 3/2, 3/2, 2, 3, 3], degree = 1\<rparr>]\<rparr>)"
    by code_simp
  then have f: "reduceDomain reference_ops three_point_surface [3/2] [3] True True
       = (Inl assertion_failure,
          three_point_surface
            \<lparr>basis := [\<lparr>knots = [0, 0, 1, 3/2, 3/2, 2, 3, 3], degree = 1\<rparr>]\<rparr>)"
    using reduceDomain_failure [where ops = reference_ops and s = three_point_surface
        and lb = "[3/2]" and ub = "[3]" and doRegularizeKnotVectors = True
        and doRefineKnotVectors = True, OF n3'] upper
    by simp
  have n': "length [-1 :: real] = numVariables example_surface"
    "length [2 :: real] = numVariables example_surface"
    by (simp_all add: example_surface_def)
  have whole: "reduceBounds [-1] [2] [0..<numVariables example_surface]
      (getSupportLowerBound (basis example_surface), getSupportUpperBound (basis example_surface), False)
      = Inr ([0], [1], False)"
    by code_simp
  have g: "reduceDomain reference_ops example_surface [-1] [2] True True = (Inr True, example_surface)"
    using reduceDomain_failure [where ops = reference_ops and s = example_surface
        and lb = "[-1]" and ub = "[2]" and doRegularizeKnotVectors = True
        and doRefineKnotVectors = True, OF n'] whole
    by simp
  from a b c d e f g show ?thesis by blast
qed

section \<open>The invariant under the mutations\<close>

lemma checkControlPoints_iff: "checkControlPoints s = Inr r \<longleftrightarrow> controlPointInvariant s \<and> r"
  by (auto simp: checkControlPoints_def controlPointInvariant_def)

lemma andThen_Inr:
  "andThen r f = (Inr b, s') \<Longrightarrow>
     (\<exists>s1. r = (Inr True, s1) \<and> f s1 = (Inr b, s')) \<or> (r = (Inr False, s') \<and> \<not> b)"
  by (cases r) (auto simp: andThen_def split: sum.splits bool.splits)

lemma orThrow_Inr: "orThrow message r = (Inr b, s') \<Longrightarrow> r = (Inr True, s') \<and> b"
  by (cases r) (auto simp: orThrow_def split: sum.splits bool.splits)

lemma rightMultiply_invariant:
  "controlPointInvariant s \<Longrightarrow> rightMultiply M s = (Inr r, s') \<Longrightarrow> controlPointInvariant s'"
  by (auto simp: rightMultiply_def mult_def product_def controlPointInvariant_def Let_def
      split: sum.splits if_splits)

lemma insertKnots_invariant:
  "controlPointInvariant s \<Longrightarrow> insertKnots ops s tau d m = (Inr r, s') \<Longrightarrow> controlPointInvariant s'"
proof -
  assume inv: "controlPointInvariant s" and run: "insertKnots ops s tau d m = (Inr r, s')"
  show ?thesis
  proof (cases "insertKnotsB ops (basis s) tau d m")
    case None
    with run have "s' = s" by (auto simp: insertKnots_def split: if_splits)
    with inv show ?thesis by simp
  next
    case (Some Ab)
    obtain A b' where Ab: "Ab = (A, b')" by (cases Ab)
    have inv1: "controlPointInvariant (s\<lparr>basis := b'\<rparr>)"
      using inv by (simp add: controlPointInvariant_def)
    from run Some Ab have "s' = s \<or> rightMultiply (transpose_matrix A) (s\<lparr>basis := b'\<rparr>) = (Inr r, s')"
      by (auto simp: insertKnots_def Let_def split: if_splits)
    then show ?thesis using inv rightMultiply_invariant [OF inv1] by blast
  qed
qed

lemma refineKnotVectors_invariant:
  "controlPointInvariant s \<Longrightarrow> refineKnotVectors ops s = (Inr r, s') \<Longrightarrow> controlPointInvariant s'"
proof -
  assume inv: "controlPointInvariant s" and run: "refineKnotVectors ops s = (Inr r, s')"
  show ?thesis
  proof (cases "refineKnotsB ops (basis s)")
    case None
    with run have "s' = s" by (auto simp: refineKnotVectors_def)
    with inv show ?thesis by simp
  next
    case (Some Ab)
    obtain A b' where Ab: "Ab = (A, b')" by (cases Ab)
    have inv1: "controlPointInvariant (s\<lparr>basis := b'\<rparr>)"
      using inv by (simp add: controlPointInvariant_def)
    from run Some Ab have "rightMultiply (transpose_matrix A) (s\<lparr>basis := b'\<rparr>) = (Inr r, s')"
      by (auto simp: refineKnotVectors_def Let_def split: if_splits)
    then show ?thesis using rightMultiply_invariant [OF inv1] by blast
  qed
qed

lemma removeUnsupportedBasisFunctions_invariant:
  "controlPointInvariant s \<Longrightarrow> removeUnsupportedBasisFunctions ops s lb ub = (Inr r, s')
   \<Longrightarrow> controlPointInvariant s'"
proof -
  assume inv: "controlPointInvariant s"
    and run: "removeUnsupportedBasisFunctions ops s lb ub = (Inr r, s')"
  show ?thesis
  proof (cases "reduceSupportB ops (basis s) lb ub")
    case None
    with run have "s' = s" by (auto simp: removeUnsupportedBasisFunctions_def split: if_splits)
    with inv show ?thesis by simp
  next
    case (Some Ab)
    obtain A b' where Ab: "Ab = (A, b')" by (cases Ab)
    have inv1: "controlPointInvariant (s\<lparr>basis := b'\<rparr>)"
      using inv by (simp add: controlPointInvariant_def)
    from run Some Ab have "s' = s\<lparr>basis := b'\<rparr> \<or> rightMultiply A (s\<lparr>basis := b'\<rparr>) = (Inr r, s')"
      by (auto simp: removeUnsupportedBasisFunctions_def Let_def split: if_splits)
    then show ?thesis using inv1 rightMultiply_invariant [OF inv1] by blast
  qed
qed

lemma regularizeBound_invariant:
  "controlPointInvariant s \<Longrightarrow> regularizeBound ops s target tau d = (Inr r, s')
   \<Longrightarrow> controlPointInvariant s'"
  by (auto simp: regularizeBound_def Let_def split: if_splits dest: insertKnots_invariant)

lemma regularizeLoop_invariant:
  "controlPointInvariant s \<Longrightarrow> regularizeLoop ops lb ub ds s = (Inr r, s') \<Longrightarrow> controlPointInvariant s'"
proof (induction ds arbitrary: s)
  case Nil
  then show ?case by simp
next
  case (Cons d ds)
  let ?t = "getBasisDegree (basis s) d + 1"
  from Cons.prems(2) have run: "andThen (regularizeBound ops s ?t (lb ! d) d)
             (\<lambda>s1. andThen (regularizeBound ops s1 ?t (ub ! d) d)
                     (\<lambda>s2. regularizeLoop ops lb ub ds s2)) = (Inr r, s')"
    by (simp add: Let_def split: if_splits)
  from andThen_Inr [OF run] show ?case
  proof
    assume "\<exists>s1. regularizeBound ops s ?t (lb ! d) d = (Inr True, s1)
        \<and> andThen (regularizeBound ops s1 ?t (ub ! d) d) (\<lambda>s2. regularizeLoop ops lb ub ds s2) = (Inr r, s')"
    then obtain s1 where s1: "regularizeBound ops s ?t (lb ! d) d = (Inr True, s1)"
      and rest: "andThen (regularizeBound ops s1 ?t (ub ! d) d) (\<lambda>s2. regularizeLoop ops lb ub ds s2) = (Inr r, s')"
      by blast
    have inv1: "controlPointInvariant s1"
      using regularizeBound_invariant [OF Cons.prems(1) s1] .
    from andThen_Inr [OF rest] show ?case
    proof
      assume "\<exists>s2. regularizeBound ops s1 ?t (ub ! d) d = (Inr True, s2)
          \<and> regularizeLoop ops lb ub ds s2 = (Inr r, s')"
      then obtain s2 where s2: "regularizeBound ops s1 ?t (ub ! d) d = (Inr True, s2)"
        and loop: "regularizeLoop ops lb ub ds s2 = (Inr r, s')"
        by blast
      from Cons.IH [OF regularizeBound_invariant [OF inv1 s2] loop] show ?case .
    next
      assume "regularizeBound ops s1 ?t (ub ! d) d = (Inr False, s') \<and> \<not> r"
      then show ?case using regularizeBound_invariant [OF inv1] by blast
    qed
  next
    assume "regularizeBound ops s ?t (lb ! d) d = (Inr False, s') \<and> \<not> r"
    then show ?case using regularizeBound_invariant [OF Cons.prems(1)] by blast
  qed
qed

lemma regularizeKnotVectors_invariant:
  "controlPointInvariant s \<Longrightarrow> regularizeKnotVectors ops s lb ub = (Inr r, s')
   \<Longrightarrow> controlPointInvariant s'"
  by (auto simp: regularizeKnotVectors_def split: if_splits dest: regularizeLoop_invariant)

lemma andThen_orThrow_Inr:
  "andThen (orThrow message r) f = (Inr b, s') \<Longrightarrow> \<exists>s1. r = (Inr True, s1) \<and> f s1 = (Inr b, s')"
  by (cases r) (auto simp: andThen_def orThrow_def split: sum.splits bool.splits)

lemma reduceSteps_invariant:
  assumes inv: "controlPointInvariant s"
    and run: "reduceSteps ops s sl su doRegularizeKnotVectors doRefineKnotVectors = (Inr r, s')"
  shows "controlPointInvariant s'"
proof -
  from andThen_orThrow_Inr [OF run [unfolded reduceSteps_def]]
  obtain s1 where s1: "(if doRegularizeKnotVectors then regularizeKnotVectors ops s sl su else (Inr True, s)) = (Inr True, s1)"
    and rest: "andThen
          (orThrow ''BSpline::reduceDomain: Failed to remove unsupported basis functions!''
             (removeUnsupportedBasisFunctions ops s1 sl su))
          (\<lambda>s2. orThrow ''BSpline::reduceDomain: Failed to refine knot vectors!''
                  (if doRefineKnotVectors then refineKnotVectors ops s2 else (Inr True, s2))) = (Inr r, s')"
    by blast
  have inv1: "controlPointInvariant s1"
  proof (cases doRegularizeKnotVectors)
    case True
    with s1 regularizeKnotVectors_invariant [OF inv] show ?thesis by simp
  next
    case False
    with s1 inv show ?thesis by simp
  qed
  from andThen_orThrow_Inr [OF rest]
  obtain s2 where s2: "removeUnsupportedBasisFunctions ops s1 sl su = (Inr True, s2)"
    and last: "orThrow ''BSpline::reduceDomain: Failed to refine knot vectors!''
                  (if doRefineKnotVectors then refineKnotVectors ops s2 else (Inr True, s2)) = (Inr r, s')"
    by blast
  have inv2: "controlPointInvariant s2"
    using removeUnsupportedBasisFunctions_invariant [OF inv1 s2] .
  from orThrow_Inr [OF last]
  have fin: "(if doRefineKnotVectors then refineKnotVectors ops s2 else (Inr True, s2)) = (Inr True, s')"
    by simp
  show ?thesis
  proof (cases doRefineKnotVectors)
    case True
    with fin refineKnotVectors_invariant [OF inv2] show ?thesis by simp
  next
    case False
    with fin inv2 show ?thesis by simp
  qed
qed

lemma reduceDomain_invariant:
  "controlPointInvariant s \<Longrightarrow>
   reduceDomain ops s lb ub doRegularizeKnotVectors doRefineKnotVectors = (Inr r, s')
   \<Longrightarrow> controlPointInvariant s'"
proof -
  assume inv: "controlPointInvariant s"
    and run: "reduceDomain ops s lb ub doRegularizeKnotVectors doRefineKnotVectors = (Inr r, s')"
  from run have "s' = s \<or> (\<exists>sl su. reduceSteps ops s sl su doRegularizeKnotVectors doRefineKnotVectors = (Inr r, s'))"
    by (auto simp: reduceDomain_def split: if_splits sum.splits prod.splits)
  then show ?thesis using inv reduceSteps_invariant [OF inv] by blast
qed


lemma setControlPoints_invariant:
  "setControlPoints s controlPoints = (Inr r, s') \<Longrightarrow> controlPointInvariant s'"
  by (auto simp: setControlPoints_def Let_def checkControlPoints_iff
      split: if_splits sum.splits)

lemma loadBasis_invariant:
  "loadBasis ops s kvs degs = (Inr r, s') \<Longrightarrow> controlPointInvariant s'"
  by (auto simp: loadBasis_def Let_def checkControlPoints_iff
      split: if_splits sum.splits prod.splits)

lemma load_invariant:
  "load strtod ops s fileLines = (Inr r, s') \<Longrightarrow> controlPointInvariant s'"
  by (auto simp: load_def split: sum.splits dest: loadBasis_invariant)

lemma BSpline_samples_invariant:
  "BSpline_samples BSplineBasis_free solvers ops table type = (out, Inr r, s')
   \<Longrightarrow> controlPointInvariant s'"
  by (auto simp: BSpline_samples_def Let_def checkControlPoints_iff
      split: if_splits sum.splits prod.splits)


text \<open>
  C6, as the claim states it, fails: knot insertion does not check the invariant.  Run on
  an object whose coefficients have two rows, it returns \<open>true\<close> and leaves coefficients
  of two rows.
\<close>

theorem insertKnots_unchecked_counterexample:
  "insertKnots reference_ops
     (example_surface\<lparr>coefficients := \<lparr>rows = 2, cols = 2, elems = [[1, 2], [3, 4]]\<rparr>\<rparr>) (1/2) 0 1
   = (Inr True,
      \<lparr>basis = [\<lparr>knots = [0, 0, 1/2, 1, 1], degree = 1\<rparr>],
       coefficients = \<lparr>rows = 2, cols = 3, elems = [[1, 3/2, 2], [3, 7/2, 4]]\<rparr>,
       knotaverages = \<lparr>rows = 1, cols = 3, elems = [[0, 1/2, 1]]\<rparr>,
       numVariables = 1\<rparr>)
   \<and> \<not> controlPointInvariant
        (snd (insertKnots reference_ops
          (example_surface\<lparr>coefficients := \<lparr>rows = 2, cols = 2, elems = [[1, 2], [3, 4]]\<rparr>\<rparr>)
          (1/2) 0 1))
   \<and> \<not> establishes (\<lambda>s. insertKnots reference_ops s (1/2) 0 1)"
proof -
  let ?s = "example_surface\<lparr>coefficients := \<lparr>rows = 2, cols = 2, elems = [[1, 2], [3, 4]]\<rparr>\<rparr>"
  let ?s' = "\<lparr>basis = [\<lparr>knots = [0, 0, 1/2, 1, 1], degree = 1\<rparr>],
       coefficients = \<lparr>rows = 2, cols = 3, elems = [[1, 3/2, 2], [3, 7/2, 4]]\<rparr>,
       knotaverages = \<lparr>rows = 1, cols = 3, elems = [[0, 1/2, 1]]\<rparr>,
       numVariables = 1\<rparr>"
  have run: "insertKnots reference_ops ?s (1/2) 0 1 = (Inr True, ?s')"
    by code_simp
  have bad: "\<not> controlPointInvariant ?s'"
    by (simp add: controlPointInvariant_def)
  from run bad have "\<not> establishes (\<lambda>s. insertKnots reference_ops s (1/2) 0 1)"
    unfolding establishes_def by blast
  with run bad show ?thesis by simp
qed


text \<open>
  C6, amended.  Knot insertion, refinement, support reduction and domain reduction
  preserve the invariant: if it holds before, it holds after every run that raises
  nothing.  \<open>setControlPoints\<close>, \<open>loadBasis\<close> (the explicit constructor and \<open>load\<close>) and
  the constructor from samples check it: after every run of them that raises nothing,
  it holds.
\<close>

theorem control_point_invariant:
  "preserves (\<lambda>s. insertKnots ops s tau d m)
   \<and> preserves (refineKnotVectors ops)
   \<and> preserves (\<lambda>s. removeUnsupportedBasisFunctions ops s lb ub)
   \<and> preserves (\<lambda>s. reduceDomain ops s lb ub doRegularizeKnotVectors doRefineKnotVectors)
   \<and> establishes (\<lambda>s. setControlPoints s controlPoints)
   \<and> establishes (\<lambda>s. loadBasis ops s kvs degs)
   \<and> establishes (\<lambda>s. load strtod ops s fileLines)
   \<and> (\<forall>out r s'. BSpline_samples BSplineBasis_free solvers ops table type = (out, Inr r, s')
          \<longrightarrow> controlPointInvariant s')"
  unfolding preserves_def establishes_def
proof (intro conjI allI impI)
  fix s :: BSpline and r :: bool and s' :: BSpline
  assume inv: "controlPointInvariant s"
  { assume "insertKnots ops s tau d m = (Inr r, s')"
    then show "controlPointInvariant s'" by (rule insertKnots_invariant [OF inv]) }
  { assume "refineKnotVectors ops s = (Inr r, s')"
    then show "controlPointInvariant s'" by (rule refineKnotVectors_invariant [OF inv]) }
  { assume "removeUnsupportedBasisFunctions ops s lb ub = (Inr r, s')"
    then show "controlPointInvariant s'"
      by (rule removeUnsupportedBasisFunctions_invariant [OF inv]) }
  { assume "reduceDomain ops s lb ub doRegularizeKnotVectors doRefineKnotVectors = (Inr r, s')"
    then show "controlPointInvariant s'" by (rule reduceDomain_invariant [OF inv]) }
next
  fix s :: BSpline and r :: unit and s' :: BSpline
  { assume "setControlPoints s controlPoints = (Inr r, s')"
    then show "controlPointInvariant s'" by (rule setControlPoints_invariant) }
  { assume "loadBasis ops s kvs degs = (Inr r, s')"
    then show "controlPointInvariant s'" by (rule loadBasis_invariant) }
  { assume "load strtod ops s fileLines = (Inr r, s')"
    then show "controlPointInvariant s'" by (rule load_invariant) }
next
  fix out r s'
  assume "BSpline_samples BSplineBasis_free solvers ops table type = (out, Inr r, s')"
  then show "controlPointInvariant s'" by (rule BSpline_samples_invariant)
qed


theorem control_point_invariant_witness:
  "controlPointInvariant example_surface
   \<and> insertKnots reference_ops example_surface (1/2) 0 1
       = (Inr True,
          \<lparr>basis = [\<lparr>knots = [0, 0, 1/2, 1, 1], degree = 1\<rparr>],
           coefficients = \<lparr>rows = 1, cols = 3, elems = [[1, 3/2, 2]]\<rparr>,
           knotaverages = \<lparr>rows = 1, cols = 3, elems = [[0, 1/2, 1]]\<rparr>,
           numVariables = 1\<rparr>)
   \<and> controlPointInvariant (snd (insertKnots reference_ops example_surface (1/2) 0 1))
   \<and> setControlPoints example_surface \<lparr>rows = 2, cols = 3, elems = [[0, 1/2, 1], [1, 5, 2]]\<rparr>
       = (Inr (),
          example_surface
            \<lparr>knotaverages := \<lparr>rows = 1, cols = 3, elems = [[0, 1/2, 1]]\<rparr>,
             coefficients := \<lparr>rows = 1, cols = 3, elems = [[1, 5, 2]]\<rparr>\<rparr>)
   \<and> controlPointInvariant
        (snd (setControlPoints example_surface \<lparr>rows = 2, cols = 3, elems = [[0, 1/2, 1], [1, 5, 2]]\<rparr>))"
proof -
  have inv: "controlPointInvariant example_surface"
    by (simp add: controlPointInvariant_def example_surface_def)
  have run: "insertKnots reference_ops example_surface (1/2) 0 1
       = (Inr True,
          \<lparr>basis = [\<lparr>knots = [0, 0, 1/2, 1, 1], degree = 1\<rparr>],
           coefficients = \<lparr>rows = 1, cols = 3, elems = [[1, 3/2, 2]]\<rparr>,
           knotaverages = \<lparr>rows = 1, cols = 3, elems = [[0, 1/2, 1]]\<rparr>,
           numVariables = 1\<rparr>)"
    by code_simp
  have set: "setControlPoints example_surface \<lparr>rows = 2, cols = 3, elems = [[0, 1/2, 1], [1, 5, 2]]\<rparr>
       = (Inr (),
          example_surface
            \<lparr>knotaverages := \<lparr>rows = 1, cols = 3, elems = [[0, 1/2, 1]]\<rparr>,
             coefficients := \<lparr>rows = 1, cols = 3, elems = [[1, 5, 2]]\<rparr>\<rparr>)"
    by code_simp
  note inst = control_point_invariant [of reference_ops "1/2" 0 1 "[]" "[]" False False
      "\<lparr>rows = 2, cols = 3, elems = [[0, 1/2, 1], [1, 5, 2]]\<rparr>" "[]" "[]" "\<lambda>s. None" "[]"
      "\<lambda>x p. []" "\<lparr>SparseLU_solve = (\<lambda>A B. None), DenseQR_solve = (\<lambda>A B. None)\<rparr>"
      "\<lparr>isGridComplete = False, getNumVariables = 0, getTableX = [], samples = []\<rparr>" LINEAR,
      unfolded preserves_def establishes_def]
  have a: "controlPointInvariant (snd (insertKnots reference_ops example_surface (1/2) 0 1))"
    using inst inv run by (metis snd_conv)
  have b: "controlPointInvariant
        (snd (setControlPoints example_surface \<lparr>rows = 2, cols = 3, elems = [[0, 1/2, 1], [1, 5, 2]]\<rparr>))"
    using inst set by (metis snd_conv)
  show ?thesis using inv run set a b by simp
qed

section \<open>The choice of the solver\<close>

lemma small_A:
  "computeBasisFunctionMatrix reference_ops example_surface small_table
     = Inr \<lparr>rows = 2, cols = 2, elems = [[1, 0], [0, 1]]\<rparr>"
  by code_simp

lemma small_B:
  "controlPointEquationRHS small_table
     = Inr (\<lparr>rows = 2, cols = 1, elems = [[0], [1]]\<rparr>, \<lparr>rows = 2, cols = 1, elems = [[1], [2]]\<rparr>)"
  by code_simp

text \<open>
  C5, as the claim states it, fails in its last part.  On a system of two equations the
  sparse solver is not run; the dense solve fails and the exception is raised, with a
  sparse solver that would have solved the system.
\<close>

theorem solve_error_counterexample:
  "computeControlPoints \<lparr>SparseLU_solve = (\<lambda>A B. Some B), DenseQR_solve = (\<lambda>A B. None)\<rparr>
     reference_ops example_surface small_table
   = ([''Computing B-spline control points using dense solver.''],
      Inl (Exception ''BSpline::computeControlPoints: Failed to solve for B-spline coefficients.''),
      example_surface)
   \<and> solveBoth (SparseLU_solve \<lparr>SparseLU_solve = (\<lambda>A B. Some B), DenseQR_solve = (\<lambda>A B. None)\<rparr>)
        \<lparr>rows = 2, cols = 2, elems = [[1, 0], [0, 1]]\<rparr>
        \<lparr>rows = 2, cols = 1, elems = [[0], [1]]\<rparr> \<lparr>rows = 2, cols = 1, elems = [[1], [2]]\<rparr>
       = Some (\<lparr>rows = 2, cols = 1, elems = [[0], [1]]\<rparr>, \<lparr>rows = 2, cols = 1, elems = [[1], [2]]\<rparr>)"
  by (simp add: computeControlPoints_def small_A small_B solveBoth_def)

text \<open>
  C5, amended.  Below \<open>2^10\<close> equations only the dense solver runs.  From \<open>2^10\<close>
  equations on the sparse solver runs first; its solution is taken when both its solves
  succeed, and the dense solver runs only when one of them failed.  The exception
  "Failed to solve for B-spline coefficients" is raised exactly when the dense solver ran
  and failed: the system is small or the sparse solve failed, and the dense solve
  failed.
\<close>

theorem computeControlPoints_solvers:
  assumes A: "computeBasisFunctionMatrix ops s table = Inr A"
    and B: "controlPointEquationRHS table = Inr (Bx, By)"
  shows "(rows A < 2 ^ 10 \<longrightarrow>
            computeControlPoints solvers ops s table =
              (case solveBoth (DenseQR_solve solvers) A Bx By of
                 None \<Rightarrow> ([''Computing B-spline control points using dense solver.''],
                           Inl solveError, s)
               | Some C \<Rightarrow> ([''Computing B-spline control points using dense solver.''],
                             Inr (), assignControlPoints s C)))
       \<and> (rows A \<ge> 2 ^ 10 \<longrightarrow>
            (\<forall>C. solveBoth (SparseLU_solve solvers) A Bx By = Some C \<longrightarrow>
               computeControlPoints solvers ops s table =
                 ([''Computing B-spline control points using sparse solver.''],
                  Inr (), assignControlPoints s C)))
       \<and> (rows A \<ge> 2 ^ 10 \<longrightarrow> solveBoth (SparseLU_solve solvers) A Bx By = None \<longrightarrow>
            computeControlPoints solvers ops s table =
              (case solveBoth (DenseQR_solve solvers) A Bx By of
                 None \<Rightarrow> ([''Computing B-spline control points using sparse solver.'',
                            ''Computing B-spline control points using dense solver.''],
                           Inl solveError, s)
               | Some C \<Rightarrow> ([''Computing B-spline control points using sparse solver.'',
                              ''Computing B-spline control points using dense solver.''],
                             Inr (), assignControlPoints s C)))
       \<and> ((\<exists>out s'. computeControlPoints solvers ops s table = (out, Inl solveError, s'))
            \<longleftrightarrow> (rows A < 2 ^ 10 \<or> solveBoth (SparseLU_solve solvers) A Bx By = None)
                 \<and> solveBoth (DenseQR_solve solvers) A Bx By = None)"
proof -
  have small: "computeControlPoints solvers ops s table =
              (case solveBoth (DenseQR_solve solvers) A Bx By of
                 None \<Rightarrow> ([''Computing B-spline control points using dense solver.''],
                           Inl solveError, s)
               | Some C \<Rightarrow> ([''Computing B-spline control points using dense solver.''],
                             Inr (), assignControlPoints s C))"
    if "rows A < 2 ^ 10"
    using that A B
    by (simp add: computeControlPoints_def solveError_def assignControlPoints_def
        split: option.split)
  have sparse: "computeControlPoints solvers ops s table =
                 ([''Computing B-spline control points using sparse solver.''],
                  Inr (), assignControlPoints s C)"
    if "rows A \<ge> 2 ^ 10" "solveBoth (SparseLU_solve solvers) A Bx By = Some C" for C
    using that A B
    by (cases C) (simp add: computeControlPoints_def assignControlPoints_def)
  have fallback: "computeControlPoints solvers ops s table =
              (case solveBoth (DenseQR_solve solvers) A Bx By of
                 None \<Rightarrow> ([''Computing B-spline control points using sparse solver.'',
                            ''Computing B-spline control points using dense solver.''],
                           Inl solveError, s)
               | Some C \<Rightarrow> ([''Computing B-spline control points using sparse solver.'',
                              ''Computing B-spline control points using dense solver.''],
                             Inr (), assignControlPoints s C))"
    if "rows A \<ge> 2 ^ 10" "solveBoth (SparseLU_solve solvers) A Bx By = None"
    using that A B
    by (simp add: computeControlPoints_def solveError_def assignControlPoints_def
        split: option.split)
  have raises: "(\<exists>out s'. computeControlPoints solvers ops s table = (out, Inl solveError, s'))
            \<longleftrightarrow> (rows A < 2 ^ 10 \<or> solveBoth (SparseLU_solve solvers) A Bx By = None)
                 \<and> solveBoth (DenseQR_solve solvers) A Bx By = None"
  proof (cases "rows A < 2 ^ 10")
    case True
    then show ?thesis using small by (auto split: option.splits)
  next
    case False
    then have big: "rows A \<ge> 2 ^ 10" by simp
    show ?thesis
    proof (cases "solveBoth (SparseLU_solve solvers) A Bx By")
      case None
      then show ?thesis using fallback [OF big None] False by (auto split: option.splits)
    next
      case (Some C)
      then show ?thesis using sparse [OF big Some] False by auto
    qed
  qed
  from small sparse fallback raises show ?thesis by blast
qed

lemma large_A:
  "computeBasisFunctionMatrix reference_ops example_surface large_table
     = Inr \<lparr>rows = 1024, cols = numBasisFunctions (basis example_surface),
            elems = map (\<lambda>(x, y). evalB reference_ops (basis example_surface) (take 1 x))
                      (samples large_table)\<rparr>"
  by (simp add: computeBasisFunctionMatrix_def large_table_def list_ex_iff)

lemma large_B:
  "controlPointEquationRHS large_table
     = Inr (\<lparr>rows = 1024, cols = 1, elems = map fst (samples large_table)\<rparr>,
            \<lparr>rows = 1024, cols = 1, elems = map (\<lambda>(x, y). [y]) (samples large_table)\<rparr>)"
  by (simp add: controlPointEquationRHS_def large_table_def list_ex_iff)

theorem computeControlPoints_solvers_witness:
  "computeControlPoints \<lparr>SparseLU_solve = (\<lambda>A B. None), DenseQR_solve = (\<lambda>A B. Some B)\<rparr>
     reference_ops example_surface small_table
   = ([''Computing B-spline control points using dense solver.''], Inr (),
      example_surface
        \<lparr>coefficients := \<lparr>rows = 1, cols = 2, elems = [[1, 2]]\<rparr>,
         knotaverages := \<lparr>rows = 1, cols = 2, elems = [[0, 1]]\<rparr>\<rparr>)
   \<and> fst (computeControlPoints \<lparr>SparseLU_solve = (\<lambda>A B. Some B), DenseQR_solve = (\<lambda>A B. None)\<rparr>
          reference_ops example_surface large_table)
       = [''Computing B-spline control points using sparse solver.'']
   \<and> computeControlPoints \<lparr>SparseLU_solve = (\<lambda>A B. None), DenseQR_solve = (\<lambda>A B. None)\<rparr>
          reference_ops example_surface large_table
       = ([''Computing B-spline control points using sparse solver.'',
           ''Computing B-spline control points using dense solver.''],
          Inl solveError, example_surface)"
proof -
  let ?dense = "\<lparr>SparseLU_solve = (\<lambda>A B. None), DenseQR_solve = (\<lambda>A B. Some B)\<rparr>"
  let ?sparse = "\<lparr>SparseLU_solve = (\<lambda>A B. Some B), DenseQR_solve = (\<lambda>A B. None)\<rparr>"
  let ?none = "\<lparr>SparseLU_solve = (\<lambda>A B. None), DenseQR_solve = (\<lambda>A B. None)\<rparr>"
  have a: "computeControlPoints ?dense reference_ops example_surface small_table
   = ([''Computing B-spline control points using dense solver.''], Inr (),
      example_surface
        \<lparr>coefficients := \<lparr>rows = 1, cols = 2, elems = [[1, 2]]\<rparr>,
         knotaverages := \<lparr>rows = 1, cols = 2, elems = [[0, 1]]\<rparr>\<rparr>)"
    using computeControlPoints_solvers [OF small_A small_B, of ?dense]
    by (simp add: solveBoth_def assignControlPoints_def transpose_matrix_def column_def upt_rec)
  have b: "fst (computeControlPoints ?sparse reference_ops example_surface large_table)
       = [''Computing B-spline control points using sparse solver.'']"
    using computeControlPoints_solvers [OF large_A large_B, of ?sparse]
    by (simp add: solveBoth_def)
  have c: "computeControlPoints ?none reference_ops example_surface large_table
       = ([''Computing B-spline control points using sparse solver.'',
           ''Computing B-spline control points using dense solver.''],
          Inl solveError, example_surface)"
    using computeControlPoints_solvers [OF large_A large_B, of ?none]
    by (simp add: solveBoth_def)
  show ?thesis using a b c by simp
qed

section \<open>Decoding a persisted surface\<close>

lemma loadLines_first_integer:
  assumes "line \<noteq> []" and "hd line \<noteq> CHR ''#''"
    and "state L = 0 \<or> state L = 1 \<or> state L = 3"
    and "checked_strtol line = Inl e"
  shows "loadLines strtod (line # rest) L = Inl e"
  using assms by auto

lemma loadLines_second_integer:
  assumes "line \<noteq> []" and "hd line \<noteq> CHR ''#''"
    and "(state L = 1 \<and> 0 < v) \<or> state L = 3"
    and "checked_strtol line = Inr (v, r)" and "checked_strtol r = Inl e"
  shows "loadLines strtod (line # rest) L = Inl e"
  using assms by auto

lemma loadLines_knots:
  assumes "line \<noteq> []" and "hd line \<noteq> CHR ''#''" and "state L = 2"
    and "readDoubles strtod (nat (knotVecLength L)) line = Inl e"
  shows "loadLines strtod (line # rest) L = Inl e"
  using assms by auto

lemma loadLines_coefficients:
  assumes "line \<noteq> []" and "hd line \<noteq> CHR ''#''" and "state L = 4"
    and "cRowIdx L < cRows L"
    and "readDoubles strtod (nat (cCols L)) line = Inl e"
  shows "loadLines strtod (line # rest) L = Inl e"
  using assms by auto

lemma load_raises:
  "loadLines strtod fileLines (load_initial s) = Inl e \<Longrightarrow> load strtod ops s fileLines = (Inl e, s)"
  by (simp add: load_def load_initial_def)

text \<open>
  C8, as the claim states it, fails: a token that is not a number is accepted when it
  starts with one.  The file whose variable count reads \<open>1x\<close> loads without an error,
  into the surface that the file with the count \<open>1\<close> gives.
\<close>

theorem load_accepts_suffix_counterexample:
  "load strtod_integers reference_ops empty_surface
     [''# Saved BSpline'', ''# Number of bases: 1'', ''1x'', ''1 4'', ''0 0 1 1 '',
      ''# Coefficient matrix:'', ''1 2'', ''1 2 '']
   = (Inr (), example_surface)
   \<and> load strtod_integers reference_ops empty_surface
     [''# Saved BSpline'', ''# Number of bases: 1'', ''1'', ''1 4'', ''0 0 1 1 '',
      ''# Coefficient matrix:'', ''1 2'', ''1 2 '']
   = (Inr (), example_surface)"
  by code_simp

lemma loadLines_filter:
  "\<forall>l\<in>set ls. l \<noteq> [] \<Longrightarrow>
   loadLines strtod ls L = loadLines strtod (filter (\<lambda>l. hd l \<noteq> CHR ''#'') ls) L"
proof (induction ls arbitrary: L)
  case Nil
  then show ?case by simp
next
  case (Cons line rest)
  then have IH: "\<And>L. loadLines strtod rest L = loadLines strtod (filter (\<lambda>l. hd l \<noteq> CHR ''#'') rest) L"
    by simp
  show ?case
  proof (cases "hd line = CHR ''#''")
    case True
    with Cons.prems IH show ?thesis by (simp add: loadLines.simps(2))
  next
    case False
    then have "filter (\<lambda>l. hd l \<noteq> CHR ''#'') (line # rest)
        = line # filter (\<lambda>l. hd l \<noteq> CHR ''#'') rest" by simp
    then show ?thesis
      by (simp only: loadLines.simps(2) [of strtod line] IH)
  qed
qed

lemma readDoubles_error:
  "readDoubles strtod m str = Inl e \<longleftrightarrow>
     (\<exists>j<m. \<exists>r. skipDoubles strtod j str = Some r
        \<and> ((strtod r = None \<and> e = invalid_argument ''strtod'')
           \<or> ((\<exists>v r'. strtod r = Some (v, r', True)) \<and> e = out_of_range ''strtod'')))"
proof (induction m arbitrary: str)
  case 0
  then show ?case by simp
next
  case (Suc m)
  show ?case
  proof (cases "strtod str")
    case None
    then have "readDoubles strtod (Suc m) str = Inl (invalid_argument ''strtod'')"
      by (simp add: checked_strtod_def)
    moreover have "skipDoubles strtod j str = Some r \<longleftrightarrow> j = 0 \<and> r = str" for j r
      using None by (cases j) auto
    ultimately show ?thesis using None by auto
  next
    case (Some t)
    then obtain v r1 erange where t: "strtod str = Some (v, r1, erange)"
      by (cases t) auto
    show ?thesis
    proof (cases erange)
      case True
      then have "readDoubles strtod (Suc m) str = Inl (out_of_range ''strtod'')"
        using t by (simp add: checked_strtod_def)
      moreover have "skipDoubles strtod j str = Some r \<longleftrightarrow> j = 0 \<and> r = str" for j r
        using t True by (cases j) auto
      ultimately show ?thesis using t True by auto
    next
      case False
      have rd: "readDoubles strtod (Suc m) str = Inl e \<longleftrightarrow> readDoubles strtod m r1 = Inl e"
        using t False by (simp add: checked_strtod_def split: sum.splits)
      have sk: "skipDoubles strtod (Suc j) str = skipDoubles strtod j r1" for j
        using t False by simp
      let ?P = "\<lambda>j str. \<exists>r. skipDoubles strtod j str = Some r
        \<and> ((strtod r = None \<and> e = invalid_argument ''strtod'')
           \<or> ((\<exists>v r'. strtod r = Some (v, r', True)) \<and> e = out_of_range ''strtod''))"
      have zero: "\<not> ?P 0 str" using t False by simp
      have "(\<exists>j<Suc m. ?P j str) \<longleftrightarrow> (\<exists>j<m. ?P (Suc j) str)"
      proof
        assume "\<exists>j<Suc m. ?P j str"
        then obtain j where j: "j < Suc m" "?P j str" by blast
        with zero obtain j' where "j = Suc j'" by (cases j) auto
        with j show "\<exists>j<m. ?P (Suc j) str" by auto
      next
        assume "\<exists>j<m. ?P (Suc j) str"
        then obtain j where "j < m" "?P (Suc j) str" by blast
        then have "Suc j < Suc m \<and> ?P (Suc j) str" by simp
        then show "\<exists>j<Suc m. ?P j str" by blast
      qed
      also have "\<dots> \<longleftrightarrow> (\<exists>j<m. ?P j r1)" by (simp only: sk)
      finally show ?thesis using rd Suc.IH [of r1] by simp
    qed
  qed
qed

lemma checked_strtol_error:
  "checked_strtol str = Inl e \<longleftrightarrow>
     (strtol str = None \<and> e = invalid_argument ''strtol'')
     \<or> (\<exists>v r. strtol str = Some (v, r) \<and> (v < - (2 ^ 31) \<or> 2 ^ 31 - 1 < v)
           \<and> e = out_of_range ''strtol'')"
  by (auto simp: checked_strtol_def split: option.splits)


lemma loadLines_block:
  assumes st: "state L = 1"
    and ne: "dl \<noteq> []" "hd dl \<noteq> CHR ''#''" "kl \<noteq> []" "hd kl \<noteq> CHR ''#''"
    and ok: "basisLines strtod (dl, kl)"
  shows "\<exists>L'. loadLines strtod (dl # kl # rest) L = loadLines strtod rest L'
           \<and> state L' = (if nat (basisNum L + 1) \<ge> numVariablesL L then 3 else 1)
           \<and> basisNum L' = basisNum L + 1 \<and> numVariablesL L' = numVariablesL L
           \<and> cRowIdx L' = cRowIdx L
           \<and> basisDegrees L' = basisDegrees L @ [basisDegreeOf (dl, kl)]
           \<and> knotVectors L' = knotVectors L @ [basisKnotsOf strtod (dl, kl)]"
proof -
  from ok obtain p r1 len r2 vs where
    a: "checked_strtol dl = Inr (p, r1)" "0 < p" "checked_strtol r1 = Inr (len, r2)"
       "readDoubles strtod (nat len) kl = Inr vs"
    by (auto simp: basisLines_def twoIntegers_def rowLine_def split: sum.splits prod.splits)
  then have v: "basisDegreeOf (dl, kl) = word_of_int p" "basisKnotsOf strtod (dl, kl) = vs"
    by (simp_all add: basisDegreeOf_def basisKnotsOf_def twoIntegers_def lineDoubles_def)
  let ?L1 = "L\<lparr>basisDegrees := basisDegrees L @ [word_of_int p],
                 knotVecLength := len, state := 2\<rparr>"
  let ?L2 = "?L1\<lparr>knotVectors := knotVectors ?L1 @ [vs], basisNum := basisNum ?L1 + 1,
                state := (if nat (basisNum ?L1 + 1) \<ge> numVariablesL ?L1 then 3 else 1)\<rparr>"
  have step1: "loadLines strtod (dl # kl # rest) L = loadLines strtod (kl # rest) ?L1"
    using st ne a by (subst loadLines.simps(2)) (simp del: loadLines.simps)
  have "readDoubles strtod (nat (knotVecLength ?L1)) kl = Inr vs"
    using a by simp
  then have step2: "loadLines strtod (kl # rest) ?L1 = loadLines strtod rest ?L2"
    using ne by (subst loadLines.simps(2)) (simp del: loadLines.simps add: Let_def)
  show ?thesis
    by (rule exI [of _ ?L2]) (simp add: step1 step2 v del: loadLines.simps)
qed

lemma loadLines_blocks:
  assumes "state L = 1" and "0 \<le> basisNum L"
    and "nat (basisNum L) + length blocks \<le> numVariablesL L"
    and "\<forall>l\<in>set (basisPart blocks). l \<noteq> [] \<and> hd l \<noteq> CHR ''#''"
    and "list_all (basisLines strtod) blocks"
  shows "\<exists>L'. loadLines strtod (basisPart blocks @ rest) L = loadLines strtod rest L'
           \<and> state L' = (if blocks = [] \<or> nat (basisNum L) + length blocks < numVariablesL L
                          then 1 else 3)
           \<and> basisNum L' = basisNum L + int (length blocks)
           \<and> numVariablesL L' = numVariablesL L
           \<and> cRowIdx L' = cRowIdx L
           \<and> basisDegrees L' = basisDegrees L @ map basisDegreeOf blocks
           \<and> knotVectors L' = knotVectors L @ map (basisKnotsOf strtod) blocks"
  using assms
proof (induction blocks arbitrary: L)
  case Nil
  then show ?case by (intro exI [of _ L]) (simp add: basisPart_def)
next
  case (Cons blk blocks)
  obtain dl kl where blk: "blk = (dl, kl)" by (cases blk)
  from Cons.prems(4) blk have ne: "dl \<noteq> []" "hd dl \<noteq> CHR ''#''" "kl \<noteq> []" "hd kl \<noteq> CHR ''#''"
    and ne': "\<forall>l\<in>set (basisPart blocks). l \<noteq> [] \<and> hd l \<noteq> CHR ''#''"
    by (simp_all add: basisPart_def)
  from Cons.prems(5) blk have ok: "basisLines strtod (dl, kl)"
    and ok': "list_all (basisLines strtod) blocks" by simp_all
  from loadLines_block [OF Cons.prems(1) ne ok, of "basisPart blocks @ rest"]
  obtain L1 where L1: "loadLines strtod (dl # kl # basisPart blocks @ rest) L
        = loadLines strtod (basisPart blocks @ rest) L1"
    "state L1 = (if nat (basisNum L + 1) \<ge> numVariablesL L then 3 else 1)"
    "basisNum L1 = basisNum L + 1" "numVariablesL L1 = numVariablesL L"
    "cRowIdx L1 = cRowIdx L"
    "basisDegrees L1 = basisDegrees L @ [basisDegreeOf blk]"
    "knotVectors L1 = knotVectors L @ [basisKnotsOf strtod blk]"
    unfolding blk by blast
  have split: "basisPart (blk # blocks) @ rest = dl # kl # basisPart blocks @ rest"
    using blk by (simp add: basisPart_def)
  have nat1: "nat (basisNum L + 1) = nat (basisNum L) + 1"
    using Cons.prems(2) by simp
  show ?case
  proof (cases "blocks = []")
    case True
    have "loadLines strtod (basisPart (blk # blocks) @ rest) L = loadLines strtod rest L1"
      using L1(1) split True by (simp add: basisPart_def del: loadLines.simps)
    moreover have "state L1 = (if nat (basisNum L) + length (blk # blocks) < numVariablesL L
                          then 1 else 3)"
      using L1(2) nat1 True by auto
    ultimately show ?thesis
      using L1(3-7) True by (intro exI [of _ L1]) (simp del: loadLines.simps)
  next
    case False
    then have "0 < length blocks" by simp
    moreover have "nat (basisNum L) + 1 + length blocks \<le> numVariablesL L"
      using Cons.prems(3) by simp
    ultimately have lt: "nat (basisNum L + 1) < numVariablesL L"
      unfolding nat1 by linarith
    with L1(2) have s1: "state L1 = 1" by simp
    have b1: "0 \<le> basisNum L1" using L1(3) Cons.prems(2) by simp
    have c1: "nat (basisNum L1) + length blocks \<le> numVariablesL L1"
      using L1(3,4) Cons.prems(3) nat1 by simp
    from Cons.IH [OF s1 b1 c1 ne' ok']
    obtain L' where L': "loadLines strtod (basisPart blocks @ rest) L1 = loadLines strtod rest L'"
      "state L' = (if blocks = [] \<or> nat (basisNum L1) + length blocks < numVariablesL L1
                          then 1 else 3)"
      "basisNum L' = basisNum L1 + int (length blocks)"
      "numVariablesL L' = numVariablesL L1" "cRowIdx L' = cRowIdx L1"
      "basisDegrees L' = basisDegrees L1 @ map basisDegreeOf blocks"
      "knotVectors L' = knotVectors L1 @ map (basisKnotsOf strtod) blocks"
      by blast
    have "loadLines strtod (basisPart (blk # blocks) @ rest) L = loadLines strtod rest L'"
      using L1(1) L'(1) split by (simp del: loadLines.simps)
    moreover have "state L' = (if nat (basisNum L) + length (blk # blocks) < numVariablesL L
                          then 1 else 3)"
      using L'(2) L1(3,4) nat1 False by auto
    ultimately show ?thesis
      using L'(3-7) L1(3-7) by (intro exI [of _ L']) (simp del: loadLines.simps)
  qed
qed

lemma loadLines_dimensions:
  assumes "state L = 3" and "dims \<noteq> []" "hd dims \<noteq> CHR ''#''"
    and "twoIntegers dims = Some (nr, nc)" and "0 \<le> nr" "0 \<le> nc"
  shows "\<exists>L'. loadLines strtod (dims # rest) L = loadLines strtod rest L'
           \<and> state L' = 4 \<and> cRows L' = nr \<and> cCols L' = nc \<and> cRowIdx L' = cRowIdx L
           \<and> numVariablesL L' = numVariablesL L
           \<and> basisDegrees L' = basisDegrees L \<and> knotVectors L' = knotVectors L
           \<and> coefficientsL L' = \<lparr>rows = nat nr, cols = nat nc,
                                   elems = replicate (nat nr) (replicate (nat nc) 0)\<rparr>"
proof -
  from assms(4) obtain r1 r2 where
    a: "checked_strtol dims = Inr (nr, r1)" "checked_strtol r1 = Inr (nc, r2)"
    by (auto simp: twoIntegers_def split: sum.splits prod.splits)
  let ?L1 = "L\<lparr>cRows := nr, cCols := nc,
                coefficientsL := \<lparr>rows = nat nr, cols = nat nc,
                                   elems = replicate (nat nr) (replicate (nat nc) 0)\<rparr>,
                state := 4\<rparr>"
  have "loadLines strtod (dims # rest) L = loadLines strtod rest ?L1"
    using assms(1,2,3,5,6) a by (subst loadLines.simps(2)) (simp del: loadLines.simps)
  then show ?thesis by (intro exI [of _ ?L1]) (simp del: loadLines.simps)
qed

lemma loadLines_rows:
  assumes "state L = 4" and "0 \<le> cRowIdx L"
    and "cRowIdx L + int (length rws) \<le> cRows L"
    and "\<forall>l\<in>set rws. l \<noteq> [] \<and> hd l \<noteq> CHR ''#''"
    and "list_all (rowLine strtod (cCols L)) rws"
    and "nat (cRowIdx L) + length rws \<le> length (elems (coefficientsL L))"
  shows "\<exists>L'. loadLines strtod (rws @ rest) L = loadLines strtod rest L'
           \<and> state L' = 4 \<and> cRows L' = cRows L \<and> cCols L' = cCols L
           \<and> cRowIdx L' = cRowIdx L + int (length rws)
           \<and> numVariablesL L' = numVariablesL L
           \<and> basisDegrees L' = basisDegrees L \<and> knotVectors L' = knotVectors L
           \<and> coefficientsL L' = (coefficientsL L)
                \<lparr>elems := take (nat (cRowIdx L)) (elems (coefficientsL L))
                          @ map (lineDoubles strtod (cCols L)) rws
                          @ drop (nat (cRowIdx L) + length rws) (elems (coefficientsL L))\<rparr>"
  using assms
proof (induction rws arbitrary: L)
  case Nil
  then show ?case by (intro exI [of _ L]) simp
next
  case (Cons row rws)
  from Cons.prems(5) obtain vs where vs: "readDoubles strtod (nat (cCols L)) row = Inr vs"
    by (auto simp: rowLine_def split: sum.splits)
  then have ld: "lineDoubles strtod (cCols L) row = vs" by (simp add: lineDoubles_def)
  let ?k = "nat (cRowIdx L)"
  let ?xs = "elems (coefficientsL L)"
  let ?L1 = "L\<lparr>coefficientsL := (coefficientsL L)\<lparr>elems := ?xs[?k := vs]\<rparr>,
               cRowIdx := cRowIdx L + 1\<rparr>"
  have lt: "cRowIdx L < cRows L" using Cons.prems(3) by simp
  have step: "loadLines strtod (row # rws @ rest) L = loadLines strtod (rws @ rest) ?L1"
    using Cons.prems(1,4) vs lt
    by (subst loadLines.simps(2)) (simp del: loadLines.simps add: Let_def)
  have k1: "nat (cRowIdx L + 1) = Suc ?k" using Cons.prems(2) by simp
  have klt: "?k < length ?xs" using Cons.prems(6) by simp
  have p: "state ?L1 = 4" "0 \<le> cRowIdx ?L1" "cRowIdx ?L1 + int (length rws) \<le> cRows ?L1"
    "\<forall>l\<in>set rws. l \<noteq> [] \<and> hd l \<noteq> CHR ''#''" "list_all (rowLine strtod (cCols ?L1)) rws"
    "nat (cRowIdx ?L1) + length rws \<le> length (elems (coefficientsL ?L1))"
    using Cons.prems k1 by simp_all
  from Cons.IH [OF p]
  obtain L' where L': "loadLines strtod (rws @ rest) ?L1 = loadLines strtod rest L'"
    "state L' = 4" "cRows L' = cRows ?L1" "cCols L' = cCols ?L1"
    "cRowIdx L' = cRowIdx ?L1 + int (length rws)"
    "numVariablesL L' = numVariablesL ?L1"
    "basisDegrees L' = basisDegrees ?L1" "knotVectors L' = knotVectors ?L1"
    "coefficientsL L' = (coefficientsL ?L1)
                \<lparr>elems := take (nat (cRowIdx ?L1)) (elems (coefficientsL ?L1))
                          @ map (lineDoubles strtod (cCols ?L1)) rws
                          @ drop (nat (cRowIdx ?L1) + length rws) (elems (coefficientsL ?L1))\<rparr>"
    by blast
  have tk: "take (Suc ?k) (?xs[?k := vs]) = take ?k ?xs @ [vs]"
    using klt by (simp add: take_Suc_conv_app_nth)
  have dr: "drop (Suc ?k + length rws) (?xs[?k := vs]) = drop (Suc ?k + length rws) ?xs"
    by simp
  have "coefficientsL L' = (coefficientsL L)
                \<lparr>elems := take ?k ?xs @ map (lineDoubles strtod (cCols L)) (row # rws)
                          @ drop (?k + length (row # rws)) ?xs\<rparr>"
    using L'(9) k1 tk dr ld by simp
  then show ?case
    using step L'(1-8) by (intro exI [of _ L']) (simp del: loadLines.simps)
qed

lemma body_lines:
  assumes "\<forall>l\<in>set fileLines. l \<noteq> []"
    and "filter (\<lambda>l. hd l \<noteq> CHR ''#'') fileLines = body"
  shows "\<forall>l\<in>set body. l \<noteq> [] \<and> hd l \<noteq> CHR ''#''"
proof
  fix l assume "l \<in> set body"
  then have "l \<in> set (filter (\<lambda>l. hd l \<noteq> CHR ''#'') fileLines)" using assms(2) by simp
  then show "l \<noteq> [] \<and> hd l \<noteq> CHR ''#''" using assms(1) by simp
qed

lemma load_count_error:
  assumes "\<forall>l\<in>set fileLines. l \<noteq> []"
    and "filter (\<lambda>l. hd l \<noteq> CHR ''#'') fileLines = countLine # others"
    and "checked_strtol countLine = Inl e"
  shows "load strtod ops s fileLines = (Inl e, s)"
proof -
  from body_lines [OF assms(1,2)] have "countLine \<noteq> []" "hd countLine \<noteq> CHR ''#''" by simp_all
  moreover have "state (load_initial s) = 0" by (simp add: load_initial_def)
  ultimately have "loadLines strtod (countLine # others) (load_initial s) = Inl e"
    using assms(3) by (intro loadLines_first_integer) simp_all
  then have "loadLines strtod fileLines (load_initial s) = Inl e"
    using loadLines_filter [OF assms(1), of strtod "load_initial s"] assms(2) by simp
  then show ?thesis by (rule load_raises)
qed

lemma load_prefix:
  assumes ne: "\<forall>l\<in>set fileLines. l \<noteq> []"
    and body: "filter (\<lambda>l. hd l \<noteq> CHR ''#'') fileLines = countLine # basisPart blocks @ rest"
    and ok: "list_all (basisLines strtod) blocks"
    and count: "checked_strtol countLine = Inr (v, r0)"
    and len: "length blocks \<le> unat (word_of_int v :: uint)"
  shows "\<exists>L. loadLines strtod fileLines (load_initial s) = loadLines strtod rest L
          \<and> state L = (if blocks = [] \<or> length blocks < unat (word_of_int v :: uint)
                        then 1 else 3)
          \<and> cRowIdx L = 0
          \<and> numVariablesL L = unat (word_of_int v :: uint)
          \<and> basisDegrees L = map basisDegreeOf blocks
          \<and> knotVectors L = map (basisKnotsOf strtod) blocks"
proof -
  let ?L1 = "(load_initial s)\<lparr>numVariablesL := unat (word_of_int v :: uint), state := 1\<rparr>"
  note lines = body_lines [OF ne body]
  then have c: "countLine \<noteq> []" "hd countLine \<noteq> CHR ''#''" by simp_all
  have "loadLines strtod fileLines (load_initial s)
      = loadLines strtod (countLine # basisPart blocks @ rest) (load_initial s)"
    using loadLines_filter [OF ne, of strtod "load_initial s"] body
    by (simp del: loadLines.simps)
  also have "\<dots> = loadLines strtod (basisPart blocks @ rest) ?L1"
    using c count
    by (subst loadLines.simps(2)) (simp add: load_initial_def del: loadLines.simps)
  finally have first: "loadLines strtod fileLines (load_initial s)
      = loadLines strtod (basisPart blocks @ rest) ?L1" .
  have p: "state ?L1 = 1" "0 \<le> basisNum ?L1"
    "nat (basisNum ?L1) + length blocks \<le> numVariablesL ?L1"
    "\<forall>l\<in>set (basisPart blocks). l \<noteq> [] \<and> hd l \<noteq> CHR ''#''"
    using len lines by (simp_all add: load_initial_def)
  from loadLines_blocks [OF p ok, of rest]
  obtain L where "loadLines strtod (basisPart blocks @ rest) ?L1 = loadLines strtod rest L"
    "state L = (if blocks = [] \<or> nat (basisNum ?L1) + length blocks < numVariablesL ?L1
                          then 1 else 3)"
    "cRowIdx L = cRowIdx ?L1" "numVariablesL L = numVariablesL ?L1"
    "basisDegrees L = basisDegrees ?L1 @ map basisDegreeOf blocks"
    "knotVectors L = knotVectors ?L1 @ map (basisKnotsOf strtod) blocks"
    by blast
  then show ?thesis
    using first by (intro exI [of _ L]) (simp add: load_initial_def del: loadLines.simps)
qed

lemma loadLines_knots_after:
  assumes "state L = 1" and "dl \<noteq> []" "hd dl \<noteq> CHR ''#''" "kl \<noteq> []" "hd kl \<noteq> CHR ''#''"
    and "twoIntegers dl = Some (p, len)" and "0 < p"
    and "readDoubles strtod (nat len) kl = Inl e"
  shows "loadLines strtod (dl # kl # rest) L = Inl e"
proof -
  from assms(6) obtain r1 r2 where
    a: "checked_strtol dl = Inr (p, r1)" "checked_strtol r1 = Inr (len, r2)"
    by (auto simp: twoIntegers_def split: sum.splits prod.splits)
  let ?L1 = "L\<lparr>basisDegrees := basisDegrees L @ [word_of_int p],
                 knotVecLength := len, state := 2\<rparr>"
  have "loadLines strtod (dl # kl # rest) L = loadLines strtod (kl # rest) ?L1"
    using assms(1,2,3,7) a by (subst loadLines.simps(2)) (simp del: loadLines.simps)
  moreover have "loadLines strtod (kl # rest) ?L1 = Inl e"
    using assms(4,5,8) by (intro loadLines_knots) simp_all
  ultimately show ?thesis by simp
qed

lemma load_basis_error:
  assumes ne: "\<forall>l\<in>set fileLines. l \<noteq> []"
    and body: "filter (\<lambda>l. hd l \<noteq> CHR ''#'') fileLines = countLine # basisPart blocks @ rest"
    and ok: "list_all (basisLines strtod) blocks"
    and count: "checked_strtol countLine = Inr (v, r0)"
    and len: "length blocks < unat (word_of_int v :: uint)"
  shows "rest = dl # rest' \<Longrightarrow> checked_strtol dl = Inl e
           \<Longrightarrow> load strtod ops s fileLines = (Inl e, s)"
    and "rest = dl # rest' \<Longrightarrow> checked_strtol dl = Inr (p, r1) \<Longrightarrow> 0 < p
           \<Longrightarrow> checked_strtol r1 = Inl e \<Longrightarrow> load strtod ops s fileLines = (Inl e, s)"
    and "rest = dl # kl # rest'' \<Longrightarrow> twoIntegers dl = Some (p, n) \<Longrightarrow> 0 < p
           \<Longrightarrow> readDoubles strtod (nat n) kl = Inl e
           \<Longrightarrow> load strtod ops s fileLines = (Inl e, s)"
proof -
  from len have "length blocks \<le> unat (word_of_int v :: uint)" by simp
  from load_prefix [OF ne body ok count this, of s] len
  obtain L where L: "loadLines strtod fileLines (load_initial s) = loadLines strtod rest L"
    "state L = 1" by auto
  note lines = body_lines [OF ne body]
  {
    assume r: "rest = dl # rest'" and e: "checked_strtol dl = Inl e"
    from lines r have "dl \<noteq> []" "hd dl \<noteq> CHR ''#''" by simp_all
    then have "loadLines strtod (dl # rest') L = Inl e"
      using L(2) e by (intro loadLines_first_integer) simp_all
    with L(1) r show "load strtod ops s fileLines = (Inl e, s)"
      by (intro load_raises) simp
  }
  {
    assume r: "rest = dl # rest'" and e: "checked_strtol dl = Inr (p, r1)" "0 < p"
      "checked_strtol r1 = Inl e"
    from lines r have "dl \<noteq> []" "hd dl \<noteq> CHR ''#''" by simp_all
    then have "loadLines strtod (dl # rest') L = Inl e"
      using L(2) e by (intro loadLines_second_integer [where v = p and r = r1]) simp_all
    with L(1) r show "load strtod ops s fileLines = (Inl e, s)"
      by (intro load_raises) simp
  }
  {
    assume r: "rest = dl # kl # rest''" and e: "twoIntegers dl = Some (p, n)" "0 < p"
      "readDoubles strtod (nat n) kl = Inl e"
    from lines r have "dl \<noteq> []" "hd dl \<noteq> CHR ''#''" "kl \<noteq> []" "hd kl \<noteq> CHR ''#''"
      by simp_all
    then have "loadLines strtod (dl # kl # rest'') L = Inl e"
      using L(2) e by (intro loadLines_knots_after [where p = p and len = n]) simp_all
    with L(1) r show "load strtod ops s fileLines = (Inl e, s)"
      by (intro load_raises) simp
  }
qed

lemma load_matrix_error:
  assumes ne: "\<forall>l\<in>set fileLines. l \<noteq> []"
    and body: "filter (\<lambda>l. hd l \<noteq> CHR ''#'') fileLines = countLine # basisPart blocks @ rest"
    and ok: "list_all (basisLines strtod) blocks"
    and count: "checked_strtol countLine = Inr (v, r0)"
    and len: "length blocks = unat (word_of_int v :: uint)" and pos: "blocks \<noteq> []"
  shows "rest = dims # rest' \<Longrightarrow> checked_strtol dims = Inl e
           \<Longrightarrow> load strtod ops s fileLines = (Inl e, s)"
    and "rest = dims # rest' \<Longrightarrow> checked_strtol dims = Inr (nr, r1)
           \<Longrightarrow> checked_strtol r1 = Inl e \<Longrightarrow> load strtod ops s fileLines = (Inl e, s)"
    and "rest = dims # rws @ row # rest'' \<Longrightarrow> twoIntegers dims = Some (nr, nc) \<Longrightarrow> 0 \<le> nc
           \<Longrightarrow> int (length rws) < nr \<Longrightarrow> list_all (rowLine strtod nc) rws
           \<Longrightarrow> readDoubles strtod (nat nc) row = Inl e
           \<Longrightarrow> load strtod ops s fileLines = (Inl e, s)"
proof -
  from len have "length blocks \<le> unat (word_of_int v :: uint)" by simp
  from load_prefix [OF ne body ok count this, of s] len pos
  obtain L where L: "loadLines strtod fileLines (load_initial s) = loadLines strtod rest L"
    "state L = 3" "cRowIdx L = 0" by auto
  note lines = body_lines [OF ne body]
  {
    assume r: "rest = dims # rest'" and e: "checked_strtol dims = Inl e"
    from lines r have "dims \<noteq> []" "hd dims \<noteq> CHR ''#''" by simp_all
    then have "loadLines strtod (dims # rest') L = Inl e"
      using L(2) e by (intro loadLines_first_integer) simp_all
    with L(1) r show "load strtod ops s fileLines = (Inl e, s)"
      by (intro load_raises) simp
  }
  {
    assume r: "rest = dims # rest'" and e: "checked_strtol dims = Inr (nr, r1)"
      "checked_strtol r1 = Inl e"
    from lines r have "dims \<noteq> []" "hd dims \<noteq> CHR ''#''" by simp_all
    then have "loadLines strtod (dims # rest') L = Inl e"
      using L(2) e by (intro loadLines_second_integer [where v = nr and r = r1]) simp_all
    with L(1) r show "load strtod ops s fileLines = (Inl e, s)"
      by (intro load_raises) simp
  }
  {
    assume r: "rest = dims # rws @ row # rest''" and d: "twoIntegers dims = Some (nr, nc)"
      and nc: "0 \<le> nc" and k: "int (length rws) < nr"
      and rws: "list_all (rowLine strtod nc) rws"
      and e: "readDoubles strtod (nat nc) row = Inl e"
    from lines r have hd: "dims \<noteq> []" "hd dims \<noteq> CHR ''#''"
      and hr: "\<forall>l\<in>set rws. l \<noteq> [] \<and> hd l \<noteq> CHR ''#''"
      and hrow: "row \<noteq> []" "hd row \<noteq> CHR ''#''"
      by simp_all
    from k have nr: "0 \<le> nr" by simp
    from loadLines_dimensions [OF L(2) hd d nr nc, of strtod "rws @ row # rest''"]
    obtain L1 where L1: "loadLines strtod (dims # rws @ row # rest'') L
          = loadLines strtod (rws @ row # rest'') L1"
      "state L1 = 4" "cRows L1 = nr" "cCols L1 = nc" "cRowIdx L1 = cRowIdx L"
      "coefficientsL L1 = \<lparr>rows = nat nr, cols = nat nc,
                             elems = replicate (nat nr) (replicate (nat nc) 0)\<rparr>"
      by blast
    have p: "state L1 = 4" "0 \<le> cRowIdx L1" "cRowIdx L1 + int (length rws) \<le> cRows L1"
      "\<forall>l\<in>set rws. l \<noteq> [] \<and> hd l \<noteq> CHR ''#''" "list_all (rowLine strtod (cCols L1)) rws"
      "nat (cRowIdx L1) + length rws \<le> length (elems (coefficientsL L1))"
      using L1 L(3) k hr rws by auto
    from loadLines_rows [OF p, of "row # rest''"]
    obtain L2 where L2: "loadLines strtod (rws @ row # rest'') L1
          = loadLines strtod (row # rest'') L2"
      "state L2 = 4" "cRows L2 = cRows L1" "cCols L2 = cCols L1"
      "cRowIdx L2 = cRowIdx L1 + int (length rws)"
      by blast
    have "loadLines strtod (row # rest'') L2 = Inl e"
      using hrow L2 L1 L(3) k e by (intro loadLines_coefficients) simp_all
    with L(1) r L1(1) L2(1) show "load strtod ops s fileLines = (Inl e, s)"
      by (intro load_raises) simp
  }
qed

lemma load_well_formed:
  assumes ne: "\<forall>l\<in>set fileLines. l \<noteq> []"
    and body: "filter (\<lambda>l. hd l \<noteq> CHR ''#'') fileLines = countLine # basisPart blocks @ rest"
    and ok: "list_all (basisLines strtod) blocks"
    and count: "checked_strtol countLine = Inr (v, r0)"
    and len: "length blocks = unat (word_of_int v :: uint)" and pos: "blocks \<noteq> []"
    and r: "rest = dims # rws" and d: "twoIntegers dims = Some (nr, nc)" and nc: "0 \<le> nc"
    and k: "int (length rws) = nr" and rws: "list_all (rowLine strtod nc) rws"
  shows "load strtod ops s fileLines =
           loadBasis ops
             (s\<lparr>numVariables := length blocks,
                coefficients := \<lparr>rows = length rws, cols = nat nc,
                                  elems = map (lineDoubles strtod nc) rws\<rparr>\<rparr>)
             (map (basisKnotsOf strtod) blocks) (map basisDegreeOf blocks)"
proof -
  from len have "length blocks \<le> unat (word_of_int v :: uint)" by simp
  from load_prefix [OF ne body ok count this, of s] len pos
  obtain L where L: "loadLines strtod fileLines (load_initial s) = loadLines strtod rest L"
    "state L = 3" "cRowIdx L = 0" "numVariablesL L = length blocks"
    "basisDegrees L = map basisDegreeOf blocks"
    "knotVectors L = map (basisKnotsOf strtod) blocks"
    by auto
  note lines = body_lines [OF ne body]
  from lines r have hd: "dims \<noteq> []" "hd dims \<noteq> CHR ''#''"
    and hr: "\<forall>l\<in>set rws. l \<noteq> [] \<and> hd l \<noteq> CHR ''#''"
    by simp_all
  from k have nr: "0 \<le> nr" by simp
  from loadLines_dimensions [OF L(2) hd d nr nc, of strtod rws]
  obtain L1 where L1: "loadLines strtod (dims # rws) L = loadLines strtod rws L1"
    "state L1 = 4" "cRows L1 = nr" "cCols L1 = nc" "cRowIdx L1 = cRowIdx L"
    "numVariablesL L1 = numVariablesL L"
    "basisDegrees L1 = basisDegrees L" "knotVectors L1 = knotVectors L"
    "coefficientsL L1 = \<lparr>rows = nat nr, cols = nat nc,
                                   elems = replicate (nat nr) (replicate (nat nc) 0)\<rparr>"
    by blast
  have p: "state L1 = 4" "0 \<le> cRowIdx L1" "cRowIdx L1 + int (length rws) \<le> cRows L1"
    "\<forall>l\<in>set rws. l \<noteq> [] \<and> hd l \<noteq> CHR ''#''" "list_all (rowLine strtod (cCols L1)) rws"
    "nat (cRowIdx L1) + length rws \<le> length (elems (coefficientsL L1))"
    using L1 L(3) k hr rws by auto
  from loadLines_rows [OF p, of "[]"]
  obtain L2 where L2: "loadLines strtod rws L1 = loadLines strtod [] L2"
    "numVariablesL L2 = numVariablesL L1"
    "basisDegrees L2 = basisDegrees L1" "knotVectors L2 = knotVectors L1"
    "coefficientsL L2 = (coefficientsL L1)
                \<lparr>elems := take (nat (cRowIdx L1)) (elems (coefficientsL L1))
                          @ map (lineDoubles strtod (cCols L1)) rws
                          @ drop (nat (cRowIdx L1) + length rws) (elems (coefficientsL L1))\<rparr>"
    by auto
  have n: "nat nr = length rws" using k by auto
  have c: "coefficientsL L2 = \<lparr>rows = length rws, cols = nat nc,
                                  elems = map (lineDoubles strtod nc) rws\<rparr>"
    using L2(5) L1(4,5,9) L(3) n by simp
  have "loadLines strtod [] L2 = Inr L2" by (rule loadLines.simps(1))
  then have "loadLines strtod fileLines (load_initial s) = Inr L2"
    using L(1) r L1(1) L2(1) by (simp del: loadLines.simps)
  then show ?thesis
    using c L2(2,3,4) L1(6,7,8) L(4,5,6) by (simp add: load_def)
qed

text \<open>
  C8, amended.  In a file without empty lines, the lines that are not comments are read
  in this order: the variable count; then, for each variable in turn, a line with the
  degree and the knot-vector length and a line with the knot values; then the
  dimensions of the coefficient matrix; then its rows.  Below, \<open>blocks\<close> are the pairs of
  lines of the bases read so far, all well formed, and \<open>rest\<close> are the lines after
  them.  Where an integer is expected (the count, a degree, a length, a dimension) and
  \<open>checked_strtol\<close> raises, \<open>load\<close> raises the same and there is no surface; where the
  knot values or the numbers of a coefficient row are expected and \<open>checked_strtod\<close>
  raises on one of them, likewise.  When every line is well formed and the file has
  the rows it announces, the surface is built from the numbers read at these places.
  \<open>checked_strtol\<close> raises \<open>std::invalid_argument\<close> exactly when the text has no integer
  at its start and \<open>std::out_of_range\<close> exactly when the integer is outside the range of
  \<open>int\<close>; reading \<open>m\<close> numbers raises \<open>std::invalid_argument\<close> exactly when \<open>strtod\<close>
  converts nothing after fewer than \<open>m\<close> numbers, and \<open>std::out_of_range\<close> exactly when
  it reports a range error there.  (A number followed by other characters is read as
  the number.)
\<close>

theorem load_raises_on_bad_number:
  assumes "\<forall>l\<in>set fileLines. l \<noteq> []"
    and "filter (\<lambda>l. hd l \<noteq> CHR ''#'') fileLines = countLine # basisPart blocks @ rest"
    and "list_all (basisLines strtod) blocks"
  shows "(\<forall>e. checked_strtol countLine = Inl e \<longrightarrow> load strtod ops s fileLines = (Inl e, s))
    \<and> (\<forall>v r0. checked_strtol countLine = Inr (v, r0) \<longrightarrow>
          (length blocks < unat (word_of_int v :: uint) \<longrightarrow>
               (\<forall>dl rest' e. rest = dl # rest' \<longrightarrow> checked_strtol dl = Inl e
                  \<longrightarrow> load strtod ops s fileLines = (Inl e, s))
             \<and> (\<forall>dl rest' p r1 e. rest = dl # rest' \<longrightarrow> checked_strtol dl = Inr (p, r1)
                  \<longrightarrow> 0 < p \<longrightarrow> checked_strtol r1 = Inl e
                  \<longrightarrow> load strtod ops s fileLines = (Inl e, s))
             \<and> (\<forall>dl kl rest' p n e. rest = dl # kl # rest' \<longrightarrow> twoIntegers dl = Some (p, n)
                  \<longrightarrow> 0 < p \<longrightarrow> readDoubles strtod (nat n) kl = Inl e
                  \<longrightarrow> load strtod ops s fileLines = (Inl e, s)))
        \<and> (blocks \<noteq> [] \<longrightarrow> length blocks = unat (word_of_int v :: uint) \<longrightarrow>
               (\<forall>dims rest' e. rest = dims # rest' \<longrightarrow> checked_strtol dims = Inl e
                  \<longrightarrow> load strtod ops s fileLines = (Inl e, s))
             \<and> (\<forall>dims rest' nr r1 e. rest = dims # rest' \<longrightarrow> checked_strtol dims = Inr (nr, r1)
                  \<longrightarrow> checked_strtol r1 = Inl e
                  \<longrightarrow> load strtod ops s fileLines = (Inl e, s))
             \<and> (\<forall>dims rws row rest' nr nc e. rest = dims # rws @ row # rest'
                  \<longrightarrow> twoIntegers dims = Some (nr, nc) \<longrightarrow> 0 \<le> nc
                  \<longrightarrow> int (length rws) < nr \<longrightarrow> list_all (rowLine strtod nc) rws
                  \<longrightarrow> readDoubles strtod (nat nc) row = Inl e
                  \<longrightarrow> load strtod ops s fileLines = (Inl e, s))
             \<and> (\<forall>dims rws nr nc. rest = dims # rws
                  \<longrightarrow> twoIntegers dims = Some (nr, nc) \<longrightarrow> 0 \<le> nc
                  \<longrightarrow> int (length rws) = nr \<longrightarrow> list_all (rowLine strtod nc) rws
                  \<longrightarrow> load strtod ops s fileLines =
                        loadBasis ops
                          (s\<lparr>numVariables := length blocks,
                             coefficients := \<lparr>rows = length rws, cols = nat nc,
                                               elems = map (lineDoubles strtod nc) rws\<rparr>\<rparr>)
                          (map (basisKnotsOf strtod) blocks) (map basisDegreeOf blocks))))
    \<and> (\<forall>str e. checked_strtol str = Inl e \<longleftrightarrow>
          (strtol str = None \<and> e = invalid_argument ''strtol'')
          \<or> (\<exists>v r. strtol str = Some (v, r) \<and> (v < - (2 ^ 31) \<or> 2 ^ 31 - 1 < v)
                \<and> e = out_of_range ''strtol''))
    \<and> (\<forall>m str e. readDoubles strtod m str = Inl e \<longleftrightarrow>
          (\<exists>j<m. \<exists>r. skipDoubles strtod j str = Some r
             \<and> ((strtod r = None \<and> e = invalid_argument ''strtod'')
                \<or> ((\<exists>v r'. strtod r = Some (v, r', True)) \<and> e = out_of_range ''strtod''))))"
proof (intro conjI allI impI)
  fix e assume "checked_strtol countLine = Inl e"
  with assms(1,2) show "load strtod ops s fileLines = (Inl e, s)"
    by (rule load_count_error)
next
  fix v r0 dl rest' e
  assume "checked_strtol countLine = Inr (v, r0)" "length blocks < unat (word_of_int v :: uint)"
    "rest = dl # rest'" "checked_strtol dl = Inl e"
  then show "load strtod ops s fileLines = (Inl e, s)"
    using load_basis_error(1) [OF assms] by blast
next
  fix v r0 dl rest' p r1 e
  assume "checked_strtol countLine = Inr (v, r0)" "length blocks < unat (word_of_int v :: uint)"
    "rest = dl # rest'" "checked_strtol dl = Inr (p, r1)" "0 < p" "checked_strtol r1 = Inl e"
  then show "load strtod ops s fileLines = (Inl e, s)"
    using load_basis_error(2) [OF assms] by blast
next
  fix v r0 dl kl rest' p n e
  assume "checked_strtol countLine = Inr (v, r0)" "length blocks < unat (word_of_int v :: uint)"
    "rest = dl # kl # rest'" "twoIntegers dl = Some (p, n)" "0 < p"
    "readDoubles strtod (nat n) kl = Inl e"
  then show "load strtod ops s fileLines = (Inl e, s)"
    using load_basis_error(3) [OF assms] by blast
next
  fix v r0 dims rest' e
  assume "checked_strtol countLine = Inr (v, r0)" "blocks \<noteq> []"
    "length blocks = unat (word_of_int v :: uint)"
    "rest = dims # rest'" "checked_strtol dims = Inl e"
  then show "load strtod ops s fileLines = (Inl e, s)"
    using load_matrix_error(1) [OF assms] by blast
next
  fix v r0 dims rest' nr r1 e
  assume "checked_strtol countLine = Inr (v, r0)" "blocks \<noteq> []"
    "length blocks = unat (word_of_int v :: uint)"
    "rest = dims # rest'" "checked_strtol dims = Inr (nr, r1)" "checked_strtol r1 = Inl e"
  then show "load strtod ops s fileLines = (Inl e, s)"
    using load_matrix_error(2) [OF assms] by blast
next
  fix v r0 dims rws row rest' nr nc e
  assume "checked_strtol countLine = Inr (v, r0)" "blocks \<noteq> []"
    "length blocks = unat (word_of_int v :: uint)"
    "rest = dims # rws @ row # rest'" "twoIntegers dims = Some (nr, nc)" "0 \<le> nc"
    "int (length rws) < nr" "list_all (rowLine strtod nc) rws"
    "readDoubles strtod (nat nc) row = Inl e"
  then show "load strtod ops s fileLines = (Inl e, s)"
    using load_matrix_error(3) [OF assms] by blast
next
  fix v r0 dims rws nr nc
  assume "checked_strtol countLine = Inr (v, r0)" "blocks \<noteq> []"
    "length blocks = unat (word_of_int v :: uint)"
    "rest = dims # rws" "twoIntegers dims = Some (nr, nc)" "0 \<le> nc"
    "int (length rws) = nr" "list_all (rowLine strtod nc) rws"
  then show "load strtod ops s fileLines =
                        loadBasis ops
                          (s\<lparr>numVariables := length blocks,
                             coefficients := \<lparr>rows = length rws, cols = nat nc,
                                               elems = map (lineDoubles strtod nc) rws\<rparr>\<rparr>)
                          (map (basisKnotsOf strtod) blocks) (map basisDegreeOf blocks)"
    using load_well_formed [OF assms] by blast
next
  fix str e
  show "checked_strtol str = Inl e \<longleftrightarrow>
          (strtol str = None \<and> e = invalid_argument ''strtol'')
          \<or> (\<exists>v r. strtol str = Some (v, r) \<and> (v < - (2 ^ 31) \<or> 2 ^ 31 - 1 < v)
                \<and> e = out_of_range ''strtol'')"
    by (rule checked_strtol_error)
next
  fix m str e
  show "readDoubles strtod m str = Inl e \<longleftrightarrow>
          (\<exists>j<m. \<exists>r. skipDoubles strtod j str = Some r
             \<and> ((strtod r = None \<and> e = invalid_argument ''strtod'')
                \<or> ((\<exists>v r'. strtod r = Some (v, r', True)) \<and> e = out_of_range ''strtod'')))"
    by (rule readDoubles_error)
qed

text \<open>
  One file for each place of a number: a count that is no number and one that is out
  of range, the degree of the second basis, a knot-vector length, a knot value, a
  dimension of the coefficient matrix out of range, and a coefficient; and a well-formed
  file, which loads into the example surface.
\<close>

theorem load_raises_on_bad_number_witness:
  "load strtod_integers reference_ops empty_surface
     [''# Saved BSpline'', ''one'', ''1 4'']
     = (Inl (invalid_argument ''strtol''), empty_surface)
   \<and> load strtod_integers reference_ops empty_surface [''99999999999'', ''1 4'']
     = (Inl (out_of_range ''strtol''), empty_surface)
   \<and> load strtod_integers reference_ops empty_surface
       [''2'', ''1 4'', ''0 0 1 1 '', ''# second basis'', ''x 4'', ''0 0 1 1 '']
     = (Inl (invalid_argument ''strtol''), empty_surface)
   \<and> load strtod_integers reference_ops empty_surface [''1'', ''1 four'', ''0 0 1 1 '']
     = (Inl (invalid_argument ''strtol''), empty_surface)
   \<and> load strtod_integers reference_ops empty_surface [''1'', ''1 4'', ''0 0 x 1 '', ''1 2'']
     = (Inl (invalid_argument ''strtod''), empty_surface)
   \<and> load strtod_integers reference_ops empty_surface
       [''1'', ''1 4'', ''0 0 1 1 '', ''1 99999999999'', ''1 2 '']
     = (Inl (out_of_range ''strtol''), empty_surface)
   \<and> load strtod_integers reference_ops empty_surface
       [''1'', ''1 4'', ''0 0 1 1 '', ''# Coefficient matrix:'', ''2 2'', ''1 2 '', ''3 y '']
     = (Inl (invalid_argument ''strtod''), empty_surface)
   \<and> load strtod_integers reference_ops empty_surface
       [''# Saved BSpline'', ''1'', ''1 4'', ''0 0 1 1 '', ''# Coefficient matrix:'', ''1 2'', ''1 2 '']
     = (Inr (), example_surface)"
proof -
  let ?basis = "[(''1 4'', ''0 0 1 1 '')]"
  have one: "checked_strtol ''1'' = Inr (1, [])" "checked_strtol ''2'' = Inr (2, [])"
    by code_simp+
  have n: "unat (word_of_int 1 :: uint) = 1" "unat (word_of_int 2 :: uint) = 2"
    by simp_all
  have ok: "list_all (basisLines strtod_integers) ?basis"
    "list_all (basisLines strtod_integers) []"
    by code_simp+
  have big: "(99999999999 :: int) < - (2 ^ 31) \<or> 2 ^ 31 - 1 < (99999999999 :: int)"
    by simp
  have a: "load strtod_integers reference_ops empty_surface
     [''# Saved BSpline'', ''one'', ''1 4'']
     = (Inl (invalid_argument ''strtol''), empty_surface)"
  proof -
    let ?file = "[''# Saved BSpline'', ''one'', ''1 4'']"
    have h: "\<forall>l\<in>set ?file. l \<noteq> []"
      "filter (\<lambda>l. hd l \<noteq> CHR ''#'') ?file = ''one'' # basisPart [] @ [''1 4'']"
      by (simp_all add: basisPart_def)
    note t = load_raises_on_bad_number [where strtod = strtod_integers and ops = reference_ops
        and s = empty_surface, OF h ok(2)]
    have "strtol ''one'' = None" by code_simp
    then have "checked_strtol ''one'' = Inl (invalid_argument ''strtol'')"
      using t [THEN conjunct2, THEN conjunct2, THEN conjunct1] by blast
    then show ?thesis by (rule t [THEN conjunct1, rule_format])
  qed
  have b: "load strtod_integers reference_ops empty_surface [''99999999999'', ''1 4'']
     = (Inl (out_of_range ''strtol''), empty_surface)"
  proof -
    let ?file = "[''99999999999'', ''1 4'']"
    have h: "\<forall>l\<in>set ?file. l \<noteq> []"
      "filter (\<lambda>l. hd l \<noteq> CHR ''#'') ?file = ''99999999999'' # basisPart [] @ [''1 4'']"
      by (simp_all add: basisPart_def)
    note t = load_raises_on_bad_number [where strtod = strtod_integers and ops = reference_ops
        and s = empty_surface, OF h ok(2)]
    have "strtol ''99999999999'' = Some (99999999999, [])" by code_simp
    with big have "checked_strtol ''99999999999'' = Inl (out_of_range ''strtol'')"
      using t [THEN conjunct2, THEN conjunct2, THEN conjunct1] by blast
    then show ?thesis by (rule t [THEN conjunct1, rule_format])
  qed
  have c: "load strtod_integers reference_ops empty_surface
       [''2'', ''1 4'', ''0 0 1 1 '', ''# second basis'', ''x 4'', ''0 0 1 1 '']
     = (Inl (invalid_argument ''strtol''), empty_surface)"
  proof -
    let ?file = "[''2'', ''1 4'', ''0 0 1 1 '', ''# second basis'', ''x 4'', ''0 0 1 1 '']"
    have h: "\<forall>l\<in>set ?file. l \<noteq> []"
      "filter (\<lambda>l. hd l \<noteq> CHR ''#'') ?file = ''2'' # basisPart ?basis @ [''x 4'', ''0 0 1 1 '']"
      by (simp_all add: basisPart_def)
    note t = load_raises_on_bad_number [where strtod = strtod_integers and ops = reference_ops
        and s = empty_surface, OF h ok(1)]
    have l: "length ?basis < unat (word_of_int 2 :: uint)" using n by simp
    note tb = t [THEN conjunct2, THEN conjunct1, rule_format, OF one(2), THEN conjunct1,
        rule_format, OF l]
    have "strtol ''x 4'' = None" by code_simp
    then have "checked_strtol ''x 4'' = Inl (invalid_argument ''strtol'')"
      using t [THEN conjunct2, THEN conjunct2, THEN conjunct1] by blast
    then show ?thesis by (rule tb [THEN conjunct1, rule_format, OF refl])
  qed
  have d: "load strtod_integers reference_ops empty_surface [''1'', ''1 four'', ''0 0 1 1 '']
     = (Inl (invalid_argument ''strtol''), empty_surface)"
  proof -
    let ?file = "[''1'', ''1 four'', ''0 0 1 1 '']"
    have h: "\<forall>l\<in>set ?file. l \<noteq> []"
      "filter (\<lambda>l. hd l \<noteq> CHR ''#'') ?file = ''1'' # basisPart [] @ [''1 four'', ''0 0 1 1 '']"
      by (simp_all add: basisPart_def)
    note t = load_raises_on_bad_number [where strtod = strtod_integers and ops = reference_ops
        and s = empty_surface, OF h ok(2)]
    have l: "length ([] :: (string \<times> string) list) < unat (word_of_int 1 :: uint)"
      using n by simp
    note tb = t [THEN conjunct2, THEN conjunct1, rule_format, OF one(1), THEN conjunct1,
        rule_format, OF l]
    have first: "checked_strtol ''1 four'' = Inr (1, '' four'')" by code_simp
    have "strtol '' four'' = None" by code_simp
    then have second: "checked_strtol '' four'' = Inl (invalid_argument ''strtol'')"
      using t [THEN conjunct2, THEN conjunct2, THEN conjunct1] by blast
    have pos: "(0 :: int) < 1" by simp
    show ?thesis
      by (rule tb [THEN conjunct2, THEN conjunct1, rule_format, OF refl first pos second])
  qed
  have e: "load strtod_integers reference_ops empty_surface [''1'', ''1 4'', ''0 0 x 1 '', ''1 2'']
     = (Inl (invalid_argument ''strtod''), empty_surface)"
  proof -
    let ?file = "[''1'', ''1 4'', ''0 0 x 1 '', ''1 2'']"
    have h: "\<forall>l\<in>set ?file. l \<noteq> []"
      "filter (\<lambda>l. hd l \<noteq> CHR ''#'') ?file
         = ''1'' # basisPart [] @ [''1 4'', ''0 0 x 1 '', ''1 2'']"
      by (simp_all add: basisPart_def)
    note t = load_raises_on_bad_number [where strtod = strtod_integers and ops = reference_ops
        and s = empty_surface, OF h ok(2)]
    have l: "length ([] :: (string \<times> string) list) < unat (word_of_int 1 :: uint)"
      using n by simp
    note tb = t [THEN conjunct2, THEN conjunct1, rule_format, OF one(1), THEN conjunct1,
        rule_format, OF l]
    have two: "twoIntegers ''1 4'' = Some (1, 4)" by code_simp
    have "skipDoubles strtod_integers 2 ''0 0 x 1 '' = Some '' x 1 ''"
      "strtod_integers '' x 1 '' = None" "(2 :: nat) < nat 4"
      by code_simp+
    then have reads: "readDoubles strtod_integers (nat 4) ''0 0 x 1 '' = Inl (invalid_argument ''strtod'')"
      using t [THEN conjunct2, THEN conjunct2, THEN conjunct2] by blast
    have pos: "(0 :: int) < 1" by simp
    show ?thesis
      by (rule tb [THEN conjunct2, THEN conjunct2, rule_format, OF refl two pos reads])
  qed
  have f: "load strtod_integers reference_ops empty_surface
       [''1'', ''1 4'', ''0 0 1 1 '', ''1 99999999999'', ''1 2 '']
     = (Inl (out_of_range ''strtol''), empty_surface)"
  proof -
    let ?file = "[''1'', ''1 4'', ''0 0 1 1 '', ''1 99999999999'', ''1 2 '']"
    have h: "\<forall>l\<in>set ?file. l \<noteq> []"
      "filter (\<lambda>l. hd l \<noteq> CHR ''#'') ?file
         = ''1'' # basisPart ?basis @ [''1 99999999999'', ''1 2 '']"
      by (simp_all add: basisPart_def)
    note t = load_raises_on_bad_number [where strtod = strtod_integers and ops = reference_ops
        and s = empty_surface, OF h ok(1)]
    have l: "?basis \<noteq> []" "length ?basis = unat (word_of_int 1 :: uint)" using n by simp_all
    note tm = t [THEN conjunct2, THEN conjunct1, rule_format, OF one(1), THEN conjunct2,
        rule_format, OF l]
    have first: "checked_strtol ''1 99999999999'' = Inr (1, '' 99999999999'')" by code_simp
    have "strtol '' 99999999999'' = Some (99999999999, [])" by code_simp
    with big have second: "checked_strtol '' 99999999999'' = Inl (out_of_range ''strtol'')"
      using t [THEN conjunct2, THEN conjunct2, THEN conjunct1] by blast
    show ?thesis
      by (rule tm [THEN conjunct2, THEN conjunct1, rule_format, OF refl first second])
  qed
  have g: "load strtod_integers reference_ops empty_surface
       [''1'', ''1 4'', ''0 0 1 1 '', ''# Coefficient matrix:'', ''2 2'', ''1 2 '', ''3 y '']
     = (Inl (invalid_argument ''strtod''), empty_surface)"
  proof -
    let ?file = "[''1'', ''1 4'', ''0 0 1 1 '', ''# Coefficient matrix:'', ''2 2'', ''1 2 '', ''3 y '']"
    have h: "\<forall>l\<in>set ?file. l \<noteq> []"
      "filter (\<lambda>l. hd l \<noteq> CHR ''#'') ?file
         = ''1'' # basisPart ?basis @ [''2 2'', ''1 2 '', ''3 y '']"
      by (simp_all add: basisPart_def)
    note t = load_raises_on_bad_number [where strtod = strtod_integers and ops = reference_ops
        and s = empty_surface, OF h ok(1)]
    have l: "?basis \<noteq> []" "length ?basis = unat (word_of_int 1 :: uint)" using n by simp_all
    note tm = t [THEN conjunct2, THEN conjunct1, rule_format, OF one(1), THEN conjunct2,
        rule_format, OF l]
    have shape: "[''2 2'', ''1 2 '', ''3 y ''] = ''2 2'' # [''1 2 ''] @ ''3 y '' # []" by simp
    have two: "twoIntegers ''2 2'' = Some (2, 2)" by code_simp
    have rws: "list_all (rowLine strtod_integers 2) [''1 2 '']" by code_simp
    have "skipDoubles strtod_integers 1 ''3 y '' = Some '' y ''"
      "strtod_integers '' y '' = None" "(1 :: nat) < nat 2"
      by code_simp+
    then have reads: "readDoubles strtod_integers (nat 2) ''3 y '' = Inl (invalid_argument ''strtod'')"
      using t [THEN conjunct2, THEN conjunct2, THEN conjunct2] by blast
    have nc: "(0 :: int) \<le> 2" and k: "int (length [''1 2 '']) < 2" by simp_all
    show ?thesis
      by (rule tm [THEN conjunct2, THEN conjunct2, THEN conjunct1, rule_format,
          OF shape two nc k rws reads])
  qed
  have h: "load strtod_integers reference_ops empty_surface
       [''# Saved BSpline'', ''1'', ''1 4'', ''0 0 1 1 '', ''# Coefficient matrix:'', ''1 2'', ''1 2 '']
     = (Inr (), example_surface)"
  proof -
    let ?file = "[''# Saved BSpline'', ''1'', ''1 4'', ''0 0 1 1 '', ''# Coefficient matrix:'',
                  ''1 2'', ''1 2 '']"
    have h: "\<forall>l\<in>set ?file. l \<noteq> []"
      "filter (\<lambda>l. hd l \<noteq> CHR ''#'') ?file = ''1'' # basisPart ?basis @ [''1 2'', ''1 2 '']"
      by (simp_all add: basisPart_def)
    note t = load_raises_on_bad_number [where strtod = strtod_integers and ops = reference_ops
        and s = empty_surface, OF h ok(1)]
    have l: "?basis \<noteq> []" "length ?basis = unat (word_of_int 1 :: uint)" using n by simp_all
    note tm = t [THEN conjunct2, THEN conjunct1, rule_format, OF one(1), THEN conjunct2,
        rule_format, OF l]
    have two: "twoIntegers ''1 2'' = Some (1, 2)" by code_simp
    have rws: "list_all (rowLine strtod_integers 2) [''1 2 '']" by code_simp
    have nc: "(0 :: int) \<le> 2" and k: "int (length [''1 2 '']) = 1" by simp_all
    have "loadBasis reference_ops
            (empty_surface\<lparr>numVariables := length ?basis,
               coefficients := \<lparr>rows = length [''1 2 ''], cols = nat 2,
                                 elems = map (lineDoubles strtod_integers 2) [''1 2 '']\<rparr>\<rparr>)
            (map (basisKnotsOf strtod_integers) ?basis) (map basisDegreeOf ?basis)
          = (Inr (), example_surface)"
      by code_simp
    then show ?thesis
      using tm [THEN conjunct2, THEN conjunct2, THEN conjunct2, rule_format, OF refl two nc k rws]
      by simp
  qed
  from a b c d e f g h show ?thesis by (intro conjI)
qed

section \<open>Knot averages\<close>

lemma rightMultiply_True:
  "rightMultiply M s = (Inr r, s') \<Longrightarrow>
   s' = s\<lparr>coefficients := product (coefficients s) M,
           knotaverages := product (knotaverages s) M\<rparr>"
  by (auto simp: rightMultiply_def mult_def Let_def split: if_splits)

lemma insertKnots_True:
  assumes "insertKnots ops s tau d m = (Inr True, s')"
  shows "\<exists>A b'. insertKnotsB ops (basis s) tau d m = Some (A, b')
           \<and> cols A = cols (coefficients s)
           \<and> s' = s\<lparr>basis := b',
                    coefficients := product (coefficients s) (transpose_matrix A),
                    knotaverages := product (knotaverages s) (transpose_matrix A)\<rparr>"
proof (cases "insertKnotsB ops (basis s) tau d m")
  case None
  with assms show ?thesis by (auto simp: insertKnots_def split: if_splits)
next
  case (Some Ab)
  obtain A b' where Ab: "Ab = (A, b')" by (cases Ab)
  from assms Some Ab have c: "cols A = cols (coefficients s)"
    and r: "rightMultiply (transpose_matrix A) (s\<lparr>basis := b'\<rparr>) = (Inr True, s')"
    by (auto simp: insertKnots_def Let_def split: if_splits)
  from rightMultiply_True [OF r] c Some Ab show ?thesis by simp
qed

lemma init_skip: "init ops s = (Inr (), s)"
  by (simp add: init_def)

lemma loadBasis_knotaverages:
  assumes "loadBasis ops s kvs degs = (Inr r, s')"
  shows "computeKnotAverages (s\<lparr>basis := BSplineBasis_explicit kvs degs\<rparr>) = (Inr (), s')"
proof -
  let ?s1 = "s\<lparr>basis := BSplineBasis_explicit kvs degs\<rparr>"
  obtain x s2 where c: "computeKnotAverages ?s1 = (x, s2)"
    by (cases "computeKnotAverages ?s1")
  from assms have one: "rows (coefficients s) = 1"
    by (auto simp: loadBasis_def split: if_splits)
  show ?thesis
  proof (cases x)
    case (Inl e)
    with assms one c show ?thesis by (simp add: loadBasis_def)
  next
    case (Inr u)
    with assms one c have "s' = s2"
      by (simp add: loadBasis_def init_skip split: sum.splits)
    with c Inr show ?thesis by simp
  qed
qed

lemma length_kroneckerProduct: "length (kroneckerProduct u v) = length u * length v"
  by (induction u) (simp_all add: kroneckerProduct_def)

lemma nth_kroneckerProduct:
  "k < length u * length v \<Longrightarrow>
   kroneckerProduct u v ! k = u ! (k div length v) * v ! (k mod length v)"
proof (induction u arbitrary: k)
  case Nil
  then show ?case by simp
next
  case (Cons a u)
  have kp: "kroneckerProduct (a # u) v = map (\<lambda>c. a * c) v @ kroneckerProduct u v"
    by (simp add: kroneckerProduct_def)
  from Cons.prems have pos: "0 < length v" by (cases v) simp_all
  show ?case
  proof (cases "k < length v")
    case True
    then show ?thesis by (simp add: kp nth_append)
  next
    case False
    then obtain k' where k': "k = length v + k'"
      using le_Suc_ex [of "length v" k] by auto
    with Cons.prems have "k' < length u * length v" by simp
    from Cons.IH [OF this] have
      "kroneckerProduct u v ! k' = u ! (k' div length v) * v ! (k' mod length v)" .
    moreover have "k div length v = Suc (k' div length v)"
      using pos k' by simp
    moreover have "k mod length v = k' mod length v"
      using k' by simp
    ultimately show ?thesis
      using k' by (simp add: kp nth_append)
  qed
qed

lemma kroneckerProduct_ones:
  "kroneckerProduct (replicate m 1) (replicate n 1) = replicate (m * n) 1"
  by (induction m) (simp_all add: kroneckerProduct_def replicate_add map_replicate_const)


lemma length_knotAverages1D: "length (knotAverages1D b) = numBasisFunctions1D b"
  by (simp add: knotAverages1D_def)

lemma knotAverageRow_Suc:
  "knotAverageRow b (Suc n) i =
     kroneckerProduct (knotAverageRow b n i)
       (if i = n then knotAverages1D (b ! n)
        else replicate (numBasisFunctions1D (b ! n)) 1)"
  by (simp add: knotAverageRow_def length_knotAverages1D)

lemma numBasisFunctions_take_Suc:
  "n < length b \<Longrightarrow>
   numBasisFunctions (take (Suc n) b) = numBasisFunctions (take n b) * numBasisFunctions1D (b ! n)"
  by (simp add: numBasisFunctions_def take_Suc_conv_app_nth)

lemma length_knotAverageRow:
  "n \<le> length b \<Longrightarrow> length (knotAverageRow b n i) = numBasisFunctions (take n b)"
proof (induction n)
  case 0
  then show ?case by (simp add: knotAverageRow_def numBasisFunctions_def)
next
  case (Suc n)
  then show ?case
    by (simp add: knotAverageRow_Suc length_kroneckerProduct numBasisFunctions_take_Suc
        length_knotAverages1D)
qed

lemma knotAverageRow_ones:
  "n \<le> length b \<Longrightarrow> n \<le> i \<Longrightarrow>
   knotAverageRow b n i = replicate (numBasisFunctions (take n b)) 1"
proof (induction n)
  case 0
  then show ?case by (simp add: knotAverageRow_def numBasisFunctions_def)
next
  case (Suc n)
  then show ?case
    by (simp add: knotAverageRow_Suc kroneckerProduct_ones numBasisFunctions_take_Suc)
qed

lemma nth_knotAverageRow:
  "n \<le> length b \<Longrightarrow> i < n \<Longrightarrow> k < numBasisFunctions (take n b) \<Longrightarrow>
   knotAverageRow b n i ! k =
     knotAverages1D (b ! i)
       ! ((k div numBasisFunctions (drop (Suc i) (take n b))) mod numBasisFunctions1D (b ! i))"
proof (induction n arbitrary: k)
  case 0
  then show ?case by simp
next
  case (Suc n)
  let ?m = "numBasisFunctions1D (b ! n)"
  from Suc.prems have n: "n < length b" by simp
  have k: "k < numBasisFunctions (take n b) * ?m"
    using Suc.prems(3) by (simp add: numBasisFunctions_take_Suc [OF n])
  show ?case
  proof (cases "i = n")
    case True
    have row: "knotAverageRow b n i = replicate (numBasisFunctions (take n b)) 1"
      using knotAverageRow_ones [of n b i] n True by simp
    have pos: "0 < ?m" using k by (cases "?m") simp_all
    have "k div ?m < numBasisFunctions (take n b)"
      using k pos by (simp add: less_mult_imp_div_less)
    then have "knotAverageRow b (Suc n) i ! k = knotAverages1D (b ! n) ! (k mod ?m)"
      using True k row
      by (simp add: knotAverageRow_Suc nth_kroneckerProduct length_knotAverages1D)
    moreover have "drop (Suc i) (take (Suc n) b) = []"
      using True by simp
    ultimately show ?thesis using True by (simp add: numBasisFunctions_def)
  next
    case False
    with Suc.prems(2) have i: "i < n" by simp
    have pos: "0 < ?m" using k by (cases "?m") simp_all
    have kd: "k div ?m < numBasisFunctions (take n b)"
      using k pos by (simp add: less_mult_imp_div_less)
    have len: "length (knotAverageRow b n i) = numBasisFunctions (take n b)"
      using length_knotAverageRow n by simp
    have "knotAverageRow b (Suc n) i ! k = knotAverageRow b n i ! (k div ?m)"
      using False k len pos
      by (simp add: knotAverageRow_Suc nth_kroneckerProduct)
    also have "\<dots> = knotAverages1D (b ! i)
        ! (((k div ?m) div numBasisFunctions (drop (Suc i) (take n b)))
            mod numBasisFunctions1D (b ! i))"
      using Suc.IH [OF _ i kd] n by simp
    also have "(k div ?m) div numBasisFunctions (drop (Suc i) (take n b))
        = k div numBasisFunctions (drop (Suc i) (take (Suc n) b))"
      using i n
      by (simp add: take_Suc_conv_app_nth numBasisFunctions_def div_mult2_eq mult.commute)
    finally show ?thesis .
  qed
qed


lemma sum_list_knots:
  "sum_list (map f [j + 1..<j + p + 1]) = (\<Sum>k = j + 1..j + p. f k)"
proof -
  have "sum_list (map f [j + 1..<j + p + 1]) = sum f (set [j + 1..<j + p + 1])"
    by (rule interv_sum_list_conv_sum_set_nat)
  also have "set [j + 1..<j + p + 1] = {j + 1..j + p}" by auto
  finally show ?thesis .
qed

lemma nth_knotAverages1D:
  "j < numBasisFunctions1D b \<Longrightarrow>
   knotAverages1D b ! j
     = (\<Sum>k = j + 1..j + unat (degree b). knots b ! k) / real (unat (degree b))"
proof -
  assume "j < numBasisFunctions1D b"
  then have "knotAverages1D b ! j
      = sum_list (map (\<lambda>k. knots b ! k) [j + 1..<j + unat (degree b) + 1])
        / real (unat (degree b))"
    unfolding knotAverages1D_def by (subst nth_map) simp_all
  then show ?thesis by (simp only: sum_list_knots)
qed

lemma computeKnotAverages_result:
  assumes "computeKnotAverages s = (Inr (), s')"
  shows "s' = s\<lparr>knotaverages :=
                 \<lparr>rows = numVariables s, cols = numBasisFunctions (basis s),
                  elems = map (knotAverageRow (basis s) (numVariables s)) [0..<numVariables s]\<rparr>\<rparr>"
    and "list_all (\<lambda>mu_ext. length mu_ext = numBasisFunctions (basis s))
           (map (knotAverageRow (basis s) (numVariables s)) [0..<numVariables s])"
  using assms by (auto simp: computeKnotAverages_def Let_def split: if_splits)

lemma computeKnotAverages_entries:
  assumes run: "computeKnotAverages s = (Inr (), s')"
    and len: "length (basis s) = numVariables s"
  shows "rows (knotaverages s') = numVariables s
       \<and> cols (knotaverages s') = numBasisFunctions (basis s)
       \<and> wf_matrix (knotaverages s')
       \<and> basis s' = basis s
       \<and> (\<forall>i j. i < numVariables s \<longrightarrow> j < numBasisFunctions (basis s)
            \<longrightarrow> 0 < unat (degree (basis s ! i))
            \<longrightarrow> tensorIndex (basis s) i j + unat (degree (basis s ! i))
                  < length (knots (basis s ! i))
                \<and> elems (knotaverages s') ! i ! j
                  = (\<Sum>k = tensorIndex (basis s) i j + 1
                          ..tensorIndex (basis s) i j + unat (degree (basis s ! i)).
                        knots (basis s ! i) ! k)
                    / real (unat (degree (basis s ! i))))"
proof (intro conjI allI impI)
  note res = computeKnotAverages_result [OF run]
  show "rows (knotaverages s') = numVariables s" using res(1) by simp
  show "cols (knotaverages s') = numBasisFunctions (basis s)" using res(1) by simp
  show "wf_matrix (knotaverages s')" using res by (simp add: wf_matrix_def)
  show "basis s' = basis s" using res(1) by simp
  fix i j
  assume i: "i < numVariables s" and j: "j < numBasisFunctions (basis s)"
    and p: "0 < unat (degree (basis s ! i))"
  have pos: "0 < numBasisFunctions1D (basis s ! i)"
  proof (rule ccontr)
    assume "\<not> 0 < numBasisFunctions1D (basis s ! i)"
    then have "numBasisFunctions1D (basis s ! i) \<in> set (map numBasisFunctions1D (basis s))"
      "numBasisFunctions1D (basis s ! i) = 0"
      using i len by auto
    then have "numBasisFunctions (basis s) = 0"
      unfolding numBasisFunctions_def by (metis prod_list_zero_iff)
    with j show False by simp
  qed
  then have t: "tensorIndex (basis s) i j < numBasisFunctions1D (basis s ! i)"
    by (simp add: tensorIndex_def)
  then show "tensorIndex (basis s) i j + unat (degree (basis s ! i)) < length (knots (basis s ! i))"
    by (simp add: numBasisFunctions1D_def)
  have "elems (knotaverages s') ! i ! j = knotAverageRow (basis s) (numVariables s) i ! j"
    using res(1) i by simp
  also have "\<dots> = knotAverages1D (basis s ! i) ! tensorIndex (basis s) i j"
    using nth_knotAverageRow [of "numVariables s" "basis s" i j] i j len
    by (simp add: tensorIndex_def)
  also have "\<dots> = (\<Sum>k = tensorIndex (basis s) i j + 1
                          ..tensorIndex (basis s) i j + unat (degree (basis s ! i)).
                        knots (basis s ! i) ! k)
                    / real (unat (degree (basis s ! i)))"
    using t by (rule nth_knotAverages1D)
  finally show "elems (knotaverages s') ! i ! j
                  = (\<Sum>k = tensorIndex (basis s) i j + 1
                          ..tensorIndex (basis s) i j + unat (degree (basis s ! i)).
                        knots (basis s ! i) ! k)
                    / real (unat (degree (basis s ! i)))" .
qed

text \<open>
  C9, as the claim states it, fails in its last part: after a knot insertion the knot
  averages are the old ones times the transposed insertion matrix, not the averages of
  the new knot vector.  With the abscissas 5 and 7 set by \<open>setControlPoints\<close>, inserting
  the knot 1/2 leaves the knot averages 5, 6, 7, where \<open>computeKnotAverages\<close> gives
  0, 1/2, 1 on the new knot vector.
\<close>

theorem knot_averages_not_recomputed_counterexample:
  "setControlPoints example_surface \<lparr>rows = 2, cols = 2, elems = [[5, 7], [1, 2]]\<rparr>
     = (Inr (), example_surface\<lparr>knotaverages := \<lparr>rows = 1, cols = 2, elems = [[5, 7]]\<rparr>\<rparr>)
   \<and> insertKnots reference_ops
        (example_surface\<lparr>knotaverages := \<lparr>rows = 1, cols = 2, elems = [[5, 7]]\<rparr>\<rparr>) (1/2) 0 1
     = (Inr True,
        \<lparr>basis = [\<lparr>knots = [0, 0, 1/2, 1, 1], degree = 1\<rparr>],
         coefficients = \<lparr>rows = 1, cols = 3, elems = [[1, 3/2, 2]]\<rparr>,
         knotaverages = \<lparr>rows = 1, cols = 3, elems = [[5, 6, 7]]\<rparr>,
         numVariables = 1\<rparr>)
   \<and> computeKnotAverages
        \<lparr>basis = [\<lparr>knots = [0, 0, 1/2, 1, 1], degree = 1\<rparr>],
         coefficients = \<lparr>rows = 1, cols = 3, elems = [[1, 3/2, 2]]\<rparr>,
         knotaverages = \<lparr>rows = 1, cols = 3, elems = [[5, 6, 7]]\<rparr>,
         numVariables = 1\<rparr>
     = (Inr (),
        \<lparr>basis = [\<lparr>knots = [0, 0, 1/2, 1, 1], degree = 1\<rparr>],
         coefficients = \<lparr>rows = 1, cols = 3, elems = [[1, 3/2, 2]]\<rparr>,
         knotaverages = \<lparr>rows = 1, cols = 3, elems = [[0, 1/2, 1]]\<rparr>,
         numVariables = 1\<rparr>)"
  by code_simp

text \<open>
  C9, amended.  The matrix that \<open>computeKnotAverages\<close> computes has \<open>numVariables\<close> rows
  and \<open>numBasisFunctions\<close> columns, and for a dimension \<open>i\<close> of positive degree its entry
  \<open>(i, j)\<close> is the mean of the \<open>degree\<^sub>i\<close> knots at the positions \<open>j\<^sub>i + 1\<close> to
  \<open>j\<^sub>i + degree\<^sub>i\<close> of the knot vector of dimension \<open>i\<close>, where \<open>j\<^sub>i\<close> is the index of
  \<open>j\<close> in dimension \<open>i\<close>; these positions exist.  \<open>loadBasis\<close> (explicit construction
  and \<open>load\<close>) computes the matrix so.  A knot insertion does not: it multiplies the
  matrix it finds by the transposed insertion matrix.
\<close>

theorem knot_averages:
  "(computeKnotAverages s = (Inr (), s') \<longrightarrow> length (basis s) = numVariables s
      \<longrightarrow> rows (knotaverages s') = numVariables s
        \<and> cols (knotaverages s') = numBasisFunctions (basis s)
        \<and> wf_matrix (knotaverages s')
        \<and> (\<forall>i j. i < numVariables s \<longrightarrow> j < numBasisFunctions (basis s)
              \<longrightarrow> 0 < unat (degree (basis s ! i))
              \<longrightarrow> tensorIndex (basis s) i j + unat (degree (basis s ! i))
                    < length (knots (basis s ! i))
                  \<and> elems (knotaverages s') ! i ! j
                    = (\<Sum>k = tensorIndex (basis s) i j + 1
                            ..tensorIndex (basis s) i j + unat (degree (basis s ! i)).
                          knots (basis s ! i) ! k)
                      / real (unat (degree (basis s ! i)))))
   \<and> (\<forall>r. loadBasis ops s0 kvs degs = (Inr r, s1)
        \<longrightarrow> computeKnotAverages (s0\<lparr>basis := BSplineBasis_explicit kvs degs\<rparr>) = (Inr (), s1))
   \<and> (insertKnots ops s tau d m = (Inr True, s2)
        \<longrightarrow> (\<exists>A b'. insertKnotsB ops (basis s) tau d m = Some (A, b') \<and> basis s2 = b'
               \<and> knotaverages s2 = product (knotaverages s) (transpose_matrix A)))"
proof (intro conjI allI impI)
  assume run: "computeKnotAverages s = (Inr (), s')" and len: "length (basis s) = numVariables s"
  note e = computeKnotAverages_entries [OF run len]
  from e show "rows (knotaverages s') = numVariables s" by blast
  from e show "cols (knotaverages s') = numBasisFunctions (basis s)" by blast
  from e show "wf_matrix (knotaverages s')" by blast
  fix i j
  assume "i < numVariables s" "j < numBasisFunctions (basis s)"
    "0 < unat (degree (basis s ! i))"
  with e show "tensorIndex (basis s) i j + unat (degree (basis s ! i))
                    < length (knots (basis s ! i))"
    and "elems (knotaverages s') ! i ! j
                    = (\<Sum>k = tensorIndex (basis s) i j + 1
                            ..tensorIndex (basis s) i j + unat (degree (basis s ! i)).
                          knots (basis s ! i) ! k)
                      / real (unat (degree (basis s ! i)))"
    by blast+
next
  fix r
  assume "loadBasis ops s0 kvs degs = (Inr r, s1)"
  then show "computeKnotAverages (s0\<lparr>basis := BSplineBasis_explicit kvs degs\<rparr>) = (Inr (), s1)"
    by (rule loadBasis_knotaverages)
next
  assume "insertKnots ops s tau d m = (Inr True, s2)"
  from insertKnots_True [OF this]
  show "\<exists>A b'. insertKnotsB ops (basis s) tau d m = Some (A, b') \<and> basis s2 = b'
               \<and> knotaverages s2 = product (knotaverages s) (transpose_matrix A)"
    by auto
qed

theorem knot_averages_witness:
  "BSpline_explicit reference_ops \<lparr>rows = 1, cols = 8, elems = [[1, 2, 3, 4, 5, 6, 7, 8]]\<rparr>
     [[0, 0, 1, 1], [0, 0, 0, 1, 2, 2, 2]] [1, 2] = (Inr (), example_surface2)
   \<and> tensorIndex (basis example_surface2) 1 6 = 2
   \<and> elems (knotaverages example_surface2) ! 1 ! 6
       = (\<Sum>k = 3..4. knots (basis example_surface2 ! 1) ! k) / 2
   \<and> insertKnots reference_ops example_surface (1/2) 0 1
       = (Inr True,
          \<lparr>basis = [\<lparr>knots = [0, 0, 1/2, 1, 1], degree = 1\<rparr>],
           coefficients = \<lparr>rows = 1, cols = 3, elems = [[1, 3/2, 2]]\<rparr>,
           knotaverages = \<lparr>rows = 1, cols = 3, elems = [[0, 1/2, 1]]\<rparr>,
           numVariables = 1\<rparr>)
   \<and> (\<exists>A b'. insertKnotsB reference_ops (basis example_surface) (1/2) 0 1 = Some (A, b')
        \<and> \<lparr>rows = 1, cols = 3, elems = [[0, 1/2, 1]]\<rparr>
            = product (knotaverages example_surface) (transpose_matrix A))"
proof -
  let ?init = "\<lparr>basis = [], coefficients = \<lparr>rows = 1, cols = 8, elems = [[1, 2, 3, 4, 5, 6, 7, 8]]\<rparr>,
        knotaverages = empty_matrix, numVariables = length [[0, 0, 1, 1], [0, 0, 0, 1, 2, 2, 2 :: real]]\<rparr>"
  let ?s' = "\<lparr>basis = [\<lparr>knots = [0, 0, 1/2, 1, 1], degree = 1\<rparr>],
           coefficients = \<lparr>rows = 1, cols = 3, elems = [[1, 3/2, 2]]\<rparr>,
           knotaverages = \<lparr>rows = 1, cols = 3, elems = [[0, 1/2, 1]]\<rparr>,
           numVariables = 1\<rparr>"
  have ex: "BSpline_explicit reference_ops \<lparr>rows = 1, cols = 8, elems = [[1, 2, 3, 4, 5, 6, 7, 8]]\<rparr>
     [[0, 0, 1, 1], [0, 0, 0, 1, 2, 2, 2]] [1, 2] = (Inr (), example_surface2)"
    by code_simp
  have ins: "insertKnots reference_ops example_surface (1/2) 0 1 = (Inr True, ?s')"
    by code_simp
  have run: "computeKnotAverages example_surface2 = (Inr (), example_surface2)"
    by code_simp
  have facts: "length (basis example_surface2) = numVariables example_surface2"
    "1 < numVariables example_surface2"
    "6 < numBasisFunctions (basis example_surface2)"
    "0 < unat (degree (basis example_surface2 ! 1))"
    by (simp_all add: example_surface2_def numBasisFunctions_def numBasisFunctions1D_def)
  have d2: "unat (degree (basis example_surface2 ! 1)) = 2"
    by (simp add: example_surface2_def)
  have t: "tensorIndex (basis example_surface2) 1 6 = 2"
    by (simp add: tensorIndex_def example_surface2_def numBasisFunctions_def
        numBasisFunctions1D_def)
  from knot_averages [of example_surface2 example_surface2] run facts
  have "elems (knotaverages example_surface2) ! 1 ! 6
      = (\<Sum>k = tensorIndex (basis example_surface2) 1 6 + 1
             ..tensorIndex (basis example_surface2) 1 6 + unat (degree (basis example_surface2 ! 1)).
            knots (basis example_surface2 ! 1) ! k)
        / real (unat (degree (basis example_surface2 ! 1)))"
    by blast
  then have e: "elems (knotaverages example_surface2) ! 1 ! 6
       = (\<Sum>k = 3..4. knots (basis example_surface2 ! 1) ! k) / 2"
    unfolding t d2 by simp
  from knot_averages [of example_surface example_surface reference_ops example_surface
        "[]" "[]" example_surface "1/2" 0 1 ?s'] ins
  have "\<exists>A b'. insertKnotsB reference_ops (basis example_surface) (1/2) 0 1 = Some (A, b')
        \<and> basis ?s' = b'
        \<and> knotaverages ?s' = product (knotaverages example_surface) (transpose_matrix A)"
    by blast
  then have i: "\<exists>A b'. insertKnotsB reference_ops (basis example_surface) (1/2) 0 1 = Some (A, b')
        \<and> \<lparr>rows = 1, cols = 3, elems = [[0, 1/2, 1]]\<rparr>
            = product (knotaverages example_surface) (transpose_matrix A)"
    by auto
  show ?thesis using ex t e ins i by simp
qed

section \<open>Knot insertion preserves the function\<close>

lemma column_transpose:
  assumes "wf_matrix A" and "i < rows A"
  shows "column (transpose_matrix A) i = elems A ! i"
proof -
  have len: "length (elems A ! i) = cols A"
    using assms by (simp add: wf_matrix_def list_all_length)
  have "column (transpose_matrix A) i = map (\<lambda>j. elems A ! i ! j) [0..<cols A]"
    using assms by (simp add: column_def transpose_matrix_def wf_matrix_def)
  also have "\<dots> = elems A ! i"
    using len map_nth [of "elems A ! i"] by simp
  finally show ?thesis .
qed


lemma product_transpose_row:
  assumes wfA: "wf_matrix A" and c: "elems C = [r]" 
  shows "elems (product C (transpose_matrix A)) = [map (\<lambda>i. dot r (elems A ! i)) [0..<rows A]]"
proof -
  have "map (\<lambda>i. dot r (column (transpose_matrix A) i)) [0..<rows A]
      = map (\<lambda>i. dot r (elems A ! i)) [0..<rows A]"
    using column_transpose [OF wfA] by simp
  then show ?thesis
    using c by (simp add: product_def transpose_matrix_def)
qed

text \<open>
  C2.  A successful \<open>insertKnots(tau, d, m)\<close> leaves the evaluated function unchanged:
  at every point \<open>x\<close> of the domain (before and after), \<open>eval(x)\<close> after the insertion
  is \<open>eval(x)\<close> before it, because the new coefficients are the old coefficients
  times the transpose of the insertion matrix, and the insertion matrix that the basis
  layer returns expresses the old basis functions by the new ones at \<open>x\<close>.
\<close>

theorem insertKnots_preserves_eval:
  assumes ins: "insertKnots ops s tau d m = (Inr True, s')"
    and wfc: "wf_matrix (coefficients s)" and one: "rows (coefficients s) = 1"
    and dom: "pointInDomain s x" and dom': "pointInDomain s' x"
    and same: "\<And>A b'. insertKnotsB ops (basis s) tau d m = Some (A, b')
                 \<Longrightarrow> represents_same_basis ops (basis s) A b' x"
  shows "eval ops s' x = eval ops s x
       \<and> (\<exists>A b'. insertKnotsB ops (basis s) tau d m = Some (A, b')
             \<and> coefficients s' = product (coefficients s) (transpose_matrix A))"
proof -
  from insertKnots_True [OF ins] obtain A b' where
    AB: "insertKnotsB ops (basis s) tau d m = Some (A, b')"
    and cA: "cols A = cols (coefficients s)"
    and s': "s' = s\<lparr>basis := b',
                    coefficients := product (coefficients s) (transpose_matrix A),
                    knotaverages := product (knotaverages s) (transpose_matrix A)\<rparr>"
    by blast
  from same [OF AB] have wfA: "wf_matrix A"
    and rA: "rows A = length (evalB ops b' x)"
    and cB: "cols A = length (evalB ops (basis s) x)"
    and idn: "\<And>j. j < cols A \<Longrightarrow>
        evalB ops (basis s) x ! j = (\<Sum>i<rows A. elems A ! i ! j * evalB ops b' x ! i)"
    by (auto simp: represents_same_basis_def list_all_iff)
  from wfc one obtain r where r: "elems (coefficients s) = [r]" "length r = cols (coefficients s)"
    by (cases "elems (coefficients s)") (auto simp: wf_matrix_def)
  let ?B = "evalB ops (basis s) x" and ?B' = "evalB ops b' x"
  have rowlen: "length (elems A ! i) = cols A" if "i < rows A" for i
    using wfA that by (simp add: wf_matrix_def list_all_length)
  have old: "eval ops s x = Inr (dot r ?B)"
    using dom r cA cB by (simp add: eval_def mult_vec_def)
  have new: "eval ops s' x = Inr (dot (map (\<lambda>i. dot r (elems A ! i)) [0..<rows A]) ?B')"
    using dom' s' rA product_transpose_row [OF wfA r(1)]
    by (simp add: eval_def mult_vec_def pointInDomain_def product_def transpose_matrix_def)
  have "dot (map (\<lambda>i. dot r (elems A ! i)) [0..<rows A]) ?B'
      = (\<Sum>i<rows A. dot r (elems A ! i) * ?B' ! i)"
    using rA by (simp add: dot_sum)
  also have "\<dots> = (\<Sum>i<rows A. (\<Sum>j<cols A. r ! j * elems A ! i ! j) * ?B' ! i)"
    using rowlen r(2) cA by (intro sum.cong refl) (simp add: dot_sum)
  also have "\<dots> = (\<Sum>i<rows A. \<Sum>j<cols A. r ! j * (elems A ! i ! j * ?B' ! i))"
    by (simp add: sum_distrib_right mult.assoc)
  also have "\<dots> = (\<Sum>j<cols A. \<Sum>i<rows A. r ! j * (elems A ! i ! j * ?B' ! i))"
    by (rule sum.swap)
  also have "\<dots> = (\<Sum>j<cols A. r ! j * ?B ! j)"
    using idn by (intro sum.cong refl) (simp add: sum_distrib_left)
  also have "\<dots> = dot r ?B"
    using r(2) cA cB by (simp add: dot_sum)
  finally have "eval ops s' x = eval ops s x" using old new by simp
  moreover have "coefficients s' = product (coefficients s) (transpose_matrix A)"
    using s' by simp
  ultimately show ?thesis using AB by blast
qed


text \<open>The example: inserting the knot 1/2 into the example surface.  The reference
  basis layer returns an insertion matrix that expresses the old basis by the new one
  at every point of \<open>[0, 1]\<close>.\<close>

lemma old_basis:
  "evalB reference_ops (basis example_surface) [t]
     = [(1 - t) * (if (0 \<le> t \<and> t < 1) \<or> t = 1 then 1 else 0),
        t * (if (0 \<le> t \<and> t < 1) \<or> t = 1 then 1 else 0)]"
  by (simp add: reference_ops_def example_surface_def evalTensor_def evalBasis1D_def
      numBasisFunctions1D_def kroneckerProduct_def upt_rec numeral_2_eq_2 numeral_3_eq_3)


lemma example_inserted:
  "insertKnotsB reference_ops (basis example_surface) (1/2) 0 1
     = Some (\<lparr>rows = 3, cols = 2, elems = [[1, 0], [1/2, 1/2], [0, 1]]\<rparr>,
             [\<lparr>knots = [0, 0, 1/2, 1, 1], degree = 1\<rparr>])"
  by code_simp

lemma new_basis:
  assumes "0 \<le> t" and "t \<le> 1"
  shows "evalB reference_ops [\<lparr>knots = [0, 0, 1/2, 1, 1], degree = 1\<rparr>] [t]
     = (if t < 1/2 then [1 - 2 * t, 2 * t, 0] else [0, 2 - 2 * t, 2 * t - 1])"
  using assms
  by (auto simp: reference_ops_def evalTensor_def evalBasis1D_def
      numBasisFunctions1D_def kroneckerProduct_def upt_rec numeral_2_eq_2 numeral_3_eq_3
      field_simps)

lemma example_same_basis:
  assumes "0 \<le> t" and "t \<le> 1"
  shows "represents_same_basis reference_ops (basis example_surface)
           \<lparr>rows = 3, cols = 2, elems = [[1, 0], [1/2, 1/2], [0, 1]]\<rparr>
           [\<lparr>knots = [0, 0, 1/2, 1, 1], degree = 1\<rparr>] [t]"
  unfolding represents_same_basis_def new_basis [OF assms] old_basis
  using assms
  by (auto simp: wf_matrix_def upt_rec lessThan_Suc numeral_2_eq_2 numeral_3_eq_3 field_simps)


theorem insertKnots_preserves_eval_witness:
  "insertKnots reference_ops example_surface (1/2) 0 1
     = (Inr True,
        \<lparr>basis = [\<lparr>knots = [0, 0, 1/2, 1, 1], degree = 1\<rparr>],
         coefficients = \<lparr>rows = 1, cols = 3, elems = [[1, 3/2, 2]]\<rparr>,
         knotaverages = \<lparr>rows = 1, cols = 3, elems = [[0, 1/2, 1]]\<rparr>,
         numVariables = 1\<rparr>)
   \<and> eval reference_ops example_surface [1/4] = Inr (5/4)
   \<and> (\<forall>t. eval reference_ops
              \<lparr>basis = [\<lparr>knots = [0, 0, 1/2, 1, 1], degree = 1\<rparr>],
               coefficients = \<lparr>rows = 1, cols = 3, elems = [[1, 3/2, 2]]\<rparr>,
               knotaverages = \<lparr>rows = 1, cols = 3, elems = [[0, 1/2, 1]]\<rparr>,
               numVariables = 1\<rparr> [max 0 (min 1 t)]
            = eval reference_ops example_surface [max 0 (min 1 t)])"
proof -
  let ?s' = "\<lparr>basis = [\<lparr>knots = [0, 0, 1/2, 1, 1], degree = 1\<rparr>],
         coefficients = \<lparr>rows = 1, cols = 3, elems = [[1, 3/2, 2]]\<rparr>,
         knotaverages = \<lparr>rows = 1, cols = 3, elems = [[0, 1/2, 1]]\<rparr>,
         numVariables = 1\<rparr>"
  have ins: "insertKnots reference_ops example_surface (1/2) 0 1 = (Inr True, ?s')"
    by code_simp
  have wf: "wf_matrix (coefficients example_surface)" "rows (coefficients example_surface) = 1"
    by (simp_all add: example_surface_def wf_matrix_def)
  have e: "eval reference_ops example_surface [1/4] = Inr (5/4)"
    by code_simp
  have "eval reference_ops ?s' [max 0 (min 1 t)]
      = eval reference_ops example_surface [max 0 (min 1 t)]" for t :: real
  proof -
    let ?u = "max 0 (min 1 t)"
    have u: "0 \<le> ?u" "?u \<le> 1" by simp_all
    have dom: "pointInDomain example_surface [?u]" "pointInDomain ?s' [?u]"
      using u
      by (simp_all add: pointInDomain_def insideSupport_def example_surface_def
          lowerBound_def upperBound_def)
    show ?thesis
    proof (rule insertKnots_preserves_eval [OF ins wf dom, THEN conjunct1])
      fix A b'
      assume "insertKnotsB reference_ops (basis example_surface) (1/2) 0 1 = Some (A, b')"
      with example_inserted have "A = \<lparr>rows = 3, cols = 2, elems = [[1, 0], [1/2, 1/2], [0, 1]]\<rparr>"
        "b' = [\<lparr>knots = [0, 0, 1/2, 1, 1], degree = 1\<rparr>]" by simp_all
      with example_same_basis [OF u]
      show "represents_same_basis reference_ops (basis example_surface) A b' [?u]"
        by simp
    qed
  qed
  with ins e show ?thesis by simp
qed

section \<open>Saving and loading\<close>

declare show_nat.simps [simp del]

lemma of_char_digit_nat: "n < 10 \<Longrightarrow> (of_char (char_of (48 + n)) :: nat) = 48 + n"
  for n :: nat
  by simp

lemma of_char_digit_int: "n < 10 \<Longrightarrow> (of_char (char_of (48 + n)) :: int) = 48 + int n"
  for n :: nat
proof -
  assume n: "n < 10"
  have "(of_char (char_of (48 + n)) :: int) = int (of_char (char_of (48 + n)))"
    by (simp only: of_nat_of_char)
  also have "\<dots> = int (48 + n)"
    using n by (simp only: of_char_digit_nat)
  finally show ?thesis by simp
qed

lemma isdigit_char_of: "n < 10 \<Longrightarrow> isdigit (char_of (48 + n))"
  for n :: nat
  by (simp add: isdigit_def)

lemma isdigit_not_other:
  "isdigit c \<Longrightarrow> \<not> isspace c \<and> c \<noteq> CHR ''-'' \<and> c \<noteq> CHR ''+'' \<and> c \<noteq> CHR ''#''"
  by (auto simp: isdigit_def isspace_def)

lemma show_nat_digits: "list_all isdigit (show_nat n)"
proof (induction n rule: show_nat.induct)
  case (1 n)
  show ?case
  proof (cases "n < 10")
    case True
    then show ?thesis by (subst show_nat.simps) (simp add: isdigit_char_of)
  next
    case False
    with 1 show ?thesis by (subst show_nat.simps) (simp add: isdigit_char_of)
  qed
qed

lemma show_nat_nonempty: "show_nat n \<noteq> []"
  by (subst show_nat.simps) simp

lemma digits_value_snoc: "digits_value (ds @ [c]) = 10 * digits_value ds + (of_char c - 48)"
  by (simp add: digits_value_def)

lemma digits_value_show_nat: "digits_value (show_nat n) = int n"
proof (induction n rule: show_nat.induct)
  case (1 n)
  show ?case
  proof (cases "n < 10")
    case True
    then show ?thesis by (subst show_nat.simps) (simp add: digits_value_def of_char_digit_int)
  next
    case False
    have "digits_value (show_nat n) = 10 * int (n div 10) + int (n mod 10)"
      using False 1 by (subst show_nat.simps) (simp add: digits_value_snoc of_char_digit_int)
    also have "\<dots> = int (10 * (n div 10) + n mod 10)"
      by (simp only: of_nat_add of_nat_mult of_nat_numeral)
    also have "10 * (n div 10) + n mod 10 = n"
      by (rule mult_div_mod_eq)
    finally show ?thesis .
  qed
qed

lemma strtol_show_nat:
  assumes "rest = [] \<or> \<not> isdigit (hd rest)"
  shows "strtol (show_nat n @ rest) = Some (int n, rest)"
    and "strtol (CHR '' '' # show_nat n @ rest) = Some (int n, rest)"
proof -
  obtain c cs where cs: "show_nat n = c # cs"
    using show_nat_nonempty [of n] by (cases "show_nat n") auto
  have dig: "list_all isdigit (c # cs)"
    using show_nat_digits [of n] cs by simp
  then have c: "isdigit c" by simp
  note other = isdigit_not_other [OF c]
  have tw: "takeWhile isdigit ((c # cs) @ rest) = c # cs"
    using dig assms by (cases rest) (auto simp: list_all_iff takeWhile_append2 [where ys = rest] takeWhile_eq_all_conv)
  have dw: "dropWhile isdigit ((c # cs) @ rest) = rest"
    using dig assms by (cases rest) (auto simp: list_all_iff dropWhile_append2 [where ys = rest] dropWhile_eq_Nil_conv)
  have v: "digits_value (c # cs) = int n"
    using digits_value_show_nat [of n] cs by simp
  have sp: "isspace (CHR '' '')" by (simp add: isspace_def)
  show "strtol (show_nat n @ rest) = Some (int n, rest)"
    unfolding cs strtol_def using other tw dw v by (simp add: Let_def)
  show "strtol (CHR '' '' # show_nat n @ rest) = Some (int n, rest)"
    unfolding cs strtol_def using other tw dw v sp by (simp add: Let_def)
qed


lemma readDoubles_spaced:
  "list_all (reads_back showDouble strtod p) vs \<Longrightarrow>
   readDoubles strtod (length vs) (CHR '' '' # numberLine showDouble p vs) = Inr vs"
proof (induction vs)
  case Nil
  then show ?case by simp
next
  case (Cons v vs)
  then have "strtod (CHR '' '' # showDouble p v @ CHR '' '' # numberLine showDouble p vs)
      = Some (v, CHR '' '' # numberLine showDouble p vs, False)"
    by (simp add: reads_back_def)
  with Cons show ?case
    by (simp add: numberLine_def checked_strtod_def)
qed

lemma readDoubles_numberLine:
  "list_all (reads_back showDouble strtod p) vs \<Longrightarrow>
   readDoubles strtod (length vs) (numberLine showDouble p vs) = Inr vs"
proof (cases vs)
  case Nil
  then show ?thesis by simp
next
  case (Cons v ws)
  assume a: "list_all (reads_back showDouble strtod p) vs"
  with Cons have "strtod (showDouble p v @ CHR '' '' # numberLine showDouble p ws)
      = Some (v, CHR '' '' # numberLine showDouble p ws, False)"
    by (simp add: reads_back_def)
  moreover have "readDoubles strtod (length ws) (CHR '' '' # numberLine showDouble p ws) = Inr ws"
    using a Cons by (intro readDoubles_spaced) simp
  ultimately show ?thesis
    using Cons by (simp add: numberLine_def checked_strtod_def)
qed

lemma numberLine_head:
  "list_all (reads_back showDouble strtod p) vs \<Longrightarrow> vs \<noteq> [] \<Longrightarrow>
   numberLine showDouble p vs \<noteq> [] \<and> hd (numberLine showDouble p vs) \<noteq> CHR ''#''"
  by (cases vs) (auto simp: numberLine_def reads_back_def hd_append split: if_splits)

lemma checked_strtol_show_nat:
  assumes "n < 2 ^ 31" and "rest = [] \<or> \<not> isdigit (hd rest)"
  shows "checked_strtol (show_nat n @ rest) = Inr (int n, rest)"
    and "checked_strtol (CHR '' '' # show_nat n @ rest) = Inr (int n, rest)"
  using assms strtol_show_nat [OF assms(2), of n]
  by (simp_all add: checked_strtol_def)

lemma show_nat_head: "show_nat n @ rest \<noteq> [] \<and> hd (show_nat n @ rest) \<noteq> CHR ''#''"
proof -
  obtain c cs where cs: "show_nat n = c # cs"
    using show_nat_nonempty [of n] by (cases "show_nat n") auto
  with show_nat_digits [of n] have "isdigit c" by simp
  from isdigit_not_other [OF this] cs show ?thesis by simp
qed


lemma unat_word_of_nat: "n < 2 ^ 31 \<Longrightarrow> unat (word_of_nat n :: uint) = n"
  by (simp add: unat_of_nat)

lemma loadLines_comment:
  "loadLines strtod ((CHR ''#'' # text) # rest) L = loadLines strtod rest L"
  by simp

lemma loadLines_count:
  assumes "state L = 0" and "n < 2 ^ 31"
  shows "loadLines strtod (show_nat n # rest) L
       = loadLines strtod rest (L\<lparr>numVariablesL := n, state := 1\<rparr>)"
proof -
  have "checked_strtol (show_nat n) = Inr (int n, [])"
    using checked_strtol_show_nat(1) [OF assms(2), of "[]" ] by simp
  moreover have "show_nat n \<noteq> [] \<and> hd (show_nat n) \<noteq> CHR ''#''"
    using show_nat_head [of n "[]"] by simp
  ultimately show ?thesis
    using assms
    by (subst loadLines.simps(2)) (simp add: unat_word_of_nat del: loadLines.simps)
qed

lemma loadLines_basis:
  assumes st: "state L = 1" and b: "savable_basis showDouble strtod b"
  shows "loadLines strtod (degreeLine b # numberLine showDouble 17 (knots b) # rest) L
       = loadLines strtod rest
           (L\<lparr>basisDegrees := basisDegrees L @ [degree b],
              knotVectors := knotVectors L @ [knots b],
              knotVecLength := int (length (knots b)),
              basisNum := basisNum L + 1,
              state := (if nat (basisNum L + 1) \<ge> numVariablesL L then 3 else 1)\<rparr>)"
proof -
  let ?L1 = "L\<lparr>basisDegrees := basisDegrees L @ [degree b],
                 knotVecLength := int (length (knots b)), state := 2\<rparr>"
  from b have deg: "0 < unat (degree b)" "unat (degree b) < 2 ^ 31"
    and k: "knots b \<noteq> []" "length (knots b) < 2 ^ 31"
    and rb: "list_all (reads_back showDouble strtod 17) (knots b)"
    by (simp_all add: savable_basis_def)
  have sp: "\<not> isdigit (CHR '' '')" by (simp add: isdigit_def)
  have first: "checked_strtol (degreeLine b)
      = Inr (int (unat (degree b)), CHR '' '' # show_nat (length (knots b)))"
    unfolding degreeLine_def
    using checked_strtol_show_nat(1) [OF deg(2), of "CHR '' '' # show_nat (length (knots b))"] sp
    by simp
  have second: "checked_strtol (CHR '' '' # show_nat (length (knots b)))
      = Inr (int (length (knots b)), [])"
    using checked_strtol_show_nat(2) [OF k(2), of "[]"] by simp
  have head1: "degreeLine b \<noteq> [] \<and> hd (degreeLine b) \<noteq> CHR ''#''"
    unfolding degreeLine_def by (rule show_nat_head)
  have pos: "0 < uint (degree b)"
  proof -
    have "uint (degree b) = int (unat (degree b))" by simp
    with deg(1) show ?thesis by linarith
  qed
  have step1: "loadLines strtod (degreeLine b # numberLine showDouble 17 (knots b) # rest) L
      = loadLines strtod (numberLine showDouble 17 (knots b) # rest) ?L1"
    using st head1 first second pos
    by (subst loadLines.simps(2)) (simp del: loadLines.simps)
  have head2: "numberLine showDouble 17 (knots b) \<noteq> []
      \<and> hd (numberLine showDouble 17 (knots b)) \<noteq> CHR ''#''"
    using numberLine_head [OF rb k(1)] .
  have rd: "readDoubles strtod (nat (knotVecLength ?L1)) (numberLine showDouble 17 (knots b))
      = Inr (knots b)"
    using readDoubles_numberLine [OF rb] by simp
  have step2: "loadLines strtod (numberLine showDouble 17 (knots b) # rest) ?L1
      = loadLines strtod rest
           (?L1\<lparr>knotVectors := knotVectors ?L1 @ [knots b], basisNum := basisNum ?L1 + 1,
                state := (if nat (basisNum ?L1 + 1) \<ge> numVariablesL ?L1 then 3 else 1)\<rparr>)"
    using head2 rd
    by (subst loadLines.simps(2)) (simp add: Let_def del: loadLines.simps)
  show ?thesis
    unfolding step1 step2
    by (rule arg_cong [where f = "loadLines strtod rest"], rule load_locals.equality) simp_all
qed


declare loadLines.simps [simp del]

lemma loadLines_bases:
  assumes "list_all (savable_basis showDouble strtod) bs" and "bs \<noteq> []"
    and "n = i + length bs"
  shows "loadLines strtod
           (concat (map (\<lambda>b. [degreeLine b, numberLine showDouble 17 (knots b)]) bs) @ rest)
           \<lparr>state = 1, numVariablesL = n, basisDegrees = ds, knotVectors = ks, cRows = r,
            cCols = c, cRowIdx = ri, basisNum = int i, knotVecLength = kl, coefficientsL = C\<rparr>
       = loadLines strtod rest
           \<lparr>state = 3, numVariablesL = n, basisDegrees = ds @ map degree bs,
            knotVectors = ks @ map knots bs, cRows = r, cCols = c, cRowIdx = ri,
            basisNum = int (i + length bs), knotVecLength = int (length (knots (last bs))),
            coefficientsL = C\<rparr>"
  using assms
proof (induction bs arbitrary: i ds ks kl)
  case Nil
  then show ?case by simp
next
  case (Cons b bs)
  let ?L = "\<lparr>state = 1, numVariablesL = n, basisDegrees = ds, knotVectors = ks, cRows = r,
            cCols = c, cRowIdx = ri, basisNum = int i, knotVecLength = kl, coefficientsL = C\<rparr>"
  from Cons.prems have b: "savable_basis showDouble strtod b"
    and bs: "list_all (savable_basis showDouble strtod) bs" by simp_all
  have st: "state ?L = 1" by simp
  have e: "basisNum ?L + 1 = int (Suc i)" by simp
  note step = loadLines_basis [OF st b,
      of "concat (map (\<lambda>b. [degreeLine b, numberLine showDouble 17 (knots b)]) bs) @ rest",
      unfolded e nat_int]
  show ?case
  proof (cases "bs = []")
    case True
    with Cons.prems(3) have n: "n = i + 1" by simp
    show ?thesis using step True n by simp
  next
    case False
    with Cons.prems(3) have n: "n = Suc i + length bs" "\<not> n \<le> Suc i" by simp_all
    have "loadLines strtod
           (concat (map (\<lambda>b. [degreeLine b, numberLine showDouble 17 (knots b)]) (b # bs)) @ rest) ?L
        = loadLines strtod
           (concat (map (\<lambda>b. [degreeLine b, numberLine showDouble 17 (knots b)]) bs) @ rest)
           \<lparr>state = 1, numVariablesL = n, basisDegrees = ds @ [degree b],
            knotVectors = ks @ [knots b], cRows = r, cCols = c, cRowIdx = ri,
            basisNum = int (Suc i), knotVecLength = int (length (knots b)), coefficientsL = C\<rparr>"
      using step n(2) by simp
    also have "\<dots> = loadLines strtod rest
           \<lparr>state = 3, numVariablesL = n, basisDegrees = (ds @ [degree b]) @ map degree bs,
            knotVectors = (ks @ [knots b]) @ map knots bs, cRows = r, cCols = c, cRowIdx = ri,
            basisNum = int (Suc i + length bs), knotVecLength = int (length (knots (last bs))),
            coefficientsL = C\<rparr>"
      by (rule Cons.IH [OF bs False n(1)])
    finally show ?thesis using False by simp
  qed
qed


lemma loadLines_matrix:
  assumes c: "0 < c" "c < 2 ^ 31" and row: "length row = c"
    and rb: "list_all (reads_back showDouble strtod 17) row"
  shows "loadLines strtod
           [''# Coefficient matrix:'', show_nat 1 @ '' '' @ show_nat c,
            numberLine showDouble 17 row]
           \<lparr>state = 3, numVariablesL = n, basisDegrees = ds, knotVectors = ks, cRows = r0,
            cCols = c0, cRowIdx = 0, basisNum = bn, knotVecLength = kl, coefficientsL = C\<rparr>
       = Inr \<lparr>state = 4, numVariablesL = n, basisDegrees = ds, knotVectors = ks, cRows = 1,
              cCols = int c, cRowIdx = 1, basisNum = bn, knotVecLength = kl,
              coefficientsL = \<lparr>rows = 1, cols = c, elems = [row]\<rparr>\<rparr>"
proof -
  let ?L3 = "\<lparr>state = 3, numVariablesL = n, basisDegrees = ds, knotVectors = ks, cRows = r0,
            cCols = c0, cRowIdx = 0, basisNum = bn, knotVecLength = kl, coefficientsL = C\<rparr>"
  let ?L4 = "\<lparr>state = 4, numVariablesL = n, basisDegrees = ds, knotVectors = ks, cRows = 1,
            cCols = int c, cRowIdx = 0, basisNum = bn, knotVecLength = kl,
            coefficientsL = \<lparr>rows = 1, cols = c, elems = [replicate c 0]\<rparr>\<rparr>"
  let ?dims = "show_nat 1 @ '' '' @ show_nat c"
  have sp: "\<not> isdigit (CHR '' '')" by (simp add: isdigit_def)
  have one: "(1 :: nat) < 2 ^ 31" by simp
  have first: "checked_strtol ?dims = Inr (1, CHR '' '' # show_nat c)"
    using checked_strtol_show_nat(1) [OF one, of "CHR '' '' # show_nat c"] sp by simp
  have second: "checked_strtol (CHR '' '' # show_nat c) = Inr (int c, [])"
    using checked_strtol_show_nat(2) [OF c(2), of "[]"] by simp
  have head: "?dims \<noteq> [] \<and> hd ?dims \<noteq> CHR ''#''"
    by (rule show_nat_head)
  have rowne: "row \<noteq> []" using c(1) row by auto
  have head2: "numberLine showDouble 17 row \<noteq> [] \<and> hd (numberLine showDouble 17 row) \<noteq> CHR ''#''"
    using numberLine_head [OF rb rowne] .
  have rd: "readDoubles strtod (nat (int c)) (numberLine showDouble 17 row) = Inr row"
    using readDoubles_numberLine [OF rb] row by simp
  have s1: "loadLines strtod [''# Coefficient matrix:'', ?dims, numberLine showDouble 17 row] ?L3
      = loadLines strtod [?dims, numberLine showDouble 17 row] ?L3"
    by (simp add: loadLines_comment)
  have s2: "loadLines strtod [?dims, numberLine showDouble 17 row] ?L3
      = loadLines strtod [numberLine showDouble 17 row] ?L4"
    using head first second
    by (subst loadLines.simps(2)) simp
  have s3: "loadLines strtod [numberLine showDouble 17 row] ?L4
      = Inr \<lparr>state = 4, numVariablesL = n, basisDegrees = ds, knotVectors = ks, cRows = 1,
              cCols = int c, cRowIdx = 1, basisNum = bn, knotVecLength = kl,
              coefficientsL = \<lparr>rows = 1, cols = c, elems = [row]\<rparr>\<rparr>"
    using head2 rd
    by (subst loadLines.simps(2)) (simp add: Let_def loadLines.simps(1))
  show ?thesis unfolding s1 s2 s3 ..
qed

lemma map_index: "map (\<lambda>i. f (xs ! i)) [0..<length xs] = map f xs"
  by (rule nth_equalityI) simp_all

lemma save_lines:
  assumes sv: "savable showDouble strtod s" and row: "elems (coefficients s) = [row]"
  shows "save showDouble s
       = Inr ([''# Saved BSpline'', ''# Number of bases: '' @ show_nat (numVariables s),
               show_nat (numVariables s)]
              @ concat (map (\<lambda>b. [degreeLine b, numberLine showDouble 17 (knots b)]) (basis s))
              @ [''# Coefficient matrix:'', show_nat 1 @ '' '' @ show_nat (cols (coefficients s)),
                 numberLine showDouble 17 row])"
proof -
  let ?b = "basis s" and ?n = "numVariables s"
  from sv have n: "?n = length ?b" "0 < ?n"
    and bs: "list_all (savable_basis showDouble strtod) ?b"
    and wf: "wf_matrix (coefficients s)" and one: "rows (coefficients s) = 1"
    unfolding savable_def by blast+
  have len: "length row = cols (coefficients s)"
    using wf row by (simp add: wf_matrix_def)
  have bases: "map (\<lambda>i. [show_nat (unat (getBasisDegree ?b i)) @ '' ''
                            @ show_nat (length (getKnotVectors ?b ! i)),
                          concat (map (\<lambda>v. showDouble 17 v @ '' '') (getKnotVectors ?b ! i))])
                 [0..<?n]
      = map (\<lambda>b. [degreeLine b, numberLine showDouble 17 (knots b)]) ?b"
    unfolding n(1)
    by (rule nth_equalityI)
      (simp_all add: getBasisDegree_def getKnotVectors_def degreeLine_def numberLine_def)
  have "knots (?b ! 0) \<noteq> []"
    using bs n by (simp add: list_all_length savable_basis_def)
  then have prec: "list_ex (\<lambda>i. getKnotVectors ?b ! i \<noteq> []) [0..<?n]"
    using n by (auto simp: list_ex_iff getKnotVectors_def intro!: bexI [where x = 0])
  have mat: "concat (map (\<lambda>j. showDouble 17 (elems (coefficients s) ! 0 ! j) @ '' '')
                       [0..<cols (coefficients s)])
      = numberLine showDouble 17 row"
    using row len map_index [of "\<lambda>v. showDouble 17 v @ '' ''" row]
    by (simp add: numberLine_def)
  show ?thesis
    unfolding save_def Let_def bases
    using n prec one mat by simp
qed


lemma BSplineBasis_explicit_maps: "BSplineBasis_explicit (map knots b) (map degree b) = b"
  by (induction b) (simp_all add: BSplineBasis_explicit_def)

lemma computeKnotAverages_total:
  assumes "length (basis s) = numVariables s"
  shows "computeKnotAverages s
       = (Inr (), s\<lparr>knotaverages :=
                       \<lparr>rows = numVariables s, cols = numBasisFunctions (basis s),
                        elems = map (knotAverageRow (basis s) (numVariables s))
                                  [0..<numVariables s]\<rparr>\<rparr>)"
proof -
  have "length (knotAverageRow (basis s) (numVariables s) i) = numBasisFunctions (basis s)" for i
    using length_knotAverageRow [of "numVariables s" "basis s" i] assms by simp
  then show ?thesis
    using assms by (simp add: computeKnotAverages_def list_all_iff)
qed

lemma load_of_save:
  assumes sv: "savable showDouble strtod s" and sl: "save showDouble s = Inr fileLines"
  shows "load strtod ops s0 fileLines = (Inr (), reloaded s)"
proof -
  let ?b = "basis s" and ?n = "numVariables s" and ?c = "cols (coefficients s)"
  from sv have n: "?n = length ?b" "0 < ?n" "?n < 2 ^ 31"
    and bs: "list_all (savable_basis showDouble strtod) ?b"
    and wf: "wf_matrix (coefficients s)" and one: "rows (coefficients s) = 1"
    and c: "0 < ?c" "?c < 2 ^ 31" "?c = numBasisFunctions ?b"
    and rb: "list_all (list_all (reads_back showDouble strtod 17)) (elems (coefficients s))"
    unfolding savable_def by blast+
  from wf one obtain row where row: "elems (coefficients s) = [row]" "length row = ?c"
    by (cases "elems (coefficients s)") (auto simp: wf_matrix_def)
  from rb row have rbrow: "list_all (reads_back showDouble strtod 17) row" by simp
  have bne: "?b \<noteq> []" using n by auto
  let ?bases = "concat (map (\<lambda>b. [degreeLine b, numberLine showDouble 17 (knots b)]) ?b)"
  let ?matrix = "[''# Coefficient matrix:'', show_nat 1 @ '' '' @ show_nat ?c,
                  numberLine showDouble 17 row]"
  have lines: "fileLines = [''# Saved BSpline'', ''# Number of bases: '' @ show_nat ?n, show_nat ?n]
                 @ ?bases @ ?matrix"
    using save_lines [OF sv row(1)] sl by simp
  let ?L1 = "\<lparr>state = 1, numVariablesL = ?n, basisDegrees = [], knotVectors = [], cRows = 0,
            cCols = 0, cRowIdx = 0, basisNum = int 0, knotVecLength = 0,
            coefficientsL = coefficients s0\<rparr>"
  have st0: "state (load_initial s0) = 0" by (simp add: load_initial_def)
  have h: "loadLines strtod fileLines (load_initial s0) = loadLines strtod (?bases @ ?matrix) ?L1"
    unfolding lines
    using loadLines_count [OF st0 n(3), of strtod "?bases @ ?matrix"]
    by (simp add: loadLines_comment load_initial_def)
  have b: "loadLines strtod (?bases @ ?matrix) ?L1
      = loadLines strtod ?matrix
          \<lparr>state = 3, numVariablesL = ?n, basisDegrees = [] @ map degree ?b,
            knotVectors = [] @ map knots ?b, cRows = 0, cCols = 0, cRowIdx = 0,
            basisNum = int (0 + length ?b), knotVecLength = int (length (knots (last ?b))),
            coefficientsL = coefficients s0\<rparr>"
    using n(1) by (intro loadLines_bases [OF bs bne]) simp
  have m: "loadLines strtod ?matrix
          \<lparr>state = 3, numVariablesL = ?n, basisDegrees = [] @ map degree ?b,
            knotVectors = [] @ map knots ?b, cRows = 0, cCols = 0, cRowIdx = 0,
            basisNum = int (0 + length ?b), knotVecLength = int (length (knots (last ?b))),
            coefficientsL = coefficients s0\<rparr>
      = Inr \<lparr>state = 4, numVariablesL = ?n, basisDegrees = [] @ map degree ?b,
            knotVectors = [] @ map knots ?b, cRows = 1, cCols = int ?c, cRowIdx = 1,
            basisNum = int (0 + length ?b), knotVecLength = int (length (knots (last ?b))),
            coefficientsL = \<lparr>rows = 1, cols = ?c, elems = [row]\<rparr>\<rparr>"
    by (rule loadLines_matrix [OF c(1,2) row(2) rbrow])
  have co: "\<lparr>rows = 1, cols = ?c, elems = [row]\<rparr> = coefficients s"
    using one row by (intro DenseMatrix.equality) simp_all
  let ?s1 = "s0\<lparr>numVariables := ?n, coefficients := coefficients s, basis := ?b\<rparr>"
  have ka: "computeKnotAverages ?s1
      = (Inr (), ?s1\<lparr>knotaverages :=
                       \<lparr>rows = ?n, cols = numBasisFunctions ?b,
                        elems = map (knotAverageRow ?b ?n) [0..<?n]\<rparr>\<rparr>)"
    using computeKnotAverages_total [of ?s1] n(1) by simp
  have lb: "loadBasis ops (s0\<lparr>numVariables := ?n, coefficients := coefficients s\<rparr>)
              (map knots ?b) (map degree ?b) = (Inr (), reloaded s)"
    unfolding loadBasis_def BSplineBasis_explicit_maps Let_def
    using one ka c(3)
    by (simp add: init_skip checkControlPoints_def reloaded_def)
  show ?thesis
    unfolding load_def h b m using lb co by simp
qed

text \<open>
  C7, as the claim states it, fails for a surface with a basis of degree 0.  The explicit
  constructor builds it and \<open>save\<close> writes it; \<open>load\<close> stops at \<open>assert(curDegree > 0)\<close>.
\<close>

theorem save_load_degree0_counterexample:
  "fst (BSpline_explicit reference_ops \<lparr>rows = 1, cols = 1, elems = [[5]]\<rparr> [[0, 1]] [0]) = Inr ()
   \<and> save showDouble_integers degree0_surface
       = Inr [''# Saved BSpline'', ''# Number of bases: 1'', ''1'', ''0 2'', ''0 1 '',
              ''# Coefficient matrix:'', ''1 1'', ''5 '']
   \<and> load strtod_integers reference_ops empty_surface
         [''# Saved BSpline'', ''# Number of bases: 1'', ''1'', ''0 2'', ''0 1 '',
          ''# Coefficient matrix:'', ''1 1'', ''5 '']
       = (Inl assertion_failure, empty_surface)"
  by code_simp

text \<open>
  C7, amended.  For every savable surface, \<open>save\<close> followed by \<open>load\<close> succeeds and gives
  the surface with the same knot vectors, degrees and coefficient matrix, its knot
  averages computed anew from the knot vectors; \<open>eval\<close>, the Jacobian and the Hessian
  of the loaded surface are those of the original at every point.
\<close>

theorem save_load_round_trip:
  assumes "savable showDouble strtod s"
  shows "\<exists>fileLines. save showDouble s = Inr fileLines
           \<and> load strtod ops s0 fileLines = (Inr (), reloaded s)
           \<and> getKnotVectors (basis (reloaded s)) = getKnotVectors (basis s)
           \<and> map degree (basis (reloaded s)) = map degree (basis s)
           \<and> coefficients (reloaded s) = coefficients s
           \<and> eval ops (reloaded s) x = eval ops s x
           \<and> evalJacobian evalBasisJacobianOld (reloaded s) x
               = evalJacobian evalBasisJacobianOld s x
           \<and> evalHessian evalBasisHessian (reloaded s) x = evalHessian evalBasisHessian s x"
proof -
  obtain row where row: "elems (coefficients s) = [row]"
    using assms by (cases "elems (coefficients s)") (auto simp: savable_def wf_matrix_def)
  from save_lines [OF assms row] obtain fileLines where sl: "save showDouble s = Inr fileLines"
    by blast
  have "load strtod ops s0 fileLines = (Inr (), reloaded s)"
    using load_of_save [OF assms sl] .
  with sl show ?thesis
    by (auto simp: reloaded_def eval_def evalJacobian_def evalHessian_def pointInDomain_def)
qed

lemma reads_back_integers:
  "reads_back showDouble_integers strtod_integers p (real n)"
proof -
  have sp: "\<not> isdigit (CHR '' '')" by (simp add: isdigit_def)
  have "strtol (show_nat n @ CHR '' '' # rest) = Some (int n, CHR '' '' # rest)"
    and "strtol (CHR '' '' # show_nat n @ CHR '' '' # rest) = Some (int n, CHR '' '' # rest)"
    for rest
    using strtol_show_nat [of "CHR '' '' # rest" n] sp by simp_all
  moreover have "hd (show_nat n @ '' '') \<noteq> CHR ''#''"
    using show_nat_head [of n "'' ''"] by simp
  ultimately show ?thesis
    by (simp add: reads_back_def showDouble_integers_def strtod_integers_def)
qed

lemma reads_back_numerals:
  "reads_back showDouble_integers strtod_integers p 0"
  "reads_back showDouble_integers strtod_integers p 1"
  "reads_back showDouble_integers strtod_integers p (numeral k)"
  using reads_back_integers [of p 0] reads_back_integers [of p 1]
    reads_back_integers [of p "numeral k"]
  by simp_all

lemma savable_example: "savable showDouble_integers strtod_integers example_surface2"
  by (simp add: savable_def savable_basis_def example_surface2_def reads_back_numerals
      wf_matrix_def numBasisFunctions_def numBasisFunctions1D_def)

theorem save_load_round_trip_witness:
  "save showDouble_integers example_surface2
     = Inr [''# Saved BSpline'', ''# Number of bases: 2'', ''2'', ''1 4'', ''0 0 1 1 '',
            ''2 7'', ''0 0 0 1 2 2 2 '', ''# Coefficient matrix:'', ''1 8'',
            ''1 2 3 4 5 6 7 8 '']
   \<and> load strtod_integers reference_ops empty_surface
        [''# Saved BSpline'', ''# Number of bases: 2'', ''2'', ''1 4'', ''0 0 1 1 '',
            ''2 7'', ''0 0 0 1 2 2 2 '', ''# Coefficient matrix:'', ''1 8'',
            ''1 2 3 4 5 6 7 8 '']
       = (Inr (), reloaded example_surface2)
   \<and> reloaded example_surface2 = example_surface2"
proof -
  let ?lines = "[''# Saved BSpline'', ''# Number of bases: 2'', ''2'', ''1 4'', ''0 0 1 1 '',
            ''2 7'', ''0 0 0 1 2 2 2 '', ''# Coefficient matrix:'', ''1 8'',
            ''1 2 3 4 5 6 7 8 '']"
  have sl: "save showDouble_integers example_surface2 = Inr ?lines"
    by code_simp
  from save_load_round_trip [OF savable_example, of reference_ops empty_surface] sl
  have "load strtod_integers reference_ops empty_surface ?lines
      = (Inr (), reloaded example_surface2)"
    by auto
  moreover have "reloaded example_surface2 = example_surface2"
    by code_simp
  ultimately show ?thesis using sl by simp
qed

end
